theory Spec2Isabelle
  imports Complex_Main "HOL-Library.AList"
begin

section \<open>Numbers, points and arrays\<close>

text \<open>
  The module computes on numpy \<open>float64\<close> (and, for the complex step, \<open>complex128\<close>)
  arrays. The embedding idealises a finite float as a real (complex) number with exact
  arithmetic: no rounding, no overflow. Python's \<open>int\<close> is \<open>int\<close>.

  numpy does not raise on a division by zero: it warns and yields \<open>inf\<close> or \<open>nan\<close>.
  A float is therefore \<open>'a option\<close>: \<open>Some x\<close> is the finite value \<open>x\<close>, and \<open>None\<close>
  is a value that is not a finite number (\<open>inf\<close>, \<open>nan\<close>) or that was computed from one;
  the embedding does not follow \<open>inf\<close> and \<open>nan\<close> any further than that.

  The coordinates the geometry engine hands out are finite: a point is a row of an
  \<open>(N, 3)\<close> array of finite numbers.
\<close>

type_synonym 'a vec3 = "'a \<times> 'a \<times> 'a"
type_synonym point = "real vec3"
type_synonym npfloat = "real option"
type_synonym fvec = "npfloat vec3"

datatype error = IndexError | ValueError | KeyError

definition vmap :: "('a \<Rightarrow> 'b) \<Rightarrow> 'a vec3 \<Rightarrow> 'b vec3" where
  "vmap f v = (case v of (x, y, z) \<Rightarrow> (f x, f y, f z))"

definition vzip :: "('a \<Rightarrow> 'b \<Rightarrow> 'c) \<Rightarrow> 'a vec3 \<Rightarrow> 'b vec3 \<Rightarrow> 'c vec3" where
  "vzip f v w = (case v of (x, y, z) \<Rightarrow> (case w of (x', y', z') \<Rightarrow> (f x x', f y y', f z z')))"

definition vsub :: "'a::minus vec3 \<Rightarrow> 'a vec3 \<Rightarrow> 'a vec3" where
  "vsub = vzip (\<lambda>a b. a - b)"

definition vadd :: "'a::plus vec3 \<Rightarrow> 'a vec3 \<Rightarrow> 'a vec3" where
  "vadd = vzip (\<lambda>a b. a + b)"

definition lift2 :: "('a \<Rightarrow> 'b \<Rightarrow> 'c) \<Rightarrow> 'a option \<Rightarrow> 'b option \<Rightarrow> 'c option" where
  "lift2 f a b =
     (case a of None \<Rightarrow> None
      | Some x \<Rightarrow> (case b of None \<Rightarrow> None | Some y \<Rightarrow> Some (f x y)))"

definition np_add :: "'a::plus option \<Rightarrow> 'a option \<Rightarrow> 'a option" where
  "np_add = lift2 (\<lambda>a b. a + b)"

definition np_mul :: "'a::times option \<Rightarrow> 'a option \<Rightarrow> 'a option" where
  "np_mul = lift2 (\<lambda>a b. a * b)"

definition np_neg :: "'a::uminus option \<Rightarrow> 'a option" where
  "np_neg a = map_option (\<lambda>x. - x) a"

definition np_div :: "'a::field option \<Rightarrow> 'a option \<Rightarrow> 'a option" where
  \<comment> \<open>numpy's true division: a zero divisor gives \<open>inf\<close> or \<open>nan\<close>, never an exception\<close>
  "np_div a b =
     (case a of None \<Rightarrow> None
      | Some x \<Rightarrow> (case b of None \<Rightarrow> None
                    | Some y \<Rightarrow> if y = 0 then None else Some (x / y)))"

definition fzero :: fvec where
  "fzero = (Some 0, Some 0, Some 0)"

definition getitem :: "'a list \<Rightarrow> nat \<Rightarrow> error + 'a" where
  \<comment> \<open>\<open>xs[i]\<close> for an index that is not negative\<close>
  "getitem xs i = (if i < length xs then Inr (xs ! i) else Inl IndexError)"

fun mapM_err :: "('a \<Rightarrow> error + 'b) \<Rightarrow> 'a list \<Rightarrow> error + 'b list" where
  "mapM_err f [] = Inr []"
| "mapM_err f (x # xs) =
     (case f x of
        Inl e \<Rightarrow> Inl e
      | Inr y \<Rightarrow> (case mapM_err f xs of Inl e \<Rightarrow> Inl e | Inr ys \<Rightarrow> Inr (y # ys)))"

definition py_range :: "int \<Rightarrow> nat list" where
  \<comment> \<open>\<open>range(n)\<close>: empty when \<open>n\<close> is negative\<close>
  "py_range n = [0..<nat n]"

definition euclideanNorm :: "point \<Rightarrow> real" where
  \<comment> \<open>Modelled from the spec: \<open>geo_utils.norm.euclideanNorm\<close> is not among the sources; the
      spec names it the Euclidean distance, the square root of the sum of the squares.\<close>
  "euclideanNorm v = (case v of (x, y, z) \<Rightarrow> sqrt (x * x + y * y + z * z))"

definition eDist :: "point \<Rightarrow> point \<Rightarrow> real" where
  \<comment> \<open>Modelled from the spec: \<open>geo_utils.eDist\<close> (also reached as \<open>geo_utils.norm.eDist\<close>) is
      not among the sources; the Euclidean distance between two points.\<close>
  "eDist x1 x2 = euclideanNorm (vsub x1 x2)"

section \<open>The geometry engine and the dictionaries\<close>

text \<open>
  \<open>DVGeo\<close> is an external collaborator. Its answers are fields of the record
  (\<open>update\<close>, \<open>getNDV\<close>, \<open>totalSensitivity\<close>), and the record keeps the list of the calls
  the constraint code makes, in order. A constraint object holds a reference to the
  engine; here the engine is passed to every method and returned with the calls added.
  A Python dictionary whose keys are iterated is an association list; the \<open>funcs\<close> and
  \<open>funcsSens\<close> dictionaries, which are only written, are maps.
\<close>

type_synonym config = "string option"
type_synonym compNames = "string list option"

datatype ndarray = Array2 "fvec list" | Array3 "fvec list list"

datatype 'kw call =
    AddPointSet "point list" string compNames "(string \<times> 'kw) list"
  | Update string config
  | GetNDV
  | TotalSensitivity ndarray string config

record ('kw, 'j) DVGeo =
  calls :: "'kw call list"
  update :: "string \<Rightarrow> config \<Rightarrow> point list"
  getNDV :: int
  totalSensitivity :: "ndarray \<Rightarrow> string \<Rightarrow> config \<Rightarrow> (string \<times> 'j) list"

definition DVGeo_addPointSet ::
  "('kw, 'j) DVGeo \<Rightarrow> point list \<Rightarrow> string \<Rightarrow> compNames \<Rightarrow> (string \<times> 'kw) list \<Rightarrow> ('kw, 'j) DVGeo" where
  "DVGeo_addPointSet g pts nm cn kwargs = g\<lparr>calls := calls g @ [AddPointSet pts nm cn kwargs]\<rparr>"

definition DVGeo_update ::
  "('kw, 'j) DVGeo \<Rightarrow> string \<Rightarrow> config \<Rightarrow> point list \<times> ('kw, 'j) DVGeo" where
  "DVGeo_update g nm cfg = (update g nm cfg, g\<lparr>calls := calls g @ [Update nm cfg]\<rparr>)"

definition DVGeo_getNDV :: "('kw, 'j) DVGeo \<Rightarrow> int \<times> ('kw, 'j) DVGeo" where
  "DVGeo_getNDV g = (getNDV g, g\<lparr>calls := calls g @ [GetNDV]\<rparr>)"

definition DVGeo_totalSensitivity ::
  "('kw, 'j) DVGeo \<Rightarrow> ndarray \<Rightarrow> string \<Rightarrow> config \<Rightarrow> (string \<times> 'j) list \<times> ('kw, 'j) DVGeo" where
  "DVGeo_totalSensitivity g seeds nm cfg =
     (totalSensitivity g seeds nm cfg, g\<lparr>calls := calls g @ [TotalSensitivity seeds nm cfg]\<rparr>)"

datatype funcval = FArray "npfloat list" | FScalar npfloat

type_synonym funcs = "string \<rightharpoonup> funcval"
type_synonym 'j funcsSens = "string \<rightharpoonup> (string \<times> 'j) list"

section \<open>The base class\<close>

record 'b GeometricConstraint =
  name :: string
  nCon :: int
  lower :: 'b
  upper :: 'b
  scale :: 'b
  addToPyOpt :: bool

definition GeometricConstraint_init ::
  "string \<Rightarrow> int \<Rightarrow> 'b \<Rightarrow> 'b \<Rightarrow> 'b \<Rightarrow> bool \<Rightarrow> 'b GeometricConstraint" where
  \<comment> \<open>Modelled from the spec: \<open>baseConstraint.GeometricConstraint.__init__\<close> is not among the
      sources; it keeps its arguments as the attributes the subclasses read.\<close>
  "GeometricConstraint_init nm n lo up sc add =
     \<lparr>name = nm, nCon = n, lower = lo, upper = up, scale = sc, addToPyOpt = add\<rparr>"

section \<open>ThicknessConstraint\<close>

record 'b ThicknessConstraint = "'b GeometricConstraint" +
  coords :: "point list"
  scaled :: bool
  D0 :: "real list"

definition toothpick :: "point list \<Rightarrow> nat \<Rightarrow> error + real" where
  \<comment> \<open>\<open>euclideanNorm(coords[2 * i] - coords[2 * i + 1])\<close>\<close>
  "toothpick cs i =
     (case getitem cs (2 * i) of
        Inl e \<Rightarrow> Inl e
      | Inr p1 \<Rightarrow> (case getitem cs (2 * i + 1) of
                     Inl e \<Rightarrow> Inl e
                   | Inr p2 \<Rightarrow> Inr (euclideanNorm (vsub p1 p2))))"

definition ThicknessConstraint_init ::
  "string \<Rightarrow> point list \<Rightarrow> 'b \<Rightarrow> 'b \<Rightarrow> bool \<Rightarrow> 'b \<Rightarrow> ('kw, 'j) DVGeo \<Rightarrow> bool \<Rightarrow> compNames
     \<Rightarrow> ('kw, 'j) DVGeo \<times> (error + 'b ThicknessConstraint)" where
  "ThicknessConstraint_init nm cs lo up scd sc g add cn =
     (let base = GeometricConstraint_init nm (int (length cs div 2)) lo up sc add;
          g1 = DVGeo_addPointSet g cs nm cn []
      in (g1,
          case mapM_err (toothpick cs) (py_range (nCon base)) of
            Inl e \<Rightarrow> Inl e
          | Inr d0 \<Rightarrow> Inr (GeometricConstraint.extend base
                             \<lparr>coords = cs, scaled = scd, D0 = d0\<rparr>)))"

definition ThicknessConstraint_entry :: "'b ThicknessConstraint \<Rightarrow> point list \<Rightarrow> nat \<Rightarrow> error + npfloat" where
  \<comment> \<open>the body of the loop of \<open>evalFunctions\<close>\<close>
  "ThicknessConstraint_entry self cs i =
     (case toothpick cs i of
        Inl e \<Rightarrow> Inl e
      | Inr d \<Rightarrow>
          if ThicknessConstraint.scaled self
          then (case getitem (ThicknessConstraint.D0 self) i of
                  Inl e \<Rightarrow> Inl e
                | Inr d0 \<Rightarrow> Inr (np_div (Some d) (Some d0)))
          else Inr (Some d))"

definition ThicknessConstraint_evalFunctions ::
  "'b ThicknessConstraint \<Rightarrow> ('kw, 'j) DVGeo \<Rightarrow> funcs \<Rightarrow> config
     \<Rightarrow> 'b ThicknessConstraint \<times> ('kw, 'j) DVGeo \<times> (error + funcs)" where
  "ThicknessConstraint_evalFunctions self g funcs cfg =
     (case DVGeo_update g (name self) cfg of
        (cs, g1) \<Rightarrow>
          let self1 = self\<lparr>ThicknessConstraint.coords := cs\<rparr> in
          (self1, g1,
           if nCon self1 < 0 then Inl ValueError
           else (case mapM_err (ThicknessConstraint_entry self1 cs) (py_range (nCon self1)) of
                   Inl e \<Rightarrow> Inl e
                 | Inr D \<Rightarrow> Inr (funcs(name self1 \<mapsto> FArray D)))))"


fun foldM_err :: "('a \<Rightarrow> 's \<Rightarrow> error + 's) \<Rightarrow> 'a list \<Rightarrow> 's \<Rightarrow> error + 's" where
  "foldM_err f [] s = Inr s"
| "foldM_err f (x # xs) s = (case f x s of Inl e \<Rightarrow> Inl e | Inr s' \<Rightarrow> foldM_err f xs s')"

definition np_zeros3 :: "int \<Rightarrow> nat \<Rightarrow> error + fvec list list" where
  \<comment> \<open>\<open>np.zeros((n, m, 3))\<close>; a negative dimension is refused\<close>
  "np_zeros3 n m = (if n < 0 then Inl ValueError else Inr (replicate (nat n) (replicate m fzero)))"

definition setitem3 :: "fvec list list \<Rightarrow> nat \<Rightarrow> nat \<Rightarrow> fvec \<Rightarrow> error + fvec list list" where
  \<comment> \<open>\<open>a[i, j, :] = v\<close> for indices that are not negative\<close>
  "setitem3 a i j v =
     (if i < length a \<and> j < length (a ! i) then Inr (a[i := (a ! i)[j := v]])
      else Inl IndexError)"

definition vdivs :: "fvec \<Rightarrow> npfloat \<Rightarrow> fvec" where
  \<comment> \<open>a vector divided by a scalar\<close>
  "vdivs v d = vmap (\<lambda>x. np_div x d) v"

definition vmuls :: "fvec \<Rightarrow> npfloat \<Rightarrow> fvec" where
  \<comment> \<open>a vector times a scalar\<close>
  "vmuls v d = vmap (\<lambda>x. np_mul x d) v"

definition vneg :: "fvec \<Rightarrow> fvec" where
  "vneg v = vmap np_neg v"

definition ThicknessConstraint_sens_step ::
  "(point \<Rightarrow> point \<Rightarrow> fvec \<times> fvec) \<Rightarrow> 'b ThicknessConstraint \<Rightarrow> nat \<Rightarrow> fvec list list
     \<Rightarrow> error + fvec list list" where
  \<comment> \<open>the body of the loop of \<open>evalFunctionsSens\<close>\<close>
  "ThicknessConstraint_sens_step eDist_b self i dTdPt =
     (case getitem (ThicknessConstraint.coords self) (2 * i) of
        Inl e \<Rightarrow> Inl e
      | Inr x1 \<Rightarrow>
     (case getitem (ThicknessConstraint.coords self) (2 * i + 1) of
        Inl e \<Rightarrow> Inl e
      | Inr x2 \<Rightarrow>
     (case eDist_b x1 x2 of (p1b, p2b) \<Rightarrow>
     (case (if ThicknessConstraint.scaled self
            then (case getitem (ThicknessConstraint.D0 self) i of
                    Inl e \<Rightarrow> Inl e
                  | Inr d0 \<Rightarrow> Inr (vdivs p1b (Some d0), vdivs p2b (Some d0)))
            else Inr (p1b, p2b)) of
        Inl e \<Rightarrow> Inl e
      | Inr (q1, q2) \<Rightarrow>
     (case setitem3 dTdPt i (2 * i) q1 of
        Inl e \<Rightarrow> Inl e
      | Inr a \<Rightarrow> setitem3 a i (2 * i + 1) q2)))))"

definition ThicknessConstraint_evalFunctionsSens ::
  "(point \<Rightarrow> point \<Rightarrow> fvec \<times> fvec) \<Rightarrow> 'b ThicknessConstraint \<Rightarrow> ('kw, 'j) DVGeo \<Rightarrow> 'j funcsSens
     \<Rightarrow> config \<Rightarrow> 'b ThicknessConstraint \<times> ('kw, 'j) DVGeo \<times> (error + 'j funcsSens)" where
  \<comment> \<open>\<open>eDist_b\<close> stands for \<open>geo_utils.eDist_b\<close>, which is not among the sources\<close>
  "ThicknessConstraint_evalFunctionsSens eDist_b self g funcsSens cfg =
     (case DVGeo_getNDV g of
        (nDV, g1) \<Rightarrow>
          if nDV > 0 then
            (case np_zeros3 (nCon self) (length (ThicknessConstraint.coords self)) of
               Inl e \<Rightarrow> (self, g1, Inl e)
             | Inr z \<Rightarrow>
            (case foldM_err (ThicknessConstraint_sens_step eDist_b self) (py_range (nCon self)) z of
               Inl e \<Rightarrow> (self, g1, Inl e)
             | Inr dTdPt \<Rightarrow>
            (case DVGeo_totalSensitivity g1 (Array3 dTdPt) (name self) cfg of
               (res, g2) \<Rightarrow> (self, g2, Inr (funcsSens(name self \<mapsto> res))))))
          else (self, g1, Inr funcsSens))"

function fmt_nat :: "nat \<Rightarrow> string" where
  "fmt_nat n =
     (if n < 10 then [''0123456789'' ! n]
      else fmt_nat (n div 10) @ [''0123456789'' ! (n mod 10)])"
  by pat_completeness auto
termination
  by (relation "measure (\<lambda>n. n)") auto

definition fmt_d :: "int \<Rightarrow> string" where
  \<comment> \<open>\<open>"%d" % n\<close>: the decimal digits of an integer, with a minus sign when negative\<close>
  "fmt_d n = (if n < 0 then CHR ''-'' # fmt_nat (nat (- n)) else fmt_nat (nat n))"


section \<open>ProjectedThicknessConstraint\<close>

record 'b ProjectedThicknessConstraint = "'b GeometricConstraint" +
  coords :: "point list"
  scaled :: bool
  D0 :: "real list"
  dir_vec :: "fvec list"

definition ProjectedThicknessConstraint_ref :: "point list \<Rightarrow> nat \<Rightarrow> error + real \<times> fvec" where
  \<comment> \<open>the body of the loop of the constructor: the reference length and direction\<close>
  "ProjectedThicknessConstraint_ref cs i =
     (case getitem cs (2 * i) of
        Inl e \<Rightarrow> Inl e
      | Inr p1 \<Rightarrow>
     (case getitem cs (2 * i + 1) of
        Inl e \<Rightarrow> Inl e
      | Inr p2 \<Rightarrow>
          let vec = vsub p1 p2; d0 = euclideanNorm vec
          in Inr (d0, vdivs (vmap Some vec) (Some d0))))"

definition ProjectedThicknessConstraint_init ::
  "string \<Rightarrow> point list \<Rightarrow> 'b \<Rightarrow> 'b \<Rightarrow> bool \<Rightarrow> 'b \<Rightarrow> ('kw, 'j) DVGeo \<Rightarrow> bool \<Rightarrow> compNames
     \<Rightarrow> ('kw, 'j) DVGeo \<times> (error + 'b ProjectedThicknessConstraint)" where
  "ProjectedThicknessConstraint_init nm cs lo up scd sc g add cn =
     (let base = GeometricConstraint_init nm (int (length cs div 2)) lo up sc add;
          g1 = DVGeo_addPointSet g cs nm cn []
      in (g1,
          case mapM_err (ProjectedThicknessConstraint_ref cs) (py_range (nCon base)) of
            Inl e \<Rightarrow> Inl e
          | Inr refs \<Rightarrow> Inr (GeometricConstraint.extend base
                             \<lparr>coords = cs, scaled = scd, D0 = map fst refs, dir_vec = map snd refs\<rparr>)))"

definition ProjectedThicknessConstraint_entry ::
  "'b ProjectedThicknessConstraint \<Rightarrow> point list \<Rightarrow> nat \<Rightarrow> error + npfloat" where
  \<comment> \<open>the body of the loop of \<open>evalFunctions\<close>\<close>
  "ProjectedThicknessConstraint_entry self cs i =
     (case getitem cs (2 * i) of
        Inl e \<Rightarrow> Inl e
      | Inr p1 \<Rightarrow>
     (case getitem cs (2 * i + 1) of
        Inl e \<Rightarrow> Inl e
      | Inr p2 \<Rightarrow>
     (case getitem (dir_vec self) i of
        Inl e \<Rightarrow> Inl e
      | Inr (n0, n1, n2) \<Rightarrow>
     (case vsub p1 p2 of
        (v0, v1, v2) \<Rightarrow>
          let d = np_add (np_add (np_mul (Some v0) n0) (np_mul (Some v1) n1)) (np_mul (Some v2) n2)
          in if ProjectedThicknessConstraint.scaled self
             then (case getitem (ProjectedThicknessConstraint.D0 self) i of
                     Inl e \<Rightarrow> Inl e
                   | Inr d0 \<Rightarrow> Inr (np_div d (Some d0)))
             else Inr d))))"

definition ProjectedThicknessConstraint_evalFunctions ::
  "'b ProjectedThicknessConstraint \<Rightarrow> ('kw, 'j) DVGeo \<Rightarrow> funcs \<Rightarrow> config
     \<Rightarrow> 'b ProjectedThicknessConstraint \<times> ('kw, 'j) DVGeo \<times> (error + funcs)" where
  "ProjectedThicknessConstraint_evalFunctions self g funcs cfg =
     (case DVGeo_update g (name self) cfg of
        (cs, g1) \<Rightarrow>
          let self1 = self\<lparr>ProjectedThicknessConstraint.coords := cs\<rparr> in
          (self1, g1,
           if nCon self1 < 0 then Inl ValueError
           else (case mapM_err (ProjectedThicknessConstraint_entry self1 cs) (py_range (nCon self1)) of
                   Inl e \<Rightarrow> Inl e
                 | Inr D \<Rightarrow> Inr (funcs(name self1 \<mapsto> FArray D)))))"

definition ProjectedThicknessConstraint_sens_step ::
  "'b ProjectedThicknessConstraint \<Rightarrow> nat \<Rightarrow> fvec list list \<Rightarrow> error + fvec list list" where
  \<comment> \<open>the body of the loop of \<open>evalFunctionsSens\<close>\<close>
  "ProjectedThicknessConstraint_sens_step self i dTdPt =
     (case (if ProjectedThicknessConstraint.scaled self
            then (case getitem (ProjectedThicknessConstraint.D0 self) i of
                    Inl e \<Rightarrow> Inl e
                  | Inr d0 \<Rightarrow> Inr (np_div (Some 1) (Some d0)))
            else Inr (Some 1)) of
        Inl e \<Rightarrow> Inl e
      | Inr D_b \<Rightarrow>
     (case getitem (dir_vec self) i of
        Inl e \<Rightarrow> Inl e
      | Inr n \<Rightarrow>
          let vec_b = vmuls n D_b in
     (case setitem3 dTdPt i (2 * i) vec_b of
        Inl e \<Rightarrow> Inl e
      | Inr a \<Rightarrow> setitem3 a i (2 * i + 1) (vneg vec_b))))"

definition ProjectedThicknessConstraint_evalFunctionsSens ::
  "'b ProjectedThicknessConstraint \<Rightarrow> ('kw, 'j) DVGeo \<Rightarrow> 'j funcsSens
     \<Rightarrow> config \<Rightarrow> 'b ProjectedThicknessConstraint \<times> ('kw, 'j) DVGeo \<times> (error + 'j funcsSens)" where
  "ProjectedThicknessConstraint_evalFunctionsSens self g funcsSens cfg =
     (case DVGeo_getNDV g of
        (nDV, g1) \<Rightarrow>
          if nDV > 0 then
            (case np_zeros3 (nCon self) (length (ProjectedThicknessConstraint.coords self)) of
               Inl e \<Rightarrow> (self, g1, Inl e)
             | Inr z \<Rightarrow>
            (case foldM_err (ProjectedThicknessConstraint_sens_step self) (py_range (nCon self)) z of
               Inl e \<Rightarrow> (self, g1, Inl e)
             | Inr dTdPt \<Rightarrow>
            (case DVGeo_totalSensitivity g1 (Array3 dTdPt) (name self) cfg of
               (res, g2) \<Rightarrow> (self, g2, Inr (funcsSens(name self \<mapsto> res))))))
          else (self, g1, Inr funcsSens))"

section \<open>ThicknessToChordConstraint\<close>

text \<open>
  The constructor measures with \<open>np.linalg.norm\<close> and \<open>evalFunctions\<close> with
  \<open>geo_utils.eDist\<close>. The two routines add the squares in different ways, and in
  \<open>float64\<close> their results for one vector can differ in the last digit. The constructor
  therefore takes numpy's routine as the parameter \<open>linalg_norm\<close>, and nothing is assumed
  about how its values compare with those of \<open>eDist\<close>.
\<close>

record 'b ThicknessToChordConstraint = "'b GeometricConstraint" +
  coords :: "point list"
  ToC0 :: "npfloat list"

definition get4 :: "point list \<Rightarrow> nat \<Rightarrow> error + point \<times> point \<times> point \<times> point" where
  \<comment> \<open>\<open>coords[4 * i]\<close>, \<open>coords[4 * i + 1]\<close>, \<open>coords[4 * i + 2]\<close>, \<open>coords[4 * i + 3]\<close>, read in
      this order\<close>
  "get4 cs i =
     (case getitem cs (4 * i) of
        Inl e \<Rightarrow> Inl e
      | Inr p1 \<Rightarrow>
     (case getitem cs (4 * i + 1) of
        Inl e \<Rightarrow> Inl e
      | Inr p2 \<Rightarrow>
     (case getitem cs (4 * i + 2) of
        Inl e \<Rightarrow> Inl e
      | Inr p3 \<Rightarrow>
     (case getitem cs (4 * i + 3) of
        Inl e \<Rightarrow> Inl e
      | Inr p4 \<Rightarrow> Inr (p1, p2, p3, p4)))))"

definition ThicknessToChordConstraint_ref :: "(point \<Rightarrow> real) \<Rightarrow> point list \<Rightarrow> nat \<Rightarrow> error + npfloat" where
  \<comment> \<open>the body of the loop of the constructor\<close>
  "ThicknessToChordConstraint_ref linalg_norm cs i =
     (case get4 cs i of
        Inl e \<Rightarrow> Inl e
      | Inr (p1, p2, p3, p4) \<Rightarrow>
          let t = linalg_norm (vsub p1 p2); c = linalg_norm (vsub p3 p4)
          in Inr (np_div (Some t) (Some c)))"

definition ThicknessToChordConstraint_init ::
  "(point \<Rightarrow> real) \<Rightarrow> string \<Rightarrow> point list \<Rightarrow> 'b \<Rightarrow> 'b \<Rightarrow> 'b \<Rightarrow> ('kw, 'j) DVGeo \<Rightarrow> bool \<Rightarrow> compNames
     \<Rightarrow> ('kw, 'j) DVGeo \<times> (error + 'b ThicknessToChordConstraint)" where
  "ThicknessToChordConstraint_init linalg_norm nm cs lo up sc g add cn =
     (let base = GeometricConstraint_init nm (int (length cs div 4)) lo up sc add;
          g1 = DVGeo_addPointSet g cs nm cn []
      in (g1,
          case mapM_err (ThicknessToChordConstraint_ref linalg_norm cs) (py_range (nCon base)) of
            Inl e \<Rightarrow> Inl e
          | Inr toc0 \<Rightarrow> Inr (GeometricConstraint.extend base \<lparr>coords = cs, ToC0 = toc0\<rparr>)))"

definition ThicknessToChordConstraint_entry ::
  "'b ThicknessToChordConstraint \<Rightarrow> point list \<Rightarrow> nat \<Rightarrow> error + npfloat" where
  \<comment> \<open>the body of the loop of \<open>evalFunctions\<close>\<close>
  "ThicknessToChordConstraint_entry self cs i =
     (case get4 cs i of
        Inl e \<Rightarrow> Inl e
      | Inr (p1, p2, p3, p4) \<Rightarrow>
          let t = eDist p1 p2; c = eDist p3 p4 in
     (case getitem (ThicknessToChordConstraint.ToC0 self) i of
        Inl e \<Rightarrow> Inl e
      | Inr toc0 \<Rightarrow> Inr (np_div (np_div (Some t) (Some c)) toc0)))"

definition ThicknessToChordConstraint_evalFunctions ::
  "'b ThicknessToChordConstraint \<Rightarrow> ('kw, 'j) DVGeo \<Rightarrow> funcs \<Rightarrow> config
     \<Rightarrow> 'b ThicknessToChordConstraint \<times> ('kw, 'j) DVGeo \<times> (error + funcs)" where
  "ThicknessToChordConstraint_evalFunctions self g funcs cfg =
     (case DVGeo_update g (name self) cfg of
        (cs, g1) \<Rightarrow>
          let self1 = self\<lparr>ThicknessToChordConstraint.coords := cs\<rparr> in
          (self1, g1,
           if nCon self1 < 0 then Inl ValueError
           else (case mapM_err (ThicknessToChordConstraint_entry self1 cs) (py_range (nCon self1)) of
                   Inl e \<Rightarrow> Inl e
                 | Inr ToC \<Rightarrow> Inr (funcs(name self1 \<mapsto> FArray ToC)))))"

definition chord_seed :: "fvec \<Rightarrow> real \<Rightarrow> real \<Rightarrow> fvec" where
  \<comment> \<open>\<open>-pb * t / c**2\<close>\<close>
  "chord_seed pb t c = vdivs (vmuls (vneg pb) (Some t)) (Some (c ^ 2))"

definition ThicknessToChordConstraint_sens_step ::
  "(point \<Rightarrow> point \<Rightarrow> fvec \<times> fvec) \<Rightarrow> 'b ThicknessToChordConstraint \<Rightarrow> nat \<Rightarrow> fvec list list
     \<Rightarrow> error + fvec list list" where
  \<comment> \<open>the body of the loop of \<open>evalFunctionsSens\<close>\<close>
  "ThicknessToChordConstraint_sens_step eDist_b self i dToCdPt =
     (case get4 (ThicknessToChordConstraint.coords self) i of
        Inl e \<Rightarrow> Inl e
      | Inr (x1, x2, x3, x4) \<Rightarrow>
          let t = eDist x1 x2; c = eDist x3 x4 in
     (case eDist_b x1 x2 of (p1b, p2b) \<Rightarrow>
     (case eDist_b x3 x4 of (p3b, p4b) \<Rightarrow>
     (case getitem (ThicknessToChordConstraint.ToC0 self) i of
        Inl e \<Rightarrow> Inl e
      | Inr toc0 \<Rightarrow>
     (case setitem3 dToCdPt i (4 * i) (vdivs (vdivs p1b (Some c)) toc0) of
        Inl e \<Rightarrow> Inl e
      | Inr a1 \<Rightarrow>
     (case setitem3 a1 i (4 * i + 1) (vdivs (vdivs p2b (Some c)) toc0) of
        Inl e \<Rightarrow> Inl e
      | Inr a2 \<Rightarrow>
     (case setitem3 a2 i (4 * i + 2) (vdivs (chord_seed p3b t c) toc0) of
        Inl e \<Rightarrow> Inl e
      | Inr a3 \<Rightarrow> setitem3 a3 i (4 * i + 3) (vdivs (chord_seed p4b t c) toc0))))))))"

definition ThicknessToChordConstraint_evalFunctionsSens ::
  "(point \<Rightarrow> point \<Rightarrow> fvec \<times> fvec) \<Rightarrow> 'b ThicknessToChordConstraint \<Rightarrow> ('kw, 'j) DVGeo \<Rightarrow> 'j funcsSens
     \<Rightarrow> config \<Rightarrow> 'b ThicknessToChordConstraint \<times> ('kw, 'j) DVGeo \<times> (error + 'j funcsSens)" where
  "ThicknessToChordConstraint_evalFunctionsSens eDist_b self g funcsSens cfg =
     (case DVGeo_getNDV g of
        (nDV, g1) \<Rightarrow>
          if nDV > 0 then
            (case np_zeros3 (nCon self) (length (ThicknessToChordConstraint.coords self)) of
               Inl e \<Rightarrow> (self, g1, Inl e)
             | Inr z \<Rightarrow>
            (case foldM_err (ThicknessToChordConstraint_sens_step eDist_b self) (py_range (nCon self)) z of
               Inl e \<Rightarrow> (self, g1, Inl e)
             | Inr dToCdPt \<Rightarrow>
            (case DVGeo_totalSensitivity g1 (Array3 dToCdPt) (name self) cfg of
               (res, g2) \<Rightarrow> (self, g2, Inr (funcsSens(name self \<mapsto> res))))))
          else (self, g1, Inr funcsSens))"


section \<open>KSMaxThicknessToChordConstraint\<close>

text \<open>
  \<open>geo_utils.KSfunction.compute\<close> and \<open>geo_utils.KSfunction.derivatives\<close> are not among the
  sources and the spec gives no formula for them: the methods take them as the
  parameters \<open>KS_compute\<close> and \<open>KS_derivatives\<close>.
\<close>

record 'b KSMaxThicknessToChordConstraint = "'b GeometricConstraint" +
  nPoint :: nat
  coords :: "point list"
  leTePts :: "point list"
  scaled :: bool
  rho :: real
  ksApproach :: string
  divideByChord :: bool
  ToC0 :: "npfloat list"
  max0 :: npfloat

definition KSMax_ToC :: "bool \<Rightarrow> point list \<Rightarrow> point list \<Rightarrow> nat \<Rightarrow> error + npfloat" where
  \<comment> \<open>the body of the loop of \<open>evalFunctions\<close> (and of the constructor, where the second
      array is \<open>[lePt, tePt]\<close>)\<close>
  "KSMax_ToC dbc cs lete i =
     (case getitem cs (2 * i) of
        Inl e \<Rightarrow> Inl e
      | Inr p1 \<Rightarrow>
     (case getitem cs (2 * i + 1) of
        Inl e \<Rightarrow> Inl e
      | Inr p2 \<Rightarrow>
     (case getitem lete 0 of
        Inl e \<Rightarrow> Inl e
      | Inr le \<Rightarrow>
     (case getitem lete 1 of
        Inl e \<Rightarrow> Inl e
      | Inr te \<Rightarrow>
          let t = eDist p1 p2; c = eDist le te
          in if dbc then Inr (np_div (Some t) (Some c)) else Inr (Some t)))))"

definition KSMaxThicknessToChordConstraint_init ::
  "(npfloat list \<Rightarrow> real \<Rightarrow> string \<Rightarrow> npfloat) \<Rightarrow> string \<Rightarrow> point list \<Rightarrow> point \<Rightarrow> point \<Rightarrow> real
     \<Rightarrow> string \<Rightarrow> bool \<Rightarrow> 'b \<Rightarrow> 'b \<Rightarrow> bool \<Rightarrow> 'b \<Rightarrow> ('kw, 'j) DVGeo \<Rightarrow> bool \<Rightarrow> compNames
     \<Rightarrow> ('kw, 'j) DVGeo \<times> (error + 'b KSMaxThicknessToChordConstraint)" where
  "KSMaxThicknessToChordConstraint_init KS_compute nm cs lePt tePt rh ks dbc lo up scd sc g add cn =
     (let np = length cs div 2;
          base = GeometricConstraint_init nm 1 lo up sc add;
          lete = [lePt, tePt];
          g1 = DVGeo_addPointSet g cs (nm @ ''_coords'') cn [];
          g2 = DVGeo_addPointSet g1 lete (nm @ ''_lete'') cn []
      in (g2,
          case mapM_err (KSMax_ToC dbc cs lete) (py_range (int np)) of
            Inl e \<Rightarrow> Inl e
          | Inr toc0 \<Rightarrow> Inr (GeometricConstraint.extend base
                             \<lparr>nPoint = np, coords = cs, leTePts = lete, scaled = scd, rho = rh,
                              ksApproach = ks, divideByChord = dbc, ToC0 = toc0,
                              max0 = KS_compute toc0 rh ks\<rparr>)))"

definition KSMaxThicknessToChordConstraint_evalFunctions ::
  "(npfloat list \<Rightarrow> real \<Rightarrow> string \<Rightarrow> npfloat) \<Rightarrow> 'b KSMaxThicknessToChordConstraint
     \<Rightarrow> ('kw, 'j) DVGeo \<Rightarrow> funcs \<Rightarrow> config
     \<Rightarrow> 'b KSMaxThicknessToChordConstraint \<times> ('kw, 'j) DVGeo \<times> (error + funcs)" where
  "KSMaxThicknessToChordConstraint_evalFunctions KS_compute self g funcs cfg =
     (case DVGeo_update g (name self @ ''_coords'') cfg of
        (cs, g1) \<Rightarrow>
     (case DVGeo_update g1 (name self @ ''_lete'') cfg of
        (lete, g2) \<Rightarrow>
          let self1 = self\<lparr>KSMaxThicknessToChordConstraint.coords := cs, leTePts := lete\<rparr> in
          (self1, g2,
           case mapM_err (KSMax_ToC (divideByChord self1) cs lete) (py_range (int (nPoint self1))) of
             Inl e \<Rightarrow> Inl e
           | Inr ToC \<Rightarrow>
               let maxToC = KS_compute ToC (rho self1) (ksApproach self1);
                   maxToC' = (if KSMaxThicknessToChordConstraint.scaled self1
                              then np_div maxToC (max0 self1) else maxToC)
               in Inr (funcs(name self1 \<mapsto> FScalar maxToC')))))"

definition setitem1 :: "'a list \<Rightarrow> nat \<Rightarrow> 'a \<Rightarrow> error + 'a list" where
  \<comment> \<open>\<open>a[i] = v\<close> for an index that is not negative\<close>
  "setitem1 a i v = (if i < length a then Inr (a[i := v]) else Inl IndexError)"

definition KSMax_sens_step ::
  "(point \<Rightarrow> point \<Rightarrow> fvec \<times> fvec) \<Rightarrow> 'b KSMaxThicknessToChordConstraint \<Rightarrow> nat
     \<Rightarrow> npfloat list \<times> fvec list list \<times> fvec list list
     \<Rightarrow> error + npfloat list \<times> fvec list list \<times> fvec list list" where
  \<comment> \<open>the body of the loop of \<open>evalFunctionsSens\<close>, on \<open>ToC\<close>, \<open>dToCdCoords\<close> and
      \<open>dToCdLeTePts\<close>\<close>
  "KSMax_sens_step eDist_b self i st =
     (case st of (ToC, dToCdCoords, dToCdLeTePts) \<Rightarrow>
     (case getitem (KSMaxThicknessToChordConstraint.coords self) (2 * i) of
        Inl e \<Rightarrow> Inl e
      | Inr x1 \<Rightarrow>
     (case getitem (KSMaxThicknessToChordConstraint.coords self) (2 * i + 1) of
        Inl e \<Rightarrow> Inl e
      | Inr x2 \<Rightarrow>
     (case getitem (leTePts self) 0 of
        Inl e \<Rightarrow> Inl e
      | Inr le \<Rightarrow>
     (case getitem (leTePts self) 1 of
        Inl e \<Rightarrow> Inl e
      | Inr te \<Rightarrow>
          let t = eDist x1 x2; c = eDist le te in
     (case setitem1 ToC i (if divideByChord self then np_div (Some t) (Some c) else Some t) of
        Inl e \<Rightarrow> Inl e
      | Inr ToC' \<Rightarrow>
     (case eDist_b x1 x2 of (p1b, p2b) \<Rightarrow>
     (case eDist_b le te of (p3b, p4b) \<Rightarrow>
          if divideByChord self then
            (case setitem3 dToCdCoords i 0 (vdivs p1b (Some c)) of
               Inl e \<Rightarrow> Inl e
             | Inr a1 \<Rightarrow>
            (case setitem3 a1 i 1 (vdivs p2b (Some c)) of
               Inl e \<Rightarrow> Inl e
             | Inr a2 \<Rightarrow>
            (case setitem3 dToCdLeTePts i 0 (chord_seed p3b t c) of
               Inl e \<Rightarrow> Inl e
             | Inr b1 \<Rightarrow>
            (case setitem3 b1 i 1 (chord_seed p4b t c) of
               Inl e \<Rightarrow> Inl e
             | Inr b2 \<Rightarrow> Inr (ToC', a2, b2)))))
          else
            (case setitem3 dToCdCoords i 0 p1b of
               Inl e \<Rightarrow> Inl e
             | Inr a1 \<Rightarrow>
            (case setitem3 a1 i 1 p2b of
               Inl e \<Rightarrow> Inl e
             | Inr a2 \<Rightarrow> Inr (ToC', a2, dToCdLeTePts)))))))))))"

definition broadcast_i :: "'a list \<Rightarrow> 'b list \<Rightarrow> error + ('a \<times> 'b) list" where
  \<comment> \<open>two arrays paired along an axis they share: equal lengths, or one of them of length
      one, which is repeated; anything else is refused\<close>
  "broadcast_i xs ys =
     (if length xs = length ys then Inr (zip xs ys)
      else if length xs = 1 then Inr (map (\<lambda>y. (xs ! 0, y)) ys)
      else if length ys = 1 then Inr (map (\<lambda>x. (x, ys ! 0)) xs)
      else Inl ValueError)"

definition fvec_add :: "fvec \<Rightarrow> fvec \<Rightarrow> fvec" where
  "fvec_add = vzip np_add"

definition einsum_i_ijk_ijk :: "npfloat list \<Rightarrow> fvec list list \<Rightarrow> error + fvec list list" where
  \<comment> \<open>\<open>np.einsum("i,ijk->ijk", a, b)\<close>\<close>
  "einsum_i_ijk_ijk a b =
     (case broadcast_i a b of
        Inl e \<Rightarrow> Inl e
      | Inr ps \<Rightarrow> Inr (map (\<lambda>(x, row). map (\<lambda>v. vmuls v x) row) ps))"

definition einsum_i_ijk_jk :: "npfloat list \<Rightarrow> fvec list list \<Rightarrow> error + fvec list" where
  \<comment> \<open>\<open>np.einsum("i,ijk->jk", a, b)\<close> for a \<open>b\<close> of shape \<open>(n, 2, 3)\<close>\<close>
  "einsum_i_ijk_jk a b =
     (case broadcast_i a b of
        Inl e \<Rightarrow> Inl e
      | Inr ps \<Rightarrow>
          Inr (map (\<lambda>j. foldl fvec_add fzero (map (\<lambda>(x, row). vmuls (row ! j) x) ps)) [0, 1]))"

definition reshape_n_3 :: "fvec list list \<Rightarrow> nat \<Rightarrow> error + fvec list" where
  \<comment> \<open>\<open>a.reshape(n, 3)\<close> of an array whose last axis has three entries: the rows one after
      the other, refused when there are not \<open>n\<close> of them\<close>
  "reshape_n_3 a n = (if length (concat a) = n then Inr (concat a) else Inl ValueError)"

definition KSMax_tmpTotal :: "(string \<times> 'j::plus) list \<Rightarrow> (string \<times> 'j) list \<Rightarrow> error + (string \<times> 'j) list" where
  \<comment> \<open>\<open>for key in tmp0: tmpTotal[key] = tmp0[key] + tmp1[key]\<close>, from the empty dictionary\<close>
  "KSMax_tmpTotal tmp0 tmp1 =
     foldM_err
       (\<lambda>key tmpTotal.
          case map_of tmp0 key of
            None \<Rightarrow> Inl KeyError
          | Some v0 \<Rightarrow> (case map_of tmp1 key of
                         None \<Rightarrow> Inl KeyError
                       | Some v1 \<Rightarrow> Inr (AList.update key (v0 + v1) tmpTotal)))
       (map fst tmp0) []"

definition KSMaxThicknessToChordConstraint_evalFunctionsSens ::
  "(point \<Rightarrow> point \<Rightarrow> fvec \<times> fvec) \<Rightarrow> (npfloat list \<Rightarrow> real \<Rightarrow> string \<Rightarrow> npfloat list \<times> 'x)
     \<Rightarrow> 'b KSMaxThicknessToChordConstraint \<Rightarrow> ('kw, 'j::plus) DVGeo \<Rightarrow> 'j funcsSens \<Rightarrow> config
     \<Rightarrow> 'b KSMaxThicknessToChordConstraint \<times> ('kw, 'j) DVGeo \<times> (error + 'j funcsSens)" where
  "KSMaxThicknessToChordConstraint_evalFunctionsSens eDist_b KS_derivatives self g funcsSens cfg =
     (case DVGeo_getNDV g of
        (nDV, g1) \<Rightarrow>
          if nDV > 0 then
            (case foldM_err (KSMax_sens_step eDist_b self) (py_range (int (nPoint self)))
                    (replicate (nPoint self) (Some 0),
                     replicate (nPoint self) (replicate 2 fzero),
                     replicate (nPoint self) (replicate 2 fzero)) of
               Inl e \<Rightarrow> (self, g1, Inl e)
             | Inr (ToC, dToCdCoords, dToCdLeTePts) \<Rightarrow>
                 let dKSdToC = fst (KS_derivatives ToC (rho self) (ksApproach self));
                     dKSdToC' = (if KSMaxThicknessToChordConstraint.scaled self
                                 then map (\<lambda>d. np_div d (max0 self)) dKSdToC else dKSdToC)
                 in
            (case einsum_i_ijk_ijk dKSdToC' dToCdCoords of
               Inl e \<Rightarrow> (self, g1, Inl e)
             | Inr dKS3 \<Rightarrow>
            (case reshape_n_3 dKS3 (nPoint self * 2) of
               Inl e \<Rightarrow> (self, g1, Inl e)
             | Inr dKSdCoords \<Rightarrow>
            (case einsum_i_ijk_jk dKSdToC' dToCdLeTePts of
               Inl e \<Rightarrow> (self, g1, Inl e)
             | Inr dKSdLeTePts \<Rightarrow>
            (case DVGeo_totalSensitivity g1 (Array2 dKSdCoords) (name self @ ''_coords'') cfg of
               (tmp0, g2) \<Rightarrow>
            (case DVGeo_totalSensitivity g2 (Array2 dKSdLeTePts) (name self @ ''_lete'') cfg of
               (tmp1, g3) \<Rightarrow>
            (case KSMax_tmpTotal tmp0 tmp1 of
               Inl e \<Rightarrow> (self, g3, Inl e)
             | Inr tmpTotal \<Rightarrow> (self, g3, Inr (funcsSens(name self \<mapsto> tmpTotal))))))))))
          else (self, g1, Inr funcsSens))"


section \<open>TESlopeConstraint\<close>

text \<open>
  \<open>_compute\<close> runs on the real coordinates (the constructor, \<open>evalFunctions\<close>) and on
  their complex copy (\<open>evalFunctionsSens\<close>). It is embedded once, over any field, with
  the three things that differ as parameters: the square root \<open>sq\<close> of the coordinates'
  type, the cast \<open>re\<close> of a coordinate to \<open>float64\<close> (storing into the \<open>float64\<close> array
  \<open>xMid\<close> keeps the real part of a complex number), and the cast \<open>of_r\<close> of a
  \<open>float64\<close> to the coordinates' type.
\<close>

record 'b TESlopeConstraint = "'b GeometricConstraint" +
  coords :: "point list"
  scaled :: bool
  teSlope0 :: "npfloat list"

fun evens :: "'a list \<Rightarrow> 'a list" where
  \<comment> \<open>\<open>xs[::2]\<close>\<close>
  "evens [] = []"
| "evens [x] = [x]"
| "evens (x # y # xs) = x # evens xs"

fun odds :: "'a list \<Rightarrow> 'a list" where
  \<comment> \<open>\<open>xs[1::2]\<close>\<close>
  "odds [] = []"
| "odds [x] = []"
| "odds (x # y # xs) = y # odds xs"

definition sumsq :: "'a::semiring_0 vec3 \<Rightarrow> 'a" where
  \<comment> \<open>\<open>np.sum(v * v)\<close> along the last axis\<close>
  "sumsq v = (case v of (x, y, z) \<Rightarrow> x * x + y * y + z * z)"

fun cumsum_from :: "real \<Rightarrow> real list \<Rightarrow> real list" where
  "cumsum_from a [] = []"
| "cumsum_from a (x # xs) = (a + x) # cumsum_from (a + x) xs"

definition cumsum :: "real list \<Rightarrow> real list" where
  "cumsum xs = cumsum_from 0 xs"

definition assign_rows :: "nat \<Rightarrow> 'a list \<Rightarrow> error + 'a list" where
  \<comment> \<open>what \<open>k\<close> rows of an array hold after \<open>a[...] = rhs\<close>: the rows of \<open>rhs\<close> when there
      are \<open>k\<close> of them, its one row repeated when it has one, refused otherwise\<close>
  "assign_rows k rhs =
     (if length rhs = k then Inr rhs
      else if length rhs = 1 then Inr (replicate k (rhs ! 0))
      else Inl ValueError)"

definition TESlopeConstraint_compute ::
  "('a::field \<Rightarrow> 'a) \<Rightarrow> ('a \<Rightarrow> real) \<Rightarrow> (real \<Rightarrow> 'a) \<Rightarrow> int \<Rightarrow> npfloat list \<Rightarrow> 'a vec3 list \<Rightarrow> bool
     \<Rightarrow> error + 'a option list" where
  \<comment> \<open>\<open>_compute(coords, scaled)\<close> for an object with the given \<open>nCon\<close> and \<open>teSlope0\<close>\<close>
  "TESlopeConstraint_compute sq re of_r ncon tes0 cs scd =
     (let tCoords = butlast cs; top = evens tCoords; bottom = odds tCoords in
     (case broadcast_i top bottom of
        Inl e \<Rightarrow> Inl e
      | Inr tb \<Rightarrow>
          let dVec = map (\<lambda>(a, b). vsub a b) tb;
              t = map (\<lambda>v. sq (sumsq v)) dVec
          in
          if ncon + 1 < 0 then Inl ValueError
          else
     (case broadcast_i bottom (map (vmap (\<lambda>x. x / 2)) dVec) of
        Inl e \<Rightarrow> Inl e
      | Inr bd \<Rightarrow>
     (case assign_rows (nat ncon) (map (\<lambda>(b, h). vadd b h) bd) of
        Inl e \<Rightarrow> Inl e
      | Inr mids \<Rightarrow>
          let xMid0 = map (vmap re) mids @ replicate (nat (ncon + 1) - nat ncon) (0, 0, 0) in
          if cs = [] \<or> xMid0 = [] then Inl IndexError
          else
            let xMid = xMid0[length xMid0 - 1 := vmap re (last cs)];
                cVec = map (\<lambda>(a, b). vsub a b) (zip (butlast xMid) (tl xMid));
                chords = map (\<lambda>v. sqrt (sumsq v)) cVec;
                c = rev (cumsum (rev chords))
            in
     (case broadcast_i t c of
        Inl e \<Rightarrow> Inl e
      | Inr tc \<Rightarrow>
          let teSlope = map (\<lambda>(a, b). np_div (Some a) (Some (of_r b))) tc in
          if scd then
            (if length tes0 = length teSlope
             then Inr (map (\<lambda>(a, b). np_div a (map_option of_r b)) (zip teSlope tes0))
             else if length tes0 = 1
             then Inr (map (\<lambda>a. np_div a (map_option of_r (tes0 ! 0))) teSlope)
             else Inl ValueError)
          else Inr teSlope)))))"

definition TESlopeConstraint_init ::
  "string \<Rightarrow> point list \<Rightarrow> 'b \<Rightarrow> 'b \<Rightarrow> bool \<Rightarrow> 'b \<Rightarrow> ('kw, 'j) DVGeo \<Rightarrow> bool \<Rightarrow> compNames
     \<Rightarrow> ('kw, 'j) DVGeo \<times> (error + 'b TESlopeConstraint)" where
  "TESlopeConstraint_init nm cs lo up scd sc g add cn =
     (let base = GeometricConstraint_init nm ((int (length cs) - 1) div 2) lo up sc add;
          g1 = DVGeo_addPointSet g cs nm cn []
      in (g1,
          case TESlopeConstraint_compute sqrt (\<lambda>x. x) (\<lambda>x. x) (nCon base) [] cs False of
            Inl e \<Rightarrow> Inl e
          | Inr tes0 \<Rightarrow> Inr (GeometricConstraint.extend base
                             \<lparr>coords = cs, scaled = scd, teSlope0 = tes0\<rparr>)))"

definition TESlopeConstraint_evalFunctions ::
  "'b TESlopeConstraint \<Rightarrow> ('kw, 'j) DVGeo \<Rightarrow> funcs \<Rightarrow> config
     \<Rightarrow> 'b TESlopeConstraint \<times> ('kw, 'j) DVGeo \<times> (error + funcs)" where
  "TESlopeConstraint_evalFunctions self g funcs cfg =
     (case DVGeo_update g (name self) cfg of
        (cs, g1) \<Rightarrow>
          let self1 = self\<lparr>TESlopeConstraint.coords := cs\<rparr> in
          (self1, g1,
           case TESlopeConstraint_compute sqrt (\<lambda>x. x) (\<lambda>x. x) (nCon self1) (teSlope0 self1) cs
                  (TESlopeConstraint.scaled self1) of
             Inl e \<Rightarrow> Inl e
           | Inr teSlope \<Rightarrow> Inr (funcs(name self1 \<mapsto> FArray teSlope))))"

definition step_imag :: complex where
  \<comment> \<open>\<open>1e-40j\<close>\<close>
  "step_imag = Complex 0 (1 / 10 ^ 40)"

definition step_real :: real where
  \<comment> \<open>\<open>1e-40\<close>\<close>
  "step_real = 1 / 10 ^ 40"

definition vget :: "'a vec3 \<Rightarrow> nat \<Rightarrow> 'a" where
  \<comment> \<open>\<open>v[j]\<close> for \<open>j\<close> in \<open>range(3)\<close>\<close>
  "vget v j = (case v of (x, y, z) \<Rightarrow> if j = 0 then x else if j = 1 then y else z)"

definition vset :: "'a vec3 \<Rightarrow> nat \<Rightarrow> 'a \<Rightarrow> 'a vec3" where
  \<comment> \<open>\<open>v[j] = a\<close> for \<open>j\<close> in \<open>range(3)\<close>\<close>
  "vset v j a = (case v of (x, y, z) \<Rightarrow>
                   if j = 0 then (a, y, z) else if j = 1 then (x, a, z) else (x, y, a))"

definition iadd2 :: "'a::plus vec3 list \<Rightarrow> nat \<Rightarrow> nat \<Rightarrow> 'a \<Rightarrow> error + 'a vec3 list" where
  \<comment> \<open>\<open>a[i, j] += d\<close> for \<open>j\<close> in \<open>range(3)\<close>\<close>
  "iadd2 a i j d =
     (if i < length a then Inr (a[i := vset (a ! i) j (vget (a ! i) j + d)]) else Inl IndexError)"

definition isub2 :: "'a::minus vec3 list \<Rightarrow> nat \<Rightarrow> nat \<Rightarrow> 'a \<Rightarrow> error + 'a vec3 list" where
  \<comment> \<open>\<open>a[i, j] -= d\<close> for \<open>j\<close> in \<open>range(3)\<close>\<close>
  "isub2 a i j d =
     (if i < length a then Inr (a[i := vset (a ! i) j (vget (a ! i) j - d)]) else Inl IndexError)"

definition set_column :: "fvec list list \<Rightarrow> nat \<Rightarrow> nat \<Rightarrow> npfloat list \<Rightarrow> error + fvec list list" where
  \<comment> \<open>\<open>a[:, i, j] = col\<close> for \<open>j\<close> in \<open>range(3)\<close>\<close>
  "set_column a i j col =
     (if \<exists>row \<in> set a. length row \<le> i then Inl IndexError
      else (case assign_rows (length a) col of
              Inl e \<Rightarrow> Inl e
            | Inr col' \<Rightarrow> Inr (map (\<lambda>(row, x). row[i := vset (row ! i) j x]) (zip a col'))))"

definition TESlopeConstraint_sens_step ::
  "'b TESlopeConstraint \<Rightarrow> nat \<Rightarrow> nat \<Rightarrow> complex vec3 list \<times> fvec list list
     \<Rightarrow> error + complex vec3 list \<times> fvec list list" where
  \<comment> \<open>the body of the inner loop of \<open>evalFunctionsSens\<close>, on the complex \<open>coords\<close> and
      \<open>dTeSlopePt\<close>\<close>
  "TESlopeConstraint_sens_step self i j st =
     (case st of (ccoords, dTeSlopePt) \<Rightarrow>
     (case iadd2 ccoords i j step_imag of
        Inl e \<Rightarrow> Inl e
      | Inr c1 \<Rightarrow>
     (case TESlopeConstraint_compute csqrt Re complex_of_real (nCon self) (teSlope0 self) c1
             (TESlopeConstraint.scaled self) of
        Inl e \<Rightarrow> Inl e
      | Inr conVal \<Rightarrow>
     (case set_column dTeSlopePt i j
             (map (\<lambda>z. np_div (map_option Im z) (Some step_real)) conVal) of
        Inl e \<Rightarrow> Inl e
      | Inr d1 \<Rightarrow>
     (case isub2 c1 i j step_imag of
        Inl e \<Rightarrow> Inl e
      | Inr c2 \<Rightarrow> Inr (c2, d1))))))"

definition TESlopeConstraint_evalFunctionsSens ::
  "'b TESlopeConstraint \<Rightarrow> ('kw, 'j) DVGeo \<Rightarrow> 'j funcsSens \<Rightarrow> config
     \<Rightarrow> 'b TESlopeConstraint \<times> ('kw, 'j) DVGeo \<times> (error + 'j funcsSens)" where
  "TESlopeConstraint_evalFunctionsSens self g funcsSens cfg =
     (case DVGeo_getNDV g of
        (nDV, g1) \<Rightarrow>
          if nDV > 0 then
            (let nCoords = length (TESlopeConstraint.coords self) in
            (case np_zeros3 (nCon self) nCoords of
               Inl e \<Rightarrow> (self, g1, Inl e)
             | Inr z \<Rightarrow>
            (case foldM_err
                    (\<lambda>i. foldM_err (TESlopeConstraint_sens_step self i) (py_range 3))
                    (py_range (int nCoords))
                    (map (vmap complex_of_real) (TESlopeConstraint.coords self), z) of
               Inl e \<Rightarrow> (self, g1, Inl e)
             | Inr (ccoords, dTeSlopePt) \<Rightarrow>
            (case DVGeo_totalSensitivity g1 (Array3 dTeSlopePt) (name self) cfg of
               (res, g2) \<Rightarrow> (self, g2, Inr (funcsSens(name self \<mapsto> res)))))))
          else (self, g1, Inr funcsSens))"

section \<open>ProximityConstraint\<close>

record 'b ProximityConstraint = "'b GeometricConstraint" +
  coordsA :: "point list"
  coordsB :: "point list"
  scaled :: bool
  D0 :: "real list"

definition proximity :: "point list \<Rightarrow> point list \<Rightarrow> nat \<Rightarrow> error + real" where
  \<comment> \<open>\<open>euclideanNorm(coordsA[i] - coordsB[i])\<close>\<close>
  "proximity csA csB i =
     (case getitem csA i of
        Inl e \<Rightarrow> Inl e
      | Inr a \<Rightarrow> (case getitem csB i of
                    Inl e \<Rightarrow> Inl e
                  | Inr b \<Rightarrow> Inr (euclideanNorm (vsub a b))))"

definition ProximityConstraint_init ::
  "string \<Rightarrow> point list \<Rightarrow> point list \<Rightarrow> (string \<times> 'kw) list \<Rightarrow> (string \<times> 'kw) list \<Rightarrow> 'b \<Rightarrow> 'b
     \<Rightarrow> bool \<Rightarrow> 'b \<Rightarrow> ('kw, 'j) DVGeo \<Rightarrow> bool \<Rightarrow> compNames
     \<Rightarrow> ('kw, 'j) DVGeo \<times> (error + 'b ProximityConstraint)" where
  "ProximityConstraint_init nm csA csB kwA kwB lo up scd sc g add cn =
     (let base = GeometricConstraint_init nm (int (length csA)) lo up sc add;
          g1 = DVGeo_addPointSet g csA (nm @ ''_A'') cn kwA;
          g2 = DVGeo_addPointSet g1 csB (nm @ ''_B'') cn kwB
      in (g2,
          case mapM_err (proximity csA csB) (py_range (nCon base)) of
            Inl e \<Rightarrow> Inl e
          | Inr d0 \<Rightarrow> Inr (GeometricConstraint.extend base
                             \<lparr>coordsA = csA, coordsB = csB, scaled = scd, D0 = d0\<rparr>)))"

definition ProximityConstraint_entry ::
  "'b ProximityConstraint \<Rightarrow> point list \<Rightarrow> point list \<Rightarrow> nat \<Rightarrow> error + npfloat" where
  \<comment> \<open>the body of the loop of \<open>evalFunctions\<close>\<close>
  "ProximityConstraint_entry self csA csB i =
     (case proximity csA csB i of
        Inl e \<Rightarrow> Inl e
      | Inr d \<Rightarrow>
          if ProximityConstraint.scaled self
          then (case getitem (ProximityConstraint.D0 self) i of
                  Inl e \<Rightarrow> Inl e
                | Inr d0 \<Rightarrow> Inr (np_div (Some d) (Some d0)))
          else Inr (Some d))"

definition ProximityConstraint_evalFunctions ::
  "'b ProximityConstraint \<Rightarrow> ('kw, 'j) DVGeo \<Rightarrow> funcs \<Rightarrow> config
     \<Rightarrow> 'b ProximityConstraint \<times> ('kw, 'j) DVGeo \<times> (error + funcs)" where
  "ProximityConstraint_evalFunctions self g funcs cfg =
     (case DVGeo_update g (name self @ ''_A'') cfg of
        (csA, g1) \<Rightarrow>
     (case DVGeo_update g1 (name self @ ''_B'') cfg of
        (csB, g2) \<Rightarrow>
          let self1 = self\<lparr>coordsA := csA, coordsB := csB\<rparr> in
          (self1, g2,
           if nCon self1 < 0 then Inl ValueError
           else (case mapM_err (ProximityConstraint_entry self1 csA csB) (py_range (nCon self1)) of
                   Inl e \<Rightarrow> Inl e
                 | Inr D \<Rightarrow> Inr (funcs(name self1 \<mapsto> FArray D))))))"

definition ProximityConstraint_sens_step ::
  "(point \<Rightarrow> point \<Rightarrow> fvec \<times> fvec) \<Rightarrow> 'b ProximityConstraint \<Rightarrow> nat
     \<Rightarrow> fvec list list \<times> fvec list list \<Rightarrow> error + fvec list list \<times> fvec list list" where
  \<comment> \<open>the body of the loop of \<open>evalFunctionsSens\<close>, on \<open>dTdPtA\<close> and \<open>dTdPtB\<close>\<close>
  "ProximityConstraint_sens_step eDist_b self i st =
     (case st of (dTdPtA, dTdPtB) \<Rightarrow>
     (case getitem (coordsA self) i of
        Inl e \<Rightarrow> Inl e
      | Inr a \<Rightarrow>
     (case getitem (coordsB self) i of
        Inl e \<Rightarrow> Inl e
      | Inr b \<Rightarrow>
     (case eDist_b a b of (pAb, pBb) \<Rightarrow>
     (case (if ProximityConstraint.scaled self
            then (case getitem (ProximityConstraint.D0 self) i of
                    Inl e \<Rightarrow> Inl e
                  | Inr d0 \<Rightarrow> Inr (vdivs pAb (Some d0), vdivs pBb (Some d0)))
            else Inr (pAb, pBb)) of
        Inl e \<Rightarrow> Inl e
      | Inr (qA, qB) \<Rightarrow>
     (case setitem3 dTdPtA i i qA of
        Inl e \<Rightarrow> Inl e
      | Inr dA \<Rightarrow>
     (case setitem3 dTdPtB i i qB of
        Inl e \<Rightarrow> Inl e
      | Inr dB \<Rightarrow> Inr (dA, dB))))))))"

definition Proximity_merge :: "(string \<times> 'j::plus) list \<Rightarrow> (string \<times> 'j) list \<Rightarrow> (string \<times> 'j) list" where
  \<comment> \<open>the dictionary built from \<open>{}\<close> by the two loops over \<open>funcSensA.items()\<close> and
      \<open>funcSensB.items()\<close>\<close>
  "Proximity_merge funcSensA funcSensB =
     fold (\<lambda>(key, v) d.
             case map_of d key of
               Some w \<Rightarrow> AList.update key (w + v) d
             | None \<Rightarrow> AList.update key v d)
          funcSensB
          (fold (\<lambda>(key, v) d. AList.update key v d) funcSensA [])"

definition ProximityConstraint_evalFunctionsSens ::
  "(point \<Rightarrow> point \<Rightarrow> fvec \<times> fvec) \<Rightarrow> 'b ProximityConstraint \<Rightarrow> ('kw, 'j::plus) DVGeo \<Rightarrow> 'j funcsSens
     \<Rightarrow> config \<Rightarrow> 'b ProximityConstraint \<times> ('kw, 'j) DVGeo \<times> (error + 'j funcsSens)" where
  "ProximityConstraint_evalFunctionsSens eDist_b self g funcsSens cfg =
     (case DVGeo_getNDV g of
        (nDV, g1) \<Rightarrow>
          if nDV > 0 then
            (case np_zeros3 (nCon self) (nat (nCon self)) of
               Inl e \<Rightarrow> (self, g1, Inl e)
             | Inr z \<Rightarrow>
            (case foldM_err (ProximityConstraint_sens_step eDist_b self) (py_range (nCon self)) (z, z) of
               Inl e \<Rightarrow> (self, g1, Inl e)
             | Inr (dTdPtA, dTdPtB) \<Rightarrow>
            (case DVGeo_totalSensitivity g1 (Array3 dTdPtA) (name self @ ''_A'') cfg of
               (funcSensA, g2) \<Rightarrow>
            (case DVGeo_totalSensitivity g2 (Array3 dTdPtB) (name self @ ''_B'') cfg of
               (funcSensB, g3) \<Rightarrow>
                 (self, g3, Inr (funcsSens(name self \<mapsto> Proximity_merge funcSensA funcSensB)))))))
          else (self, g1, Inr funcsSens))"


section \<open>writeTecplot\<close>

text \<open>
  The file handle is the list of the strings written to it so far. \<open>fmt_f\<close> stands for
  the format \<open>:f\<close> of a float, which is not a function of the idealised value alone; it
  is a parameter of every writer. A writer that raises has written the strings before
  the failing expression: it returns them with the error.
\<close>

type_synonym handle = "string list"

definition nl :: string where
  "nl = [CHR 0x0A]"

definition zone_header :: "string \<Rightarrow> int \<Rightarrow> int \<Rightarrow> string list" where
  \<comment> \<open>the three header lines of a zone\<close>
  "zone_header title nodes elems =
     [''Zone T='' @ title @ nl,
      ''Nodes = '' @ fmt_d nodes @ '', Elements = '' @ fmt_d elems @ '' ZONETYPE=FELINESEG'' @ nl,
      ''DATAPACKING=POINT'' @ nl]"

definition point_line :: "(npfloat \<Rightarrow> string) \<Rightarrow> fvec \<Rightarrow> string" where
  "point_line fmt_f p = (case p of (x, y, z) \<Rightarrow> fmt_f x @ '' '' @ fmt_f y @ '' '' @ fmt_f z @ nl)"

definition segment_line :: "nat \<Rightarrow> string" where
  \<comment> \<open>\<open>"%d %d\n" % (2 * i + 1, 2 * i + 2)\<close>\<close>
  "segment_line i = fmt_d (2 * int i + 1) @ '' '' @ fmt_d (2 * int i + 2) @ nl"

fun write_each :: "('a \<Rightarrow> string list \<times> error option) \<Rightarrow> 'a list \<Rightarrow> handle \<Rightarrow> handle \<times> error option" where
  \<comment> \<open>a loop whose body writes some strings and may raise after them\<close>
  "write_each f [] h = (h, None)"
| "write_each f (x # xs) h =
     (case f x of
        (ls, Some e) \<Rightarrow> (h @ ls, Some e)
      | (ls, None) \<Rightarrow> write_each f xs (h @ ls))"

definition toothpick_zone :: "(npfloat \<Rightarrow> string) \<Rightarrow> string \<Rightarrow> point list \<Rightarrow> string list" where
  \<comment> \<open>the zone the thickness classes share: header, one line per point, one per toothpick\<close>
  "toothpick_zone fmt_f nm cs =
     zone_header nm (int (length cs)) (int (length cs div 2))
     @ map (\<lambda>p. point_line fmt_f (vmap Some p)) cs
     @ map segment_line [0..<length cs div 2]"

definition ThicknessConstraint_writeTecplot ::
  "(npfloat \<Rightarrow> string) \<Rightarrow> 'b ThicknessConstraint \<Rightarrow> handle
     \<Rightarrow> 'b ThicknessConstraint \<times> handle \<times> error option" where
  "ThicknessConstraint_writeTecplot fmt_f self h =
     (self, h @ toothpick_zone fmt_f (name self) (ThicknessConstraint.coords self), None)"

definition ProjectedThicknessConstraint_ref_points ::
  "(npfloat \<Rightarrow> string) \<Rightarrow> 'b ProjectedThicknessConstraint \<Rightarrow> nat \<Rightarrow> string list \<times> error option" where
  \<comment> \<open>the body of the loop that writes the two ends of a reference direction\<close>
  "ProjectedThicknessConstraint_ref_points fmt_f self i =
     (case getitem (ProjectedThicknessConstraint.coords self) (i * 2 + 1) of
        Inl e \<Rightarrow> ([], Some e)
      | Inr pt1 \<Rightarrow>
     (case getitem (dir_vec self) i of
        Inl e \<Rightarrow> ([], Some e)
      | Inr n \<Rightarrow>
          let pt2 = fvec_add (vmap Some pt1) n
          in ([point_line fmt_f (vmap Some pt1), point_line fmt_f pt2], None)))"

definition ProjectedThicknessConstraint_writeTecplot ::
  "(npfloat \<Rightarrow> string) \<Rightarrow> 'b ProjectedThicknessConstraint \<Rightarrow> handle
     \<Rightarrow> 'b ProjectedThicknessConstraint \<times> handle \<times> error option" where
  "ProjectedThicknessConstraint_writeTecplot fmt_f self h =
     (let h1 = h @ toothpick_zone fmt_f (name self) (ProjectedThicknessConstraint.coords self)
                 @ zone_header (name self @ ''_ref_directions'')
                     (int (length (dir_vec self)) * 2) (int (length (dir_vec self)))
      in (case write_each (ProjectedThicknessConstraint_ref_points fmt_f self) (py_range (nCon self)) h1 of
            (h2, Some e) \<Rightarrow> (self, h2, Some e)
          | (h2, None) \<Rightarrow> (self, h2 @ map segment_line (py_range (nCon self)), None)))"

definition ThicknessToChordConstraint_writeTecplot ::
  "(npfloat \<Rightarrow> string) \<Rightarrow> 'b ThicknessToChordConstraint \<Rightarrow> handle
     \<Rightarrow> 'b ThicknessToChordConstraint \<times> handle \<times> error option" where
  "ThicknessToChordConstraint_writeTecplot fmt_f self h =
     (self, h @ toothpick_zone fmt_f (name self) (ThicknessToChordConstraint.coords self), None)"

definition KSMaxThicknessToChordConstraint_writeTecplot ::
  "(npfloat \<Rightarrow> string) \<Rightarrow> 'b KSMaxThicknessToChordConstraint \<Rightarrow> handle
     \<Rightarrow> 'b KSMaxThicknessToChordConstraint \<times> handle \<times> error option" where
  "KSMaxThicknessToChordConstraint_writeTecplot fmt_f self h =
     (let cs = KSMaxThicknessToChordConstraint.coords self;
          h1 = h @ zone_header (name self) (int (length cs) + 2) (int (length cs div 2) + 1)
                 @ map (\<lambda>p. point_line fmt_f (vmap Some p)) cs
      in (case getitem (leTePts self) 0 of
            Inl e \<Rightarrow> (self, h1, Some e)
          | Inr le \<Rightarrow>
         (case getitem (leTePts self) 1 of
            Inl e \<Rightarrow> (self, h1 @ [point_line fmt_f (vmap Some le)], Some e)
          | Inr te \<Rightarrow>
              (self,
               h1 @ [point_line fmt_f (vmap Some le), point_line fmt_f (vmap Some te)]
                  @ map segment_line [0..<length cs div 2]
                  @ [fmt_d (int (length cs) + 1) @ '' '' @ fmt_d (int (length cs) + 2) @ nl],
               None))))"

definition TESlopeConstraint_writeTecplot ::
  "(npfloat \<Rightarrow> string) \<Rightarrow> 'b TESlopeConstraint \<Rightarrow> handle
     \<Rightarrow> 'b TESlopeConstraint \<times> handle \<times> error option" where
  "TESlopeConstraint_writeTecplot fmt_f self h =
     (let cs = TESlopeConstraint.coords self; n = int (length cs) - 1
      in (self,
          h @ zone_header (name self) n (n div 2)
            @ map (\<lambda>i. point_line fmt_f (vmap Some (cs ! i))) (py_range n)
            @ map segment_line (py_range (n div 2)),
          None))"

definition ProximityConstraint_point_pair ::
  "(npfloat \<Rightarrow> string) \<Rightarrow> 'b ProximityConstraint \<Rightarrow> nat \<Rightarrow> string list \<times> error option" where
  \<comment> \<open>the body of the loop that writes a point of each surface\<close>
  "ProximityConstraint_point_pair fmt_f self i =
     (case getitem (coordsA self) i of
        Inl e \<Rightarrow> ([], Some e)
      | Inr a \<Rightarrow>
     (case getitem (coordsB self) i of
        Inl e \<Rightarrow> ([point_line fmt_f (vmap Some a)], Some e)
      | Inr b \<Rightarrow> ([point_line fmt_f (vmap Some a), point_line fmt_f (vmap Some b)], None)))"

definition ProximityConstraint_writeTecplot ::
  "(npfloat \<Rightarrow> string) \<Rightarrow> 'b ProximityConstraint \<Rightarrow> handle
     \<Rightarrow> 'b ProximityConstraint \<times> handle \<times> error option" where
  "ProximityConstraint_writeTecplot fmt_f self h =
     (let n = length (coordsA self);
          h1 = h @ zone_header (name self) (int n * 2) (int n)
      in (case write_each (ProximityConstraint_point_pair fmt_f self) [0..<n] h1 of
            (h2, Some e) \<Rightarrow> (self, h2, Some e)
          | (h2, None) \<Rightarrow> (self, h2 @ map segment_line [0..<n], None)))"

section \<open>Properties\<close>

subsection \<open>Loops and arrays\<close>

lemma mapM_err_Inr:
  "(\<And>x. x \<in> set xs \<Longrightarrow> f x = Inr (h x)) \<Longrightarrow> mapM_err f xs = Inr (map h xs)"
  by (induction xs) auto

lemma toothpick_Inr:
  "2 * i + 1 < length cs \<Longrightarrow> toothpick cs i = Inr (eDist (cs ! (2 * i)) (cs ! (2 * i + 1)))"
  by (simp add: toothpick_def getitem_def eDist_def)

lemma proximity_Inr:
  "i < length csA \<Longrightarrow> i < length csB \<Longrightarrow> proximity csA csB i = Inr (eDist (csA ! i) (csB ! i))"
  by (simp add: proximity_def getitem_def eDist_def)

subsection \<open>ThicknessConstraint and ProximityConstraint: the distances\<close>

lemma ThicknessConstraint_init_eq:
  "ThicknessConstraint_init nm cs lo up scd sc g add cn =
     (DVGeo_addPointSet g cs nm cn [],
      Inr \<lparr>name = nm, nCon = int (length cs div 2), lower = lo, upper = up, scale = sc,
           addToPyOpt = add, ThicknessConstraint.coords = cs, ThicknessConstraint.scaled = scd,
           ThicknessConstraint.D0 = map (\<lambda>i. eDist (cs ! (2 * i)) (cs ! (2 * i + 1))) [0..<length cs div 2]\<rparr>)"
proof -
  have "mapM_err (toothpick cs) [0..<length cs div 2]
          = Inr (map (\<lambda>i. eDist (cs ! (2 * i)) (cs ! (2 * i + 1))) [0..<length cs div 2])"
    by (rule mapM_err_Inr) (simp add: toothpick_Inr)
  then show ?thesis
    by (simp add: ThicknessConstraint_init_def GeometricConstraint_init_def py_range_def
        GeometricConstraint.extend_def Let_def)
qed

lemma ThicknessConstraint_evalFunctions_eq:
  assumes "2 * nat (nCon self) \<le> length (update g (name self) cfg)"
      and "nat (nCon self) \<le> length (ThicknessConstraint.D0 self)"
      and "0 \<le> nCon self"
  shows "snd (snd (ThicknessConstraint_evalFunctions self g funcs cfg)) =
           Inr (funcs(name self \<mapsto> FArray (map
             (\<lambda>i. let d = eDist (update g (name self) cfg ! (2 * i)) (update g (name self) cfg ! (2 * i + 1))
                  in if ThicknessConstraint.scaled self
                     then np_div (Some d) (Some (ThicknessConstraint.D0 self ! i)) else Some d)
             [0..<nat (nCon self)])))"
proof -
  let ?cs = "update g (name self) cfg"
  let ?self1 = "self\<lparr>ThicknessConstraint.coords := ?cs\<rparr>"
  have "mapM_err (ThicknessConstraint_entry ?self1 ?cs) [0..<nat (nCon self)] =
          Inr (map (\<lambda>i. let d = eDist (?cs ! (2 * i)) (?cs ! (2 * i + 1))
                  in if ThicknessConstraint.scaled self
                     then np_div (Some d) (Some (ThicknessConstraint.D0 self ! i)) else Some d)
             [0..<nat (nCon self)])"
    using assms
    by (intro mapM_err_Inr) (auto simp: ThicknessConstraint_entry_def toothpick_Inr getitem_def Let_def)
  then show ?thesis
    using assms by (simp add: ThicknessConstraint_evalFunctions_def DVGeo_update_def py_range_def Let_def)
qed


lemma mapM_err_Inr_D:
  "mapM_err f xs = Inr ys \<Longrightarrow> length ys = length xs \<and> (\<forall>i<length xs. f (xs ! i) = Inr (ys ! i))"
proof (induction xs arbitrary: ys)
  case Nil
  then show ?case by simp
next
  case (Cons x xs)
  then obtain y ys' where y: "f x = Inr y" and ys': "mapM_err f xs = Inr ys'" and ys: "ys = y # ys'"
    by (auto split: sum.splits)
  from Cons.IH[OF ys'] y ys show ?case
    by (auto simp: nth_Cons split: nat.splits)
qed

lemma proximity_Inr_D:
  "proximity csA csB i = Inr d \<Longrightarrow> d = eDist (csA ! i) (csB ! i)"
  by (auto simp: proximity_def getitem_def eDist_def split: if_splits)

lemma ProximityConstraint_init_D:
  assumes "ProximityConstraint_init nm csA csB kwA kwB lo up scd sc g add cn = (g1, Inr self)"
  shows "name self = nm" and "nCon self = int (length csA)"
    and "ProximityConstraint.scaled self = scd"
    and "ProximityConstraint.D0 self = map (\<lambda>i. eDist (csA ! i) (csB ! i)) [0..<length csA]"
proof -
  from assms obtain d0 where d0: "mapM_err (proximity csA csB) [0..<length csA] = Inr d0"
    and self: "self = GeometricConstraint.extend (GeometricConstraint_init nm (int (length csA)) lo up sc add)
                 \<lparr>coordsA = csA, coordsB = csB, ProximityConstraint.scaled = scd, ProximityConstraint.D0 = d0\<rparr>"
    by (auto simp: ProximityConstraint_init_def Let_def GeometricConstraint_init_def py_range_def
        split: sum.splits)
  from self show "name self = nm" "nCon self = int (length csA)" "ProximityConstraint.scaled self = scd"
    by (simp_all add: GeometricConstraint_init_def GeometricConstraint.extend_def)
  from mapM_err_Inr_D[OF d0] have "length d0 = length csA"
    and "\<forall>i<length csA. d0 ! i = eDist (csA ! i) (csB ! i)"
    by (auto dest: proximity_Inr_D)
  then have "d0 = map (\<lambda>i. eDist (csA ! i) (csB ! i)) [0..<length csA]"
    by (auto intro: nth_equalityI)
  with self show "ProximityConstraint.D0 self = map (\<lambda>i. eDist (csA ! i) (csB ! i)) [0..<length csA]"
    by (simp add: GeometricConstraint_init_def GeometricConstraint.extend_def)
qed

lemma ProximityConstraint_evalFunctions_eq:
  assumes "nat (nCon self) \<le> length (update g (name self @ ''_A'') cfg)"
      and "nat (nCon self) \<le> length (update g (name self @ ''_B'') cfg)"
      and "nat (nCon self) \<le> length (ProximityConstraint.D0 self)"
      and "0 \<le> nCon self"
  shows "snd (snd (ProximityConstraint_evalFunctions self g funcs cfg)) =
           Inr (funcs(name self \<mapsto> FArray (map
             (\<lambda>i. let d = eDist (update g (name self @ ''_A'') cfg ! i) (update g (name self @ ''_B'') cfg ! i)
                  in if ProximityConstraint.scaled self
                     then np_div (Some d) (Some (ProximityConstraint.D0 self ! i)) else Some d)
             [0..<nat (nCon self)])))"
proof -
  let ?A = "update g (name self @ ''_A'') cfg"
  let ?B = "update g (name self @ ''_B'') cfg"
  let ?self1 = "self\<lparr>coordsA := ?A, coordsB := ?B\<rparr>"
  have "mapM_err (ProximityConstraint_entry ?self1 ?A ?B) [0..<nat (nCon self)] =
          Inr (map (\<lambda>i. let d = eDist (?A ! i) (?B ! i)
                  in if ProximityConstraint.scaled self
                     then np_div (Some d) (Some (ProximityConstraint.D0 self ! i)) else Some d)
             [0..<nat (nCon self)])"
    using assms
    by (intro mapM_err_Inr) (auto simp: ProximityConstraint_entry_def proximity_Inr getitem_def Let_def)
  then show ?thesis
    using assms by (simp add: ProximityConstraint_evalFunctions_def DVGeo_update_def py_range_def Let_def)
qed

text \<open>
  C1. \<open>evalFunctions\<close> of a \<open>ThicknessConstraint\<close> stores under \<open>funcs[name]\<close> an array
  with one entry per constraint (\<open>nCon\<close> of them); entry \<open>i\<close> is the Euclidean distance
  between the points \<open>2 i\<close> and \<open>2 i + 1\<close> that \<open>DVGeo.update\<close> returned and, when
  \<open>scaled\<close>, that distance divided by the distance \<open>D0[i]\<close> the constructor computed from
  the initial coordinates. The same holds for a \<open>ProximityConstraint\<close>, with the points
  \<open>i\<close> of its two point sets. The object is any object the constructor returned, whatever
  coordinates earlier evaluations left in it; the engine returns at least as many points
  as the constraints read.
\<close>

theorem evalFunctions_distances:
  "(ThicknessConstraint_init nm cs0 lo up scd sc g0 add cn = (g1, Inr self0) \<longrightarrow>
    2 * (length cs0 div 2) \<le> length (update g nm cfg) \<longrightarrow>
    nCon self0 = int (length cs0 div 2) \<and>
    snd (snd (ThicknessConstraint_evalFunctions (self0\<lparr>ThicknessConstraint.coords := cs'\<rparr>) g funcs cfg)) =
      Inr (funcs(nm \<mapsto> FArray (map
        (\<lambda>i. let d = eDist (update g nm cfg ! (2 * i)) (update g nm cfg ! (2 * i + 1))
             in if scd then np_div (Some d) (Some (eDist (cs0 ! (2 * i)) (cs0 ! (2 * i + 1))))
                else Some d)
        [0..<length cs0 div 2]))))
   \<and>
   (ProximityConstraint_init nm csA0 csB0 kwA kwB lo up scd sc g0 add cn = (g2, Inr selfP) \<longrightarrow>
    length csA0 \<le> length (update g (nm @ ''_A'') cfg) \<longrightarrow>
    length csA0 \<le> length (update g (nm @ ''_B'') cfg) \<longrightarrow>
    nCon selfP = int (length csA0) \<and>
    snd (snd (ProximityConstraint_evalFunctions (selfP\<lparr>coordsA := csA', coordsB := csB'\<rparr>) g funcs cfg)) =
      Inr (funcs(nm \<mapsto> FArray (map
        (\<lambda>i. let d = eDist (update g (nm @ ''_A'') cfg ! i) (update g (nm @ ''_B'') cfg ! i)
             in if scd then np_div (Some d) (Some (eDist (csA0 ! i) (csB0 ! i)))
                else Some d)
        [0..<length csA0]))))"
proof (intro conjI impI)
  assume init: "ThicknessConstraint_init nm cs0 lo up scd sc g0 add cn = (g1, Inr self0)"
     and len: "2 * (length cs0 div 2) \<le> length (update g nm cfg)"
  from init have self0: "self0 = \<lparr>name = nm, nCon = int (length cs0 div 2), lower = lo, upper = up,
      scale = sc, addToPyOpt = add, ThicknessConstraint.coords = cs0, ThicknessConstraint.scaled = scd,
      ThicknessConstraint.D0 = map (\<lambda>i. eDist (cs0 ! (2 * i)) (cs0 ! (2 * i + 1))) [0..<length cs0 div 2]\<rparr>"
    by (simp add: ThicknessConstraint_init_eq)
  show "nCon self0 = int (length cs0 div 2)" by (simp add: self0)
  show "snd (snd (ThicknessConstraint_evalFunctions (self0\<lparr>ThicknessConstraint.coords := cs'\<rparr>) g funcs cfg)) =
      Inr (funcs(nm \<mapsto> FArray (map
        (\<lambda>i. let d = eDist (update g nm cfg ! (2 * i)) (update g nm cfg ! (2 * i + 1))
             in if scd then np_div (Some d) (Some (eDist (cs0 ! (2 * i)) (cs0 ! (2 * i + 1))))
                else Some d)
        [0..<length cs0 div 2])))"
    using len ThicknessConstraint_evalFunctions_eq[of "self0\<lparr>ThicknessConstraint.coords := cs'\<rparr>" g cfg funcs]
    by (auto simp: self0 Let_def)
next
  assume init: "ProximityConstraint_init nm csA0 csB0 kwA kwB lo up scd sc g0 add cn = (g2, Inr selfP)"
     and lenA: "length csA0 \<le> length (update g (nm @ ''_A'') cfg)"
     and lenB: "length csA0 \<le> length (update g (nm @ ''_B'') cfg)"
  note D = ProximityConstraint_init_D[OF init]
  show "nCon selfP = int (length csA0)" by (rule D)
  show "snd (snd (ProximityConstraint_evalFunctions (selfP\<lparr>coordsA := csA', coordsB := csB'\<rparr>) g funcs cfg)) =
      Inr (funcs(nm \<mapsto> FArray (map
        (\<lambda>i. let d = eDist (update g (nm @ ''_A'') cfg ! i) (update g (nm @ ''_B'') cfg ! i)
             in if scd then np_div (Some d) (Some (eDist (csA0 ! i) (csB0 ! i)))
                else Some d)
        [0..<length csA0])))"
    using lenA lenB ProximityConstraint_evalFunctions_eq[of "selfP\<lparr>coordsA := csA', coordsB := csB'\<rparr>" g cfg funcs]
    by (auto simp: D Let_def)
qed


theorem evalFunctions_distances_witness:
  "snd (ThicknessConstraint_init ''t'' [(0, 0, 0), (0, 0, 1)] (0::real) 0 True 1
       (\<lparr>calls = [],
         update = (\<lambda>n c. if n = ''t'' then [(0, 0, 0), (0, 0, 2)]
                          else if n = ''t_A'' then [(0, 0, 0)] else [(0, 2, 0)]),
         getNDV = 1, totalSensitivity = (\<lambda>s n c. [])\<rparr> :: (nat, real) DVGeo) True None)
     = Inr \<lparr>name = ''t'', nCon = 1, lower = 0, upper = 0, scale = 1, addToPyOpt = True,
         ThicknessConstraint.coords = [(0, 0, 0), (0, 0, 1)], ThicknessConstraint.scaled = True,
         ThicknessConstraint.D0 = [1]\<rparr>
   \<and> snd (snd (ThicknessConstraint_evalFunctions
       (\<lparr>name = ''t'', nCon = 1, lower = 0::real, upper = 0, scale = 1, addToPyOpt = True,
         ThicknessConstraint.coords = [], ThicknessConstraint.scaled = True,
         ThicknessConstraint.D0 = [1]\<rparr>)
       (\<lparr>calls = [],
         update = (\<lambda>n c. if n = ''t'' then [(0, 0, 0), (0, 0, 2)]
                          else if n = ''t_A'' then [(0, 0, 0)] else [(0, 2, 0)]),
         getNDV = 1, totalSensitivity = (\<lambda>s n c. [])\<rparr> :: (nat, real) DVGeo)
       Map.empty None))
     = Inr [''t'' \<mapsto> FArray [Some 2]]
   \<and> snd (ProximityConstraint_init ''t'' [(0, 0, 0)] [(0, 1, 0)] [] [] (0::real) 0 True 1
       (\<lparr>calls = [],
         update = (\<lambda>n c. if n = ''t'' then [(0, 0, 0), (0, 0, 2)]
                          else if n = ''t_A'' then [(0, 0, 0)] else [(0, 2, 0)]),
         getNDV = 1, totalSensitivity = (\<lambda>s n c. [])\<rparr> :: (nat, real) DVGeo) True None)
     = Inr \<lparr>name = ''t'', nCon = 1, lower = 0, upper = 0, scale = 1, addToPyOpt = True,
         coordsA = [(0, 0, 0)], coordsB = [(0, 1, 0)], ProximityConstraint.scaled = True,
         ProximityConstraint.D0 = [1]\<rparr>
   \<and> snd (snd (ProximityConstraint_evalFunctions
       (\<lparr>name = ''t'', nCon = 1, lower = 0::real, upper = 0, scale = 1, addToPyOpt = True,
         coordsA = [], coordsB = [], ProximityConstraint.scaled = True,
         ProximityConstraint.D0 = [1]\<rparr>)
       (\<lparr>calls = [],
         update = (\<lambda>n c. if n = ''t'' then [(0, 0, 0), (0, 0, 2)]
                          else if n = ''t_A'' then [(0, 0, 0)] else [(0, 2, 0)]),
         getNDV = 1, totalSensitivity = (\<lambda>s n c. [])\<rparr> :: (nat, real) DVGeo)
       Map.empty None))
     = Inr [''t'' \<mapsto> FArray [Some 2]]"
proof -
  let ?g = "\<lparr>calls = [],
         update = (\<lambda>n c. if n = ''t'' then [(0, 0, 0), (0, 0, 2)]
                          else if n = ''t_A'' then [(0, 0, 0)] else [(0, 2, 0)]),
         getNDV = 1, totalSensitivity = (\<lambda>s n c. [])\<rparr> :: (nat, real) DVGeo"
  let ?T = "\<lparr>name = ''t'', nCon = 1, lower = 0::real, upper = 0, scale = 1, addToPyOpt = True,
         ThicknessConstraint.coords = [(0, 0, 0), (0, 0, 1)], ThicknessConstraint.scaled = True,
         ThicknessConstraint.D0 = [1]\<rparr>"
  let ?P = "\<lparr>name = ''t'', nCon = 1, lower = 0::real, upper = 0, scale = 1, addToPyOpt = True,
         coordsA = [(0, 0, 0)], coordsB = [(0, 1, 0)], ProximityConstraint.scaled = True,
         ProximityConstraint.D0 = [1]\<rparr>"
  have T: "ThicknessConstraint_init ''t'' [(0, 0, 0), (0, 0, 1)] 0 0 True 1 ?g True None
             = (DVGeo_addPointSet ?g [(0, 0, 0), (0, 0, 1)] ''t'' None [], Inr ?T)"
    by (simp add: ThicknessConstraint_init_def GeometricConstraint_init_def py_range_def
        GeometricConstraint.extend_def toothpick_def getitem_def euclideanNorm_def vsub_def vzip_def)
  have P: "ProximityConstraint_init ''t'' [(0, 0, 0)] [(0, 1, 0)] [] [] 0 0 True 1 ?g True None
             = (DVGeo_addPointSet (DVGeo_addPointSet ?g [(0, 0, 0)] ''t_A'' None []) [(0, 1, 0)] ''t_B'' None [],
                Inr ?P)"
    by (simp add: ProximityConstraint_init_def GeometricConstraint_init_def py_range_def
        GeometricConstraint.extend_def proximity_def getitem_def euclideanNorm_def vsub_def vzip_def)
  show ?thesis
    using evalFunctions_distances[of "''t''" "[(0, 0, 0), (0, 0, 1)]" 0 0 True 1 ?g True None
        "DVGeo_addPointSet ?g [(0, 0, 0), (0, 0, 1)] ''t'' None []" ?T ?g None "[]" Map.empty
        "[(0, 0, 0)]" "[(0, 1, 0)]" "[]" "[]"
        "DVGeo_addPointSet (DVGeo_addPointSet ?g [(0, 0, 0)] ''t_A'' None []) [(0, 1, 0)] ''t_B'' None []"
        ?P "[]" "[]"] T P
    by (simp add: eDist_def euclideanNorm_def vsub_def vzip_def np_div_def)
qed

subsection \<open>ThicknessToChordConstraint: the normalised ratio\<close>

lemma get4_Inr:
  "4 * i + 3 < length cs \<Longrightarrow>
     get4 cs i = Inr (cs ! (4 * i), cs ! (4 * i + 1), cs ! (4 * i + 2), cs ! (4 * i + 3))"
  by (simp add: get4_def getitem_def)

lemma ThicknessToChordConstraint_init_eq:
  "ThicknessToChordConstraint_init linalg_norm nm cs lo up sc g add cn =
     (DVGeo_addPointSet g cs nm cn [],
      Inr \<lparr>name = nm, nCon = int (length cs div 4), lower = lo, upper = up, scale = sc,
           addToPyOpt = add, ThicknessToChordConstraint.coords = cs,
           ThicknessToChordConstraint.ToC0 =
             map (\<lambda>i. np_div (Some (linalg_norm (vsub (cs ! (4 * i)) (cs ! (4 * i + 1)))))
                             (Some (linalg_norm (vsub (cs ! (4 * i + 2)) (cs ! (4 * i + 3))))))
                 [0..<length cs div 4]\<rparr>)"
proof -
  have "mapM_err (ThicknessToChordConstraint_ref linalg_norm cs) [0..<length cs div 4]
          = Inr (map (\<lambda>i. np_div (Some (linalg_norm (vsub (cs ! (4 * i)) (cs ! (4 * i + 1)))))
                             (Some (linalg_norm (vsub (cs ! (4 * i + 2)) (cs ! (4 * i + 3))))))
                 [0..<length cs div 4])"
    by (rule mapM_err_Inr)
       (simp add: ThicknessToChordConstraint_ref_def get4_Inr Let_def)
  then show ?thesis
    by (simp add: ThicknessToChordConstraint_init_def GeometricConstraint_init_def py_range_def
        GeometricConstraint.extend_def Let_def)
qed

lemma ThicknessToChordConstraint_evalFunctions_eq:
  assumes "4 * nat (nCon self) \<le> length (update g (name self) cfg)"
      and "nat (nCon self) \<le> length (ThicknessToChordConstraint.ToC0 self)"
      and "0 \<le> nCon self"
  shows "snd (snd (ThicknessToChordConstraint_evalFunctions self g funcs cfg)) =
           Inr (funcs(name self \<mapsto> FArray (map
             (\<lambda>i. np_div (np_div (Some (eDist (update g (name self) cfg ! (4 * i))
                                                 (update g (name self) cfg ! (4 * i + 1))))
                                    (Some (eDist (update g (name self) cfg ! (4 * i + 2))
                                                 (update g (name self) cfg ! (4 * i + 3)))))
                            (ThicknessToChordConstraint.ToC0 self ! i))
             [0..<nat (nCon self)])))"
proof -
  let ?cs = "update g (name self) cfg"
  let ?self1 = "self\<lparr>ThicknessToChordConstraint.coords := ?cs\<rparr>"
  have "mapM_err (ThicknessToChordConstraint_entry ?self1 ?cs) [0..<nat (nCon self)] =
          Inr (map (\<lambda>i. np_div (np_div (Some (eDist (?cs ! (4 * i)) (?cs ! (4 * i + 1))))
                                    (Some (eDist (?cs ! (4 * i + 2)) (?cs ! (4 * i + 3)))))
                            (ThicknessToChordConstraint.ToC0 self ! i))
             [0..<nat (nCon self)])"
    using assms
    by (intro mapM_err_Inr)
       (auto simp: ThicknessToChordConstraint_entry_def get4_Inr getitem_def Let_def)
  then show ?thesis
    using assms
    by (simp add: ThicknessToChordConstraint_evalFunctions_def DVGeo_update_def py_range_def Let_def)
qed

lemma np_div_same:
  "np_div r r = (case r of None \<Rightarrow> None | Some q \<Rightarrow> if q = 0 then None else Some 1)"
  by (simp add: np_div_def split: option.splits)

text \<open>
  C10 (as amended). \<open>ThicknessToChordConstraint.evalFunctions\<close> always divides by the
  baseline ratio: entry \<open>i\<close> of \<open>funcs[name]\<close> is \<open>(t / c) / ToC0[i]\<close>, whatever the
  object's state, where \<open>t\<close> and \<open>c\<close> are measured with \<open>geo_utils.eDist\<close> and \<open>ToC0[i]\<close>
  is the ratio the constructor measured with \<open>np.linalg.norm\<close>. When \<open>DVGeo.update\<close>
  returns the coordinates the constructor received and the ratio \<open>t / c\<close> comes out as the
  same number as \<open>ToC0[i]\<close>, entry \<open>i\<close> is 1 if that number is finite and not zero, and is
  not a finite number otherwise.
\<close>

theorem ThicknessToChord_normalised:
  "ThicknessToChordConstraint_init linalg_norm nm cs0 lo up sc g0 add cn = (g1, Inr self0) \<longrightarrow>
   (ThicknessToChordConstraint.ToC0 self0 =
      map (\<lambda>i. np_div (Some (linalg_norm (vsub (cs0 ! (4 * i)) (cs0 ! (4 * i + 1)))))
                      (Some (linalg_norm (vsub (cs0 ! (4 * i + 2)) (cs0 ! (4 * i + 3))))))
          [0..<length cs0 div 4])
   \<and>
   (4 * (length cs0 div 4) \<le> length (update g nm cfg) \<longrightarrow>
    snd (snd (ThicknessToChordConstraint_evalFunctions
                (self0\<lparr>ThicknessToChordConstraint.coords := cs'\<rparr>) g funcs cfg)) =
      Inr (funcs(nm \<mapsto> FArray (map
        (\<lambda>i. np_div (np_div (Some (eDist (update g nm cfg ! (4 * i)) (update g nm cfg ! (4 * i + 1))))
                            (Some (eDist (update g nm cfg ! (4 * i + 2)) (update g nm cfg ! (4 * i + 3)))))
                    (ThicknessToChordConstraint.ToC0 self0 ! i))
        [0..<length cs0 div 4]))))
   \<and>
   (update g nm cfg = cs0 \<longrightarrow>
    (\<forall>i<length cs0 div 4.
        np_div (Some (eDist (cs0 ! (4 * i)) (cs0 ! (4 * i + 1))))
               (Some (eDist (cs0 ! (4 * i + 2)) (cs0 ! (4 * i + 3))))
          = ThicknessToChordConstraint.ToC0 self0 ! i) \<longrightarrow>
    snd (snd (ThicknessToChordConstraint_evalFunctions
                (self0\<lparr>ThicknessToChordConstraint.coords := cs'\<rparr>) g funcs cfg)) =
      Inr (funcs(nm \<mapsto> FArray (map
        (\<lambda>i. case ThicknessToChordConstraint.ToC0 self0 ! i of
               None \<Rightarrow> None
             | Some q \<Rightarrow> if q = 0 then None else Some 1)
        [0..<length cs0 div 4]))))"
proof (intro impI)
  assume init: "ThicknessToChordConstraint_init linalg_norm nm cs0 lo up sc g0 add cn = (g1, Inr self0)"
  let ?toc0 = "\<lambda>i. np_div (Some (linalg_norm (vsub (cs0 ! (4 * i)) (cs0 ! (4 * i + 1)))))
                          (Some (linalg_norm (vsub (cs0 ! (4 * i + 2)) (cs0 ! (4 * i + 3)))))"
  from init have self0: "self0 = \<lparr>name = nm, nCon = int (length cs0 div 4), lower = lo, upper = up,
      scale = sc, addToPyOpt = add, ThicknessToChordConstraint.coords = cs0,
      ThicknessToChordConstraint.ToC0 = map ?toc0 [0..<length cs0 div 4]\<rparr>"
    by (simp add: ThicknessToChordConstraint_init_eq)
  have base: "ThicknessToChordConstraint.ToC0 self0 =
      map (\<lambda>i. np_div (Some (linalg_norm (vsub (cs0 ! (4 * i)) (cs0 ! (4 * i + 1)))))
                      (Some (linalg_norm (vsub (cs0 ! (4 * i + 2)) (cs0 ! (4 * i + 3))))))
          [0..<length cs0 div 4]"
    by (simp add: self0)
  have general: "snd (snd (ThicknessToChordConstraint_evalFunctions
                (self0\<lparr>ThicknessToChordConstraint.coords := cs'\<rparr>) g funcs cfg)) =
      Inr (funcs(nm \<mapsto> FArray (map
        (\<lambda>i. np_div (np_div (Some (eDist (update g nm cfg ! (4 * i)) (update g nm cfg ! (4 * i + 1))))
                            (Some (eDist (update g nm cfg ! (4 * i + 2)) (update g nm cfg ! (4 * i + 3)))))
                    (ThicknessToChordConstraint.ToC0 self0 ! i))
        [0..<length cs0 div 4])))"
    if "4 * (length cs0 div 4) \<le> length (update g nm cfg)"
    using that ThicknessToChordConstraint_evalFunctions_eq
                 [of "self0\<lparr>ThicknessToChordConstraint.coords := cs'\<rparr>" g cfg funcs]
    by (auto simp: self0)
  have same: "snd (snd (ThicknessToChordConstraint_evalFunctions
                (self0\<lparr>ThicknessToChordConstraint.coords := cs'\<rparr>) g funcs cfg)) =
      Inr (funcs(nm \<mapsto> FArray (map
        (\<lambda>i. case ThicknessToChordConstraint.ToC0 self0 ! i of
               None \<Rightarrow> None
             | Some q \<Rightarrow> if q = 0 then None else Some 1)
        [0..<length cs0 div 4])))"
    if eq: "update g nm cfg = cs0"
      and agree: "\<forall>i<length cs0 div 4.
        np_div (Some (eDist (cs0 ! (4 * i)) (cs0 ! (4 * i + 1))))
               (Some (eDist (cs0 ! (4 * i + 2)) (cs0 ! (4 * i + 3))))
          = ThicknessToChordConstraint.ToC0 self0 ! i"
  proof -
    have len: "4 * (length cs0 div 4) \<le> length (update g nm cfg)"
      by (simp add: eq)
    have m: "map (\<lambda>i. np_div (np_div (Some (eDist (cs0 ! (4 * i)) (cs0 ! (4 * i + 1))))
                                    (Some (eDist (cs0 ! (4 * i + 2)) (cs0 ! (4 * i + 3)))))
                            (ThicknessToChordConstraint.ToC0 self0 ! i))
                 [0..<length cs0 div 4]
             = map (\<lambda>i. case ThicknessToChordConstraint.ToC0 self0 ! i of
                          None \<Rightarrow> None
                        | Some q \<Rightarrow> if q = 0 then None else Some 1)
                 [0..<length cs0 div 4]"
    proof (rule map_cong[OF refl])
      fix i assume "i \<in> set [0..<length cs0 div 4]"
      then have "i < length cs0 div 4" by simp
      with agree have "np_div (Some (eDist (cs0 ! (4 * i)) (cs0 ! (4 * i + 1))))
                              (Some (eDist (cs0 ! (4 * i + 2)) (cs0 ! (4 * i + 3))))
                         = ThicknessToChordConstraint.ToC0 self0 ! i"
        by blast
      then show "np_div (np_div (Some (eDist (cs0 ! (4 * i)) (cs0 ! (4 * i + 1))))
                                (Some (eDist (cs0 ! (4 * i + 2)) (cs0 ! (4 * i + 3)))))
                        (ThicknessToChordConstraint.ToC0 self0 ! i)
                   = (case ThicknessToChordConstraint.ToC0 self0 ! i of
                        None \<Rightarrow> None
                      | Some q \<Rightarrow> if q = 0 then None else Some 1)"
        by (simp only: np_div_same)
    qed
    from general[OF len] show ?thesis
      unfolding eq m .
  qed
  from base general same show "(ThicknessToChordConstraint.ToC0 self0 =
      map (\<lambda>i. np_div (Some (linalg_norm (vsub (cs0 ! (4 * i)) (cs0 ! (4 * i + 1)))))
                      (Some (linalg_norm (vsub (cs0 ! (4 * i + 2)) (cs0 ! (4 * i + 3))))))
          [0..<length cs0 div 4])
   \<and>
   (4 * (length cs0 div 4) \<le> length (update g nm cfg) \<longrightarrow>
    snd (snd (ThicknessToChordConstraint_evalFunctions
                (self0\<lparr>ThicknessToChordConstraint.coords := cs'\<rparr>) g funcs cfg)) =
      Inr (funcs(nm \<mapsto> FArray (map
        (\<lambda>i. np_div (np_div (Some (eDist (update g nm cfg ! (4 * i)) (update g nm cfg ! (4 * i + 1))))
                            (Some (eDist (update g nm cfg ! (4 * i + 2)) (update g nm cfg ! (4 * i + 3)))))
                    (ThicknessToChordConstraint.ToC0 self0 ! i))
        [0..<length cs0 div 4]))))
   \<and>
   (update g nm cfg = cs0 \<longrightarrow>
    (\<forall>i<length cs0 div 4.
        np_div (Some (eDist (cs0 ! (4 * i)) (cs0 ! (4 * i + 1))))
               (Some (eDist (cs0 ! (4 * i + 2)) (cs0 ! (4 * i + 3))))
          = ThicknessToChordConstraint.ToC0 self0 ! i) \<longrightarrow>
    snd (snd (ThicknessToChordConstraint_evalFunctions
                (self0\<lparr>ThicknessToChordConstraint.coords := cs'\<rparr>) g funcs cfg)) =
      Inr (funcs(nm \<mapsto> FArray (map
        (\<lambda>i. case ThicknessToChordConstraint.ToC0 self0 ! i of
               None \<Rightarrow> None
             | Some q \<Rightarrow> if q = 0 then None else Some 1)
        [0..<length cs0 div 4]))))"
    by blast
qed

theorem ThicknessToChord_normalised_witness:
  "snd (ThicknessToChordConstraint_init euclideanNorm ''r'' [(0, 0, 0), (0, 0, 1), (0, 0, 0), (2, 0, 0)] (0::real) 0 1
       (\<lparr>calls = [], update = (\<lambda>n c. [(0, 0, 0), (0, 0, 1), (0, 0, 0), (2, 0, 0)]), getNDV = 1,
         totalSensitivity = (\<lambda>s n c. [])\<rparr> :: (nat, real) DVGeo) True None)
     = Inr \<lparr>name = ''r'', nCon = 1, lower = 0, upper = 0, scale = 1, addToPyOpt = True,
         ThicknessToChordConstraint.coords = [(0, 0, 0), (0, 0, 1), (0, 0, 0), (2, 0, 0)],
         ThicknessToChordConstraint.ToC0 = [Some (1 / 2)]\<rparr>
   \<and> update (\<lparr>calls = [], update = (\<lambda>n c. [(0, 0, 0), (0, 0, 1), (0, 0, 0), (2, 0, 0)]), getNDV = 1,
         totalSensitivity = (\<lambda>s n c. [])\<rparr> :: (nat, real) DVGeo) ''r'' None = [(0, 0, 0), (0, 0, 1), (0, 0, 0), (2, 0, 0)]
   \<and> np_div (Some (eDist (0, 0, 0) (0, 0, 1))) (Some (eDist (0, 0, 0) (2, 0, 0))) = Some (1 / 2)
   \<and> snd (snd (ThicknessToChordConstraint_evalFunctions
       \<lparr>name = ''r'', nCon = 1, lower = 0::real, upper = 0, scale = 1, addToPyOpt = True,
         ThicknessToChordConstraint.coords = [(0, 0, 0), (0, 0, 1), (0, 0, 0), (2, 0, 0)],
         ThicknessToChordConstraint.ToC0 = [Some (1 / 2)]\<rparr>
       (\<lparr>calls = [], update = (\<lambda>n c. [(0, 0, 0), (0, 0, 1), (0, 0, 0), (2, 0, 0)]), getNDV = 1,
         totalSensitivity = (\<lambda>s n c. [])\<rparr> :: (nat, real) DVGeo)
       Map.empty None))
     = Inr [''r'' \<mapsto> FArray [Some 1]]"
proof -
  let ?cs = "[(0, 0, 0), (0, 0, 1), (0, 0, 0), (2, 0, 0)]"
  let ?g = "(\<lparr>calls = [], update = (\<lambda>n c. [(0, 0, 0), (0, 0, 1), (0, 0, 0), (2, 0, 0)]), getNDV = 1,
         totalSensitivity = (\<lambda>s n c. [])\<rparr> :: (nat, real) DVGeo)"
  let ?S = "\<lparr>name = ''r'', nCon = 1, lower = 0::real, upper = 0, scale = 1, addToPyOpt = True,
         ThicknessToChordConstraint.coords = [(0, 0, 0), (0, 0, 1), (0, 0, 0), (2, 0, 0)],
         ThicknessToChordConstraint.ToC0 = [Some (1 / 2)]\<rparr>"
  have sq: "eDist (0, 0, 0) (0, 0, 1) = 1" "eDist (0, 0, 0) (2, 0, 0) = 2"
    by (simp_all add: eDist_def euclideanNorm_def vsub_def vzip_def)
  have init: "ThicknessToChordConstraint_init euclideanNorm ''r'' ?cs 0 0 1 ?g True None
                = (DVGeo_addPointSet ?g ?cs ''r'' None [], Inr ?S)"
    by (simp add: ThicknessToChordConstraint_init_eq euclideanNorm_def vsub_def vzip_def np_div_def)
  have r: "np_div (Some (eDist (0, 0, 0) (0, 0, 1))) (Some (eDist (0, 0, 0) (2, 0, 0))) = Some (1 / 2)"
    by (simp add: sq np_div_def)
  show ?thesis
    using ThicknessToChord_normalised[of euclideanNorm "''r''" ?cs 0 0 1 ?g True None
        "DVGeo_addPointSet ?g ?cs ''r'' None []" ?S ?g None ?cs Map.empty] init r
    by (simp add: eDist_def euclideanNorm_def vsub_def vzip_def np_div_def)
qed

text \<open>
  C10 as stated fails for a toothpick of length zero: the baseline ratio is 0, and the
  entry is \<open>0 / 0\<close>, which is not 1. On these vectors \<open>np.linalg.norm\<close> returns exactly
  0 and 1, as the Euclidean norm does.
\<close>

theorem ThicknessToChord_normalised_counterexample:
  "snd (ThicknessToChordConstraint_init euclideanNorm ''r'' [(0, 0, 0), (0, 0, 0), (0, 0, 0), (1, 0, 0)] (0::real) 0 1
       (\<lparr>calls = [], update = (\<lambda>n c. [(0, 0, 0), (0, 0, 0), (0, 0, 0), (1, 0, 0)]), getNDV = 1,
         totalSensitivity = (\<lambda>s n c. [])\<rparr> :: (nat, real) DVGeo) True None)
     = Inr \<lparr>name = ''r'', nCon = 1, lower = 0, upper = 0, scale = 1, addToPyOpt = True,
         ThicknessToChordConstraint.coords = [(0, 0, 0), (0, 0, 0), (0, 0, 0), (1, 0, 0)],
         ThicknessToChordConstraint.ToC0 = [Some 0]\<rparr>
   \<and> update (\<lparr>calls = [], update = (\<lambda>n c. [(0, 0, 0), (0, 0, 0), (0, 0, 0), (1, 0, 0)]), getNDV = 1,
         totalSensitivity = (\<lambda>s n c. [])\<rparr> :: (nat, real) DVGeo) ''r'' None = [(0, 0, 0), (0, 0, 0), (0, 0, 0), (1, 0, 0)]
   \<and> snd (snd (ThicknessToChordConstraint_evalFunctions
       \<lparr>name = ''r'', nCon = 1, lower = 0::real, upper = 0, scale = 1, addToPyOpt = True,
         ThicknessToChordConstraint.coords = [(0, 0, 0), (0, 0, 0), (0, 0, 0), (1, 0, 0)],
         ThicknessToChordConstraint.ToC0 = [Some 0]\<rparr>
       (\<lparr>calls = [], update = (\<lambda>n c. [(0, 0, 0), (0, 0, 0), (0, 0, 0), (1, 0, 0)]), getNDV = 1,
         totalSensitivity = (\<lambda>s n c. [])\<rparr> :: (nat, real) DVGeo)
       Map.empty None))
     = Inr [''r'' \<mapsto> FArray [None]]"
proof -
  let ?cs = "[(0, 0, 0), (0, 0, 0), (0, 0, 0), (1, 0, 0)]"
  let ?g = "(\<lparr>calls = [], update = (\<lambda>n c. [(0, 0, 0), (0, 0, 0), (0, 0, 0), (1, 0, 0)]), getNDV = 1,
         totalSensitivity = (\<lambda>s n c. [])\<rparr> :: (nat, real) DVGeo)"
  let ?S = "\<lparr>name = ''r'', nCon = 1, lower = 0::real, upper = 0, scale = 1, addToPyOpt = True,
         ThicknessToChordConstraint.coords = [(0, 0, 0), (0, 0, 0), (0, 0, 0), (1, 0, 0)],
         ThicknessToChordConstraint.ToC0 = [Some 0]\<rparr>"
  have init: "ThicknessToChordConstraint_init euclideanNorm ''r'' ?cs 0 0 1 ?g True None
                = (DVGeo_addPointSet ?g ?cs ''r'' None [], Inr ?S)"
    by (simp add: ThicknessToChordConstraint_init_eq euclideanNorm_def vsub_def vzip_def np_div_def)
  show ?thesis
    using ThicknessToChordConstraint_evalFunctions_eq[of ?S ?g None Map.empty] init
    by (simp add: eDist_def euclideanNorm_def vsub_def vzip_def np_div_def)
qed

subsection \<open>The constructors register their point sets\<close>

text \<open>
  C5. Every constructor calls \<open>DVGeo.addPointSet\<close> before it computes its reference
  values: the engine it leaves behind has exactly the registrations added to its calls,
  whether or not the computation of the reference values then succeeds. The four classes
  with one coordinate array register one point set under the constraint's name;
  \<open>KSMaxThicknessToChordConstraint\<close> registers \<open>name_coords\<close> and \<open>name_lete\<close>, and
  \<open>ProximityConstraint\<close> registers \<open>name_A\<close> and \<open>name_B\<close>.
\<close>

theorem constructors_register_point_sets:
  "fst (ThicknessConstraint_init nm cs lo up scd sc g add cn)
     = g\<lparr>calls := calls g @ [AddPointSet cs nm cn []]\<rparr>
   \<and> fst (ProjectedThicknessConstraint_init nm cs lo up scd sc g add cn)
     = g\<lparr>calls := calls g @ [AddPointSet cs nm cn []]\<rparr>
   \<and> fst (ThicknessToChordConstraint_init linalg_norm nm cs lo up sc g add cn)
     = g\<lparr>calls := calls g @ [AddPointSet cs nm cn []]\<rparr>
   \<and> fst (TESlopeConstraint_init nm cs lo up scd sc g add cn)
     = g\<lparr>calls := calls g @ [AddPointSet cs nm cn []]\<rparr>
   \<and> fst (KSMaxThicknessToChordConstraint_init KS_compute nm cs lePt tePt rh ks dbc lo up scd sc g add cn)
     = g\<lparr>calls := calls g @ [AddPointSet cs (nm @ ''_coords'') cn [],
                               AddPointSet [lePt, tePt] (nm @ ''_lete'') cn []]\<rparr>
   \<and> fst (ProximityConstraint_init nm csA csB kwA kwB lo up scd sc g add cn)
     = g\<lparr>calls := calls g @ [AddPointSet csA (nm @ ''_A'') cn kwA,
                               AddPointSet csB (nm @ ''_B'') cn kwB]\<rparr>"
  by (simp add: ThicknessConstraint_init_def ProjectedThicknessConstraint_init_def
      ThicknessToChordConstraint_init_def TESlopeConstraint_init_def
      KSMaxThicknessToChordConstraint_init_def ProximityConstraint_init_def
      DVGeo_addPointSet_def Let_def)

subsection \<open>No design variables\<close>

text \<open>
  C8. When \<open>DVGeo.getNDV()\<close> returns 0, \<open>evalFunctionsSens\<close> of every class returns
  \<open>funcsSens\<close> as it was, leaves the object as it was, and the only call it makes to the
  engine is \<open>getNDV\<close>: \<open>totalSensitivity\<close> is not called.
\<close>

theorem evalFunctionsSens_no_design_variables:
  "ThicknessConstraint_evalFunctionsSens eDist_b selfT (g\<lparr>getNDV := 0\<rparr>) funcsSens cfg
     = (selfT, g\<lparr>getNDV := 0, calls := calls g @ [GetNDV]\<rparr>, Inr funcsSens)
   \<and> ProjectedThicknessConstraint_evalFunctionsSens selfP (g\<lparr>getNDV := 0\<rparr>) funcsSens cfg
     = (selfP, g\<lparr>getNDV := 0, calls := calls g @ [GetNDV]\<rparr>, Inr funcsSens)
   \<and> ThicknessToChordConstraint_evalFunctionsSens eDist_b selfR (g\<lparr>getNDV := 0\<rparr>) funcsSens cfg
     = (selfR, g\<lparr>getNDV := 0, calls := calls g @ [GetNDV]\<rparr>, Inr funcsSens)
   \<and> KSMaxThicknessToChordConstraint_evalFunctionsSens eDist_b KS_derivatives selfK
         (g\<lparr>getNDV := 0\<rparr>) funcsSens cfg
     = (selfK, g\<lparr>getNDV := 0, calls := calls g @ [GetNDV]\<rparr>, Inr funcsSens)
   \<and> TESlopeConstraint_evalFunctionsSens selfS (g\<lparr>getNDV := 0\<rparr>) funcsSens cfg
     = (selfS, g\<lparr>getNDV := 0, calls := calls g @ [GetNDV]\<rparr>, Inr funcsSens)
   \<and> ProximityConstraint_evalFunctionsSens eDist_b selfX (g\<lparr>getNDV := 0\<rparr>) funcsSens cfg
     = (selfX, g\<lparr>getNDV := 0, calls := calls g @ [GetNDV]\<rparr>, Inr funcsSens)"
  by (simp add: ThicknessConstraint_evalFunctionsSens_def
      ProjectedThicknessConstraint_evalFunctionsSens_def
      ThicknessToChordConstraint_evalFunctionsSens_def
      KSMaxThicknessToChordConstraint_evalFunctionsSens_def
      TESlopeConstraint_evalFunctionsSens_def ProximityConstraint_evalFunctionsSens_def
      DVGeo_getNDV_def)

subsection \<open>The writers\<close>

lemma write_each_appends: "\<exists>ls. fst (write_each f xs h) = h @ ls"
proof (induction xs arbitrary: h)
  case Nil
  then show ?case by simp
next
  case (Cons x xs)
  obtain ls e where fx: "f x = (ls, e)" by (cases "f x")
  show ?case
  proof (cases e)
    case None
    from Cons.IH[of "h @ ls"] obtain ls' where "fst (write_each f xs (h @ ls)) = (h @ ls) @ ls'" ..
    with fx None show ?thesis by simp
  next
    case (Some err)
    with fx show ?thesis by simp
  qed
qed

lemma ProjectedThicknessConstraint_writeTecplot_frame:
  "fst (ProjectedThicknessConstraint_writeTecplot fmt_f self h) = self
   \<and> (\<exists>ls. fst (snd (ProjectedThicknessConstraint_writeTecplot fmt_f self h)) = h @ ls)"
proof -
  let ?h1 = "h @ toothpick_zone fmt_f (name self) (ProjectedThicknessConstraint.coords self)
               @ zone_header (name self @ ''_ref_directions'')
                   (int (length (dir_vec self)) * 2) (int (length (dir_vec self)))"
  obtain ls where ls: "fst (write_each (ProjectedThicknessConstraint_ref_points fmt_f self)
                          (py_range (nCon self)) ?h1) = ?h1 @ ls"
    using write_each_appends by blast
  obtain h2 e where w: "write_each (ProjectedThicknessConstraint_ref_points fmt_f self)
                          (py_range (nCon self)) ?h1 = (h2, e)"
    by (cases "write_each (ProjectedThicknessConstraint_ref_points fmt_f self)
                          (py_range (nCon self)) ?h1")
  with ls have h2: "h2 = ?h1 @ ls" by simp
  show ?thesis
    using w h2 by (cases e) (simp_all add: ProjectedThicknessConstraint_writeTecplot_def Let_def)
qed

lemma ProximityConstraint_writeTecplot_frame:
  "fst (ProximityConstraint_writeTecplot fmt_f self h) = self
   \<and> (\<exists>ls. fst (snd (ProximityConstraint_writeTecplot fmt_f self h)) = h @ ls)"
proof -
  let ?h1 = "h @ zone_header (name self) (int (length (coordsA self)) * 2) (int (length (coordsA self)))"
  obtain ls where ls: "fst (write_each (ProximityConstraint_point_pair fmt_f self)
                          [0..<length (coordsA self)] ?h1) = ?h1 @ ls"
    using write_each_appends by blast
  obtain h2 e where w: "write_each (ProximityConstraint_point_pair fmt_f self)
                          [0..<length (coordsA self)] ?h1 = (h2, e)"
    by (cases "write_each (ProximityConstraint_point_pair fmt_f self)
                          [0..<length (coordsA self)] ?h1")
  with ls have h2: "h2 = ?h1 @ ls" by simp
  show ?thesis
    using w h2 by (cases e) (simp_all add: ProximityConstraint_writeTecplot_def Let_def)
qed

lemma KSMaxThicknessToChordConstraint_writeTecplot_frame:
  "fst (KSMaxThicknessToChordConstraint_writeTecplot fmt_f self h) = self
   \<and> (\<exists>ls. fst (snd (KSMaxThicknessToChordConstraint_writeTecplot fmt_f self h)) = h @ ls)"
  by (simp add: KSMaxThicknessToChordConstraint_writeTecplot_def Let_def split: sum.splits)

text \<open>
  C7. \<open>writeTecplot\<close> of every class returns the object it was given, with every
  attribute as it was, and only appends strings to the file handle; this holds also when
  the writer raises part-way.
\<close>

theorem writeTecplot_frame:
  "(fst (ThicknessConstraint_writeTecplot fmt_f selfT h) = selfT
    \<and> (\<exists>ls. fst (snd (ThicknessConstraint_writeTecplot fmt_f selfT h)) = h @ ls))
   \<and> (fst (ProjectedThicknessConstraint_writeTecplot fmt_f selfP h) = selfP
    \<and> (\<exists>ls. fst (snd (ProjectedThicknessConstraint_writeTecplot fmt_f selfP h)) = h @ ls))
   \<and> (fst (ThicknessToChordConstraint_writeTecplot fmt_f selfR h) = selfR
    \<and> (\<exists>ls. fst (snd (ThicknessToChordConstraint_writeTecplot fmt_f selfR h)) = h @ ls))
   \<and> (fst (KSMaxThicknessToChordConstraint_writeTecplot fmt_f selfK h) = selfK
    \<and> (\<exists>ls. fst (snd (KSMaxThicknessToChordConstraint_writeTecplot fmt_f selfK h)) = h @ ls))
   \<and> (fst (TESlopeConstraint_writeTecplot fmt_f selfS h) = selfS
    \<and> (\<exists>ls. fst (snd (TESlopeConstraint_writeTecplot fmt_f selfS h)) = h @ ls))
   \<and> (fst (ProximityConstraint_writeTecplot fmt_f selfX h) = selfX
    \<and> (\<exists>ls. fst (snd (ProximityConstraint_writeTecplot fmt_f selfX h)) = h @ ls))"
  using ProjectedThicknessConstraint_writeTecplot_frame[of fmt_f selfP h]
        ProximityConstraint_writeTecplot_frame[of fmt_f selfX h]
        KSMaxThicknessToChordConstraint_writeTecplot_frame[of fmt_f selfK h]
  by (simp add: ThicknessConstraint_writeTecplot_def ThicknessToChordConstraint_writeTecplot_def
      TESlopeConstraint_writeTecplot_def Let_def)

subsection \<open>The keys of the combined sensitivities\<close>

lemma KSMax_tmpTotal_fold_keys:
  "foldM_err
       (\<lambda>key tmpTotal.
          case map_of tmp0 key of
            None \<Rightarrow> Inl KeyError
          | Some v0 \<Rightarrow> (case map_of tmp1 key of
                         None \<Rightarrow> Inl KeyError
                       | Some v1 \<Rightarrow> Inr (AList.update key (v0 + v1) tmpTotal)))
       ks acc = Inr tot
   \<Longrightarrow> fst ` set tot = fst ` set acc \<union> set ks"
proof (induction ks arbitrary: acc)
  case Nil
  then show ?case by simp
next
  case (Cons k ks)
  from Cons.prems obtain v0 v1 where "map_of tmp0 k = Some v0" "map_of tmp1 k = Some v1"
    and rest: "foldM_err
       (\<lambda>key tmpTotal.
          case map_of tmp0 key of
            None \<Rightarrow> Inl KeyError
          | Some v0 \<Rightarrow> (case map_of tmp1 key of
                         None \<Rightarrow> Inl KeyError
                       | Some v1 \<Rightarrow> Inr (AList.update key (v0 + v1) tmpTotal)))
       ks (AList.update k (v0 + v1) acc) = Inr tot"
    by (auto split: option.splits)
  from Cons.IH[OF rest] show ?case
    by (simp add: dom_update)
qed

lemma KSMax_tmpTotal_keys:
  "KSMax_tmpTotal tmp0 tmp1 = Inr tot \<Longrightarrow> fst ` set tot = fst ` set tmp0"
  unfolding KSMax_tmpTotal_def by (drule KSMax_tmpTotal_fold_keys) simp

lemma KSMax_tmpTotal_fold_ok:
  "set ks \<subseteq> fst ` set tmp0 \<Longrightarrow> set ks \<subseteq> fst ` set tmp1 \<Longrightarrow>
   \<exists>tot. foldM_err
       (\<lambda>key tmpTotal.
          case map_of tmp0 key of
            None \<Rightarrow> Inl KeyError
          | Some v0 \<Rightarrow> (case map_of tmp1 key of
                         None \<Rightarrow> Inl KeyError
                       | Some v1 \<Rightarrow> Inr (AList.update key (v0 + v1) tmpTotal)))
       ks acc = Inr tot"
proof (induction ks arbitrary: acc)
  case Nil
  then show ?case by simp
next
  case (Cons k ks)
  from Cons.prems have "k \<in> fst ` set tmp0" "k \<in> fst ` set tmp1" by auto
  then have "map_of tmp0 k \<noteq> None" "map_of tmp1 k \<noteq> None"
    by (simp_all add: map_of_eq_None_iff)
  then obtain v0 v1 where "map_of tmp0 k = Some v0" "map_of tmp1 k = Some v1"
    by blast
  with Cons.IH[of "AList.update k (v0 + v1) acc"] Cons.prems show ?case
    by simp
qed

lemma KSMax_tmpTotal_ok:
  "fst ` set tmp0 \<subseteq> fst ` set tmp1 \<Longrightarrow> \<exists>tot. KSMax_tmpTotal tmp0 tmp1 = Inr tot"
  unfolding KSMax_tmpTotal_def by (rule KSMax_tmpTotal_fold_ok) simp_all

lemma fold_update_keys:
  "fst ` set (fold (\<lambda>(key, v) d. AList.update key v d) xs acc) = fst ` set acc \<union> fst ` set xs"
proof (induction xs arbitrary: acc)
  case Nil
  then show ?case by simp
next
  case (Cons x xs)
  obtain k v where x: "x = (k, v)" by (cases x)
  have "fst ` set (AList.update k v acc) \<union> fst ` set xs
          = fst ` set acc \<union> fst ` set ((k, v) # xs)"
    by (simp add: dom_update)
  then show ?case by (simp add: x Cons.IH)
qed

lemma fold_add_keys:
  "fst ` set (fold (\<lambda>(key, v) d.
             case map_of d key of
               Some w \<Rightarrow> AList.update key (w + v) d
             | None \<Rightarrow> AList.update key v d) xs acc) = fst ` set acc \<union> fst ` set xs"
proof (induction xs arbitrary: acc)
  case Nil
  then show ?case by simp
next
  case (Cons x xs)
  obtain k v where x: "x = (k, v)" by (cases x)
  have "fst ` set (AList.update k u acc) \<union> fst ` set xs
          = fst ` set acc \<union> fst ` set ((k, v) # xs)" for u
    by (simp add: dom_update)
  then show ?case by (simp add: x Cons.IH split: option.splits)
qed

lemma Proximity_merge_keys:
  "fst ` set (Proximity_merge funcSensA funcSensB) = fst ` set funcSensA \<union> fst ` set funcSensB"
  by (simp add: Proximity_merge_def fold_add_keys fold_update_keys)

lemma KSMax_evalFunctionsSens_D:
  assumes "0 < getNDV g"
      and "snd (snd (KSMaxThicknessToChordConstraint_evalFunctionsSens eDist_b KS_derivatives self g
                       funcsSens cfg)) = Inr fs'"
  shows "\<exists>s0 s1 tot.
           calls (fst (snd (KSMaxThicknessToChordConstraint_evalFunctionsSens eDist_b KS_derivatives
                              self g funcsSens cfg)))
             = calls g @ [GetNDV, TotalSensitivity (Array2 s0) (name self @ ''_coords'') cfg,
                          TotalSensitivity (Array2 s1) (name self @ ''_lete'') cfg]
         \<and> KSMax_tmpTotal (totalSensitivity g (Array2 s0) (name self @ ''_coords'') cfg)
                          (totalSensitivity g (Array2 s1) (name self @ ''_lete'') cfg) = Inr tot
         \<and> fs' = funcsSens(name self \<mapsto> tot)"
  using assms
  by (auto simp: KSMaxThicknessToChordConstraint_evalFunctionsSens_def DVGeo_getNDV_def
      DVGeo_totalSensitivity_def Let_def split: sum.splits prod.splits)

lemma Proximity_evalFunctionsSens_D:
  assumes "0 < getNDV g"
      and "snd (snd (ProximityConstraint_evalFunctionsSens eDist_b self g funcsSens cfg)) = Inr fs'"
  shows "\<exists>sA sB.
           calls (fst (snd (ProximityConstraint_evalFunctionsSens eDist_b self g funcsSens cfg)))
             = calls g @ [GetNDV, TotalSensitivity (Array3 sA) (name self @ ''_A'') cfg,
                          TotalSensitivity (Array3 sB) (name self @ ''_B'') cfg]
         \<and> fs' = funcsSens(name self \<mapsto>
                    Proximity_merge (totalSensitivity g (Array3 sA) (name self @ ''_A'') cfg)
                                    (totalSensitivity g (Array3 sB) (name self @ ''_B'') cfg))"
  using assms
  by (auto simp: ProximityConstraint_evalFunctionsSens_def DVGeo_getNDV_def
      DVGeo_totalSensitivity_def Let_def split: sum.splits prod.splits)


text \<open>
  C9. When \<open>KSMaxThicknessToChordConstraint.evalFunctionsSens\<close> returns, the dictionary it
  stored under \<open>funcsSens[name]\<close> has exactly the keys of the result of
  \<open>totalSensitivity\<close> for the \<open>name_coords\<close> point set: a key that only the result for
  \<open>name_lete\<close> has is dropped. The dictionary \<open>ProximityConstraint.evalFunctionsSens\<close>
  stores has the keys of either of its two results.
\<close>

theorem evalFunctionsSens_keys:
  "(0 < getNDV g \<longrightarrow>
    snd (snd (KSMaxThicknessToChordConstraint_evalFunctionsSens eDist_b KS_derivatives selfK g
                funcsSens cfg)) = Inr fsK \<longrightarrow>
    (\<exists>s0 s1 tot.
        calls (fst (snd (KSMaxThicknessToChordConstraint_evalFunctionsSens eDist_b KS_derivatives
                           selfK g funcsSens cfg)))
          = calls g @ [GetNDV, TotalSensitivity (Array2 s0) (name selfK @ ''_coords'') cfg,
                       TotalSensitivity (Array2 s1) (name selfK @ ''_lete'') cfg]
      \<and> fsK = funcsSens(name selfK \<mapsto> tot)
      \<and> fst ` set tot = fst ` set (totalSensitivity g (Array2 s0) (name selfK @ ''_coords'') cfg)))
   \<and>
   (0 < getNDV g \<longrightarrow>
    snd (snd (ProximityConstraint_evalFunctionsSens eDist_b selfX g funcsSens cfg)) = Inr fsX \<longrightarrow>
    (\<exists>sA sB tot.
        calls (fst (snd (ProximityConstraint_evalFunctionsSens eDist_b selfX g funcsSens cfg)))
          = calls g @ [GetNDV, TotalSensitivity (Array3 sA) (name selfX @ ''_A'') cfg,
                       TotalSensitivity (Array3 sB) (name selfX @ ''_B'') cfg]
      \<and> fsX = funcsSens(name selfX \<mapsto> tot)
      \<and> fst ` set tot = fst ` set (totalSensitivity g (Array3 sA) (name selfX @ ''_A'') cfg)
                         \<union> fst ` set (totalSensitivity g (Array3 sB) (name selfX @ ''_B'') cfg)))"
proof (intro conjI impI)
  assume "0 < getNDV g"
    and "snd (snd (KSMaxThicknessToChordConstraint_evalFunctionsSens eDist_b KS_derivatives selfK g
                funcsSens cfg)) = Inr fsK"
  from KSMax_evalFunctionsSens_D[OF this] KSMax_tmpTotal_keys
  show "\<exists>s0 s1 tot.
        calls (fst (snd (KSMaxThicknessToChordConstraint_evalFunctionsSens eDist_b KS_derivatives
                           selfK g funcsSens cfg)))
          = calls g @ [GetNDV, TotalSensitivity (Array2 s0) (name selfK @ ''_coords'') cfg,
                       TotalSensitivity (Array2 s1) (name selfK @ ''_lete'') cfg]
      \<and> fsK = funcsSens(name selfK \<mapsto> tot)
      \<and> fst ` set tot = fst ` set (totalSensitivity g (Array2 s0) (name selfK @ ''_coords'') cfg)"
    by blast
next
  assume "0 < getNDV g"
    and "snd (snd (ProximityConstraint_evalFunctionsSens eDist_b selfX g funcsSens cfg)) = Inr fsX"
  from Proximity_evalFunctionsSens_D[OF this] Proximity_merge_keys
  show "\<exists>sA sB tot.
        calls (fst (snd (ProximityConstraint_evalFunctionsSens eDist_b selfX g funcsSens cfg)))
          = calls g @ [GetNDV, TotalSensitivity (Array3 sA) (name selfX @ ''_A'') cfg,
                       TotalSensitivity (Array3 sB) (name selfX @ ''_B'') cfg]
      \<and> fsX = funcsSens(name selfX \<mapsto> tot)
      \<and> fst ` set tot = fst ` set (totalSensitivity g (Array3 sA) (name selfX @ ''_A'') cfg)
                         \<union> fst ` set (totalSensitivity g (Array3 sB) (name selfX @ ''_B'') cfg)"
    by blast
qed

theorem evalFunctionsSens_keys_witness:
  "0 < getNDV (\<lparr>calls = [], update = (\<lambda>n c. []), getNDV = 1,
        totalSensitivity = (\<lambda>s n c. if n = ''k_coords'' \<or> n = ''k_A'' then [(''x'', 1)]
                                       else [(''x'', 2), (''y'', 5)])\<rparr> :: (nat, int) DVGeo)
   \<and> snd (snd (KSMaxThicknessToChordConstraint_evalFunctionsSens (\<lambda>a b. (fzero, fzero)) (\<lambda>t r a. ([Some 1], ()))
        (\<lparr>name = ''k'', nCon = 1, lower = 0::real, upper = 0, scale = 1, addToPyOpt = True,
        nPoint = 1, KSMaxThicknessToChordConstraint.coords = [(0, 0, 0), (0, 0, 1)],
        leTePts = [(0, 0, 0), (1, 0, 0)], KSMaxThicknessToChordConstraint.scaled = False,
        rho = 1, ksApproach = ''continuous'', divideByChord = False,
        KSMaxThicknessToChordConstraint.ToC0 = [Some 1], max0 = Some 1\<rparr>)
        (\<lparr>calls = [], update = (\<lambda>n c. []), getNDV = 1,
        totalSensitivity = (\<lambda>s n c. if n = ''k_coords'' \<or> n = ''k_A'' then [(''x'', 1)]
                                       else [(''x'', 2), (''y'', 5)])\<rparr> :: (nat, int) DVGeo)
        Map.empty None)) = Inr [''k'' \<mapsto> [(''x'', 3::int)]]
   \<and> (\<exists>s0 tot. [''k'' \<mapsto> [(''x'', 3::int)]] = [''k'' \<mapsto> tot]
         \<and> fst ` set tot = fst ` set (totalSensitivity (\<lparr>calls = [], update = (\<lambda>n c. []), getNDV = 1,
        totalSensitivity = (\<lambda>s n c. if n = ''k_coords'' \<or> n = ''k_A'' then [(''x'', 1)]
                                       else [(''x'', 2), (''y'', 5)])\<rparr> :: (nat, int) DVGeo) (Array2 s0) ''k_coords'' None))
   \<and> snd (snd (ProximityConstraint_evalFunctionsSens (\<lambda>a b. (fzero, fzero))
        (\<lparr>name = ''k'', nCon = 1, lower = 0::real, upper = 0, scale = 1, addToPyOpt = True,
        coordsA = [(0, 0, 0)], coordsB = [(0, 0, 1)], ProximityConstraint.scaled = False,
        ProximityConstraint.D0 = [1]\<rparr>)
        (\<lparr>calls = [], update = (\<lambda>n c. []), getNDV = 1,
        totalSensitivity = (\<lambda>s n c. if n = ''k_coords'' \<or> n = ''k_A'' then [(''x'', 1)]
                                       else [(''x'', 2), (''y'', 5)])\<rparr> :: (nat, int) DVGeo)
        Map.empty None)) = Inr [''k'' \<mapsto> [(''x'', 3::int), (''y'', 5)]]
   \<and> (\<exists>sA sB tot. [''k'' \<mapsto> [(''x'', 3::int), (''y'', 5)]] = [''k'' \<mapsto> tot]
         \<and> fst ` set tot = fst ` set (totalSensitivity (\<lparr>calls = [], update = (\<lambda>n c. []), getNDV = 1,
        totalSensitivity = (\<lambda>s n c. if n = ''k_coords'' \<or> n = ''k_A'' then [(''x'', 1)]
                                       else [(''x'', 2), (''y'', 5)])\<rparr> :: (nat, int) DVGeo) (Array3 sA) ''k_A'' None)
                            \<union> fst ` set (totalSensitivity (\<lparr>calls = [], update = (\<lambda>n c. []), getNDV = 1,
        totalSensitivity = (\<lambda>s n c. if n = ''k_coords'' \<or> n = ''k_A'' then [(''x'', 1)]
                                       else [(''x'', 2), (''y'', 5)])\<rparr> :: (nat, int) DVGeo) (Array3 sB) ''k_B'' None))"
proof -
  let ?g = "(\<lparr>calls = [], update = (\<lambda>n c. []), getNDV = 1,
        totalSensitivity = (\<lambda>s n c. if n = ''k_coords'' \<or> n = ''k_A'' then [(''x'', 1)]
                                       else [(''x'', 2), (''y'', 5)])\<rparr> :: (nat, int) DVGeo)"
  let ?K = "(\<lparr>name = ''k'', nCon = 1, lower = 0::real, upper = 0, scale = 1, addToPyOpt = True,
        nPoint = 1, KSMaxThicknessToChordConstraint.coords = [(0, 0, 0), (0, 0, 1)],
        leTePts = [(0, 0, 0), (1, 0, 0)], KSMaxThicknessToChordConstraint.scaled = False,
        rho = 1, ksApproach = ''continuous'', divideByChord = False,
        KSMaxThicknessToChordConstraint.ToC0 = [Some 1], max0 = Some 1\<rparr>)"
  let ?X = "(\<lparr>name = ''k'', nCon = 1, lower = 0::real, upper = 0, scale = 1, addToPyOpt = True,
        coordsA = [(0, 0, 0)], coordsB = [(0, 0, 1)], ProximityConstraint.scaled = False,
        ProximityConstraint.D0 = [1]\<rparr>)"
  have K: "snd (snd (KSMaxThicknessToChordConstraint_evalFunctionsSens (\<lambda>a b. (fzero, fzero)) (\<lambda>t r a. ([Some 1], ()))
             ?K ?g Map.empty None)) = Inr [''k'' \<mapsto> [(''x'', 3::int)]]"
    by (simp add: KSMaxThicknessToChordConstraint_evalFunctionsSens_def DVGeo_getNDV_def
        DVGeo_totalSensitivity_def py_range_def KSMax_sens_step_def getitem_def setitem1_def
        setitem3_def einsum_i_ijk_ijk_def einsum_i_ijk_jk_def broadcast_i_def reshape_n_3_def
        KSMax_tmpTotal_def Let_def)
  have X: "snd (snd (ProximityConstraint_evalFunctionsSens (\<lambda>a b. (fzero, fzero))
             ?X ?g Map.empty None)) = Inr [''k'' \<mapsto> [(''x'', 3::int), (''y'', 5)]]"
    by (simp add: ProximityConstraint_evalFunctionsSens_def DVGeo_getNDV_def
        DVGeo_totalSensitivity_def py_range_def ProximityConstraint_sens_step_def getitem_def
        setitem3_def np_zeros3_def Proximity_merge_def Let_def)
  have g: "0 < getNDV ?g" by simp
  from evalFunctionsSens_keys[of ?g "(\<lambda>a b. (fzero, fzero))" "(\<lambda>t r a. ([Some 1], ()))" ?K Map.empty None
         "[''k'' \<mapsto> [(''x'', 3::int)]]" ?X "[''k'' \<mapsto> [(''x'', 3::int), (''y'', 5)]]"] g K X
  have c: "(\<exists>s0 s1 tot. [''k'' \<mapsto> [(''x'', 3::int)]] = [''k'' \<mapsto> tot]
         \<and> fst ` set tot = fst ` set (totalSensitivity ?g (Array2 s0) ''k_coords'' None))"
   and c2: "(\<exists>sA sB tot. [''k'' \<mapsto> [(''x'', 3::int), (''y'', 5)]] = [''k'' \<mapsto> tot]
         \<and> fst ` set tot = fst ` set (totalSensitivity ?g (Array3 sA) ''k_A'' None)
                            \<union> fst ` set (totalSensitivity ?g (Array3 sB) ''k_B'' None))"
    by simp_all
  have c1: "\<exists>s0 tot. [''k'' \<mapsto> [(''x'', 3::int)]] = [''k'' \<mapsto> tot]
         \<and> fst ` set tot = fst ` set (totalSensitivity ?g (Array2 s0) ''k_coords'' None)"
    using c by - ((erule exE)+, (rule exI)+, assumption)
  show ?thesis
    by (intro conjI) (rule g, rule K, rule c1, rule X, rule c2)
qed

subsection \<open>KSMaxThicknessToChordConstraint: the aggregated ratio\<close>

lemma KSMax_ToC_Inr:
  "2 * i + 1 < length cs \<Longrightarrow> 2 \<le> length lete \<Longrightarrow>
     KSMax_ToC dbc cs lete i =
       Inr (if dbc then np_div (Some (eDist (cs ! (2 * i)) (cs ! (2 * i + 1))))
                               (Some (eDist (lete ! 0) (lete ! 1)))
            else Some (eDist (cs ! (2 * i)) (cs ! (2 * i + 1))))"
  by (auto simp: KSMax_ToC_def getitem_def Let_def)

lemma KSMax_init_eq:
  "KSMaxThicknessToChordConstraint_init KS_compute nm cs lePt tePt rh ks dbc lo up scd sc g add cn =
     (DVGeo_addPointSet (DVGeo_addPointSet g cs (nm @ ''_coords'') cn []) [lePt, tePt] (nm @ ''_lete'') cn [],
      Inr \<lparr>name = nm, nCon = 1, lower = lo, upper = up, scale = sc, addToPyOpt = add,
           nPoint = length cs div 2, KSMaxThicknessToChordConstraint.coords = cs,
           leTePts = [lePt, tePt], KSMaxThicknessToChordConstraint.scaled = scd, rho = rh,
           ksApproach = ks, divideByChord = dbc,
           KSMaxThicknessToChordConstraint.ToC0 =
             map (\<lambda>i. if dbc then np_div (Some (eDist (cs ! (2 * i)) (cs ! (2 * i + 1))))
                                      (Some (eDist lePt tePt))
                       else Some (eDist (cs ! (2 * i)) (cs ! (2 * i + 1))))
                 [0..<length cs div 2],
           max0 = KS_compute
             (map (\<lambda>i. if dbc then np_div (Some (eDist (cs ! (2 * i)) (cs ! (2 * i + 1))))
                                      (Some (eDist lePt tePt))
                       else Some (eDist (cs ! (2 * i)) (cs ! (2 * i + 1))))
                 [0..<length cs div 2]) rh ks\<rparr>)"
proof -
  have "mapM_err (KSMax_ToC dbc cs [lePt, tePt]) [0..<length cs div 2]
          = Inr (map (\<lambda>i. if dbc then np_div (Some (eDist (cs ! (2 * i)) (cs ! (2 * i + 1))))
                                      (Some (eDist lePt tePt))
                       else Some (eDist (cs ! (2 * i)) (cs ! (2 * i + 1))))
                 [0..<length cs div 2])"
    by (rule mapM_err_Inr) (simp add: KSMax_ToC_Inr)
  then show ?thesis
    by (simp add: KSMaxThicknessToChordConstraint_init_def GeometricConstraint_init_def py_range_def
        GeometricConstraint.extend_def Let_def)
qed

lemma KSMax_evalFunctions_eq:
  assumes "2 * nPoint self \<le> length (update g (name self @ ''_coords'') cfg)"
      and "2 \<le> length (update g (name self @ ''_lete'') cfg)"
  shows "snd (snd (KSMaxThicknessToChordConstraint_evalFunctions KS_compute self g funcs cfg)) =
           Inr (funcs(name self \<mapsto> FScalar
             (let cs = update g (name self @ ''_coords'') cfg;
                  lete = update g (name self @ ''_lete'') cfg;
                  ToC = map (\<lambda>i. if divideByChord self
                                  then np_div (Some (eDist (cs ! (2 * i)) (cs ! (2 * i + 1))))
                                              (Some (eDist (lete ! 0) (lete ! 1)))
                                  else Some (eDist (cs ! (2 * i)) (cs ! (2 * i + 1))))
                            [0..<nPoint self];
                  maxToC = KS_compute ToC (rho self) (ksApproach self)
              in if KSMaxThicknessToChordConstraint.scaled self
                 then np_div maxToC (max0 self) else maxToC)))"
proof -
  let ?cs = "update g (name self @ ''_coords'') cfg"
  let ?lete = "update g (name self @ ''_lete'') cfg"
  have "mapM_err (KSMax_ToC (divideByChord self) ?cs ?lete) [0..<nPoint self] =
          Inr (map (\<lambda>i. if divideByChord self
                                  then np_div (Some (eDist (?cs ! (2 * i)) (?cs ! (2 * i + 1))))
                                              (Some (eDist (?lete ! 0) (?lete ! 1)))
                                  else Some (eDist (?cs ! (2 * i)) (?cs ! (2 * i + 1))))
                            [0..<nPoint self])"
    using assms by (intro mapM_err_Inr) (simp add: KSMax_ToC_Inr)
  then show ?thesis
    by (simp add: KSMaxThicknessToChordConstraint_evalFunctions_def DVGeo_update_def py_range_def
        Let_def)
qed

text \<open>
  C2. \<open>evalFunctions\<close> of a \<open>KSMaxThicknessToChordConstraint\<close> computes, for each of the
  \<open>nPoint\<close> toothpicks, the distance \<open>t\<close> between the points \<open>2 i\<close> and \<open>2 i + 1\<close> and the
  distance \<open>c\<close> between the leading-edge and the trailing-edge point, takes \<open>t / c\<close> when
  \<open>divideByChord\<close> and \<open>t\<close> otherwise, aggregates the vector with \<open>KSfunction.compute\<close>,
  divides by the baseline \<open>max0\<close> when \<open>scaled\<close>, and stores the one scalar under
  \<open>funcs[name]\<close>. \<open>max0\<close> is the aggregate the constructor computed from the initial
  points. The engine returns at least the points the constraint reads.
\<close>

theorem KSMax_evalFunctions_aggregate:
  "KSMaxThicknessToChordConstraint_init KS_compute nm cs0 lePt tePt rh ks dbc lo up scd sc g0 add cn
     = (g1, Inr self0) \<longrightarrow>
   2 * (length cs0 div 2) \<le> length (update g (nm @ ''_coords'') cfg) \<longrightarrow>
   2 \<le> length (update g (nm @ ''_lete'') cfg) \<longrightarrow>
   nPoint self0 = length cs0 div 2 \<and>
   max0 self0 = KS_compute
       (map (\<lambda>i. if dbc then np_div (Some (eDist (cs0 ! (2 * i)) (cs0 ! (2 * i + 1))))
                                (Some (eDist lePt tePt))
                 else Some (eDist (cs0 ! (2 * i)) (cs0 ! (2 * i + 1))))
            [0..<length cs0 div 2]) rh ks \<and>
   snd (snd (KSMaxThicknessToChordConstraint_evalFunctions KS_compute
       (self0\<lparr>KSMaxThicknessToChordConstraint.coords := cs', leTePts := lete'\<rparr>) g funcs cfg)) =
     Inr (funcs(nm \<mapsto> FScalar
       (let cs = update g (nm @ ''_coords'') cfg;
            lete = update g (nm @ ''_lete'') cfg;
            ToC = map (\<lambda>i. if dbc
                            then np_div (Some (eDist (cs ! (2 * i)) (cs ! (2 * i + 1))))
                                        (Some (eDist (lete ! 0) (lete ! 1)))
                            else Some (eDist (cs ! (2 * i)) (cs ! (2 * i + 1))))
                      [0..<length cs0 div 2];
            maxToC = KS_compute ToC rh ks
        in if scd then np_div maxToC (max0 self0) else maxToC)))"
proof (intro impI)
  assume init: "KSMaxThicknessToChordConstraint_init KS_compute nm cs0 lePt tePt rh ks dbc lo up scd sc g0 add cn
     = (g1, Inr self0)"
    and len: "2 * (length cs0 div 2) \<le> length (update g (nm @ ''_coords'') cfg)"
             "2 \<le> length (update g (nm @ ''_lete'') cfg)"
  from init have self0: "self0 = \<lparr>name = nm, nCon = 1, lower = lo, upper = up, scale = sc, addToPyOpt = add,
           nPoint = length cs0 div 2, KSMaxThicknessToChordConstraint.coords = cs0,
           leTePts = [lePt, tePt], KSMaxThicknessToChordConstraint.scaled = scd, rho = rh,
           ksApproach = ks, divideByChord = dbc,
           KSMaxThicknessToChordConstraint.ToC0 =
             map (\<lambda>i. if dbc then np_div (Some (eDist (cs0 ! (2 * i)) (cs0 ! (2 * i + 1))))
                                      (Some (eDist lePt tePt))
                       else Some (eDist (cs0 ! (2 * i)) (cs0 ! (2 * i + 1))))
                 [0..<length cs0 div 2],
           max0 = KS_compute
             (map (\<lambda>i. if dbc then np_div (Some (eDist (cs0 ! (2 * i)) (cs0 ! (2 * i + 1))))
                                      (Some (eDist lePt tePt))
                       else Some (eDist (cs0 ! (2 * i)) (cs0 ! (2 * i + 1))))
                 [0..<length cs0 div 2]) rh ks\<rparr>"
    by (simp add: KSMax_init_eq)
  have ev: "snd (snd (KSMaxThicknessToChordConstraint_evalFunctions KS_compute
       (self0\<lparr>KSMaxThicknessToChordConstraint.coords := cs', leTePts := lete'\<rparr>) g funcs cfg)) =
     Inr (funcs(nm \<mapsto> FScalar
       (let cs = update g (nm @ ''_coords'') cfg;
            lete = update g (nm @ ''_lete'') cfg;
            ToC = map (\<lambda>i. if dbc
                            then np_div (Some (eDist (cs ! (2 * i)) (cs ! (2 * i + 1))))
                                        (Some (eDist (lete ! 0) (lete ! 1)))
                            else Some (eDist (cs ! (2 * i)) (cs ! (2 * i + 1))))
                      [0..<length cs0 div 2];
            maxToC = KS_compute ToC rh ks
        in if scd then np_div maxToC (max0 self0) else maxToC)))"
    using len KSMax_evalFunctions_eq
        [of "self0\<lparr>KSMaxThicknessToChordConstraint.coords := cs', leTePts := lete'\<rparr>" g cfg KS_compute funcs]
    by (simp add: self0 Let_def)
  show "nPoint self0 = length cs0 div 2 \<and>
   max0 self0 = KS_compute
       (map (\<lambda>i. if dbc then np_div (Some (eDist (cs0 ! (2 * i)) (cs0 ! (2 * i + 1))))
                                (Some (eDist lePt tePt))
                 else Some (eDist (cs0 ! (2 * i)) (cs0 ! (2 * i + 1))))
            [0..<length cs0 div 2]) rh ks \<and>
   snd (snd (KSMaxThicknessToChordConstraint_evalFunctions KS_compute
       (self0\<lparr>KSMaxThicknessToChordConstraint.coords := cs', leTePts := lete'\<rparr>) g funcs cfg)) =
     Inr (funcs(nm \<mapsto> FScalar
       (let cs = update g (nm @ ''_coords'') cfg;
            lete = update g (nm @ ''_lete'') cfg;
            ToC = map (\<lambda>i. if dbc
                            then np_div (Some (eDist (cs ! (2 * i)) (cs ! (2 * i + 1))))
                                        (Some (eDist (lete ! 0) (lete ! 1)))
                            else Some (eDist (cs ! (2 * i)) (cs ! (2 * i + 1))))
                      [0..<length cs0 div 2];
            maxToC = KS_compute ToC rh ks
        in if scd then np_div maxToC (max0 self0) else maxToC)))"
    using ev by (simp add: self0)
qed


theorem KSMax_evalFunctions_aggregate_witness:
  "snd (KSMaxThicknessToChordConstraint_init (\<lambda>xs r a. hd xs) ''k'' [(0, 0, 0), (0, 0, 1)]
          (0, 0, 0) (2, 0, 0) 1 ''continuous'' True (0::real) 0 True 1
          (\<lparr>calls = [],
        update = (\<lambda>n c. if n = ''k_coords'' then [(0, 0, 0), (0, 0, 2)] else [(0, 0, 0), (2, 0, 0)]),
        getNDV = 1, totalSensitivity = (\<lambda>s n c. [])\<rparr> :: (nat, real) DVGeo) True None)
     = Inr \<lparr>name = ''k'', nCon = 1, lower = 0::real, upper = 0, scale = 1, addToPyOpt = True,
        nPoint = 1, KSMaxThicknessToChordConstraint.coords = [(0, 0, 0), (0, 0, 1)],
        leTePts = [(0, 0, 0), (2, 0, 0)], KSMaxThicknessToChordConstraint.scaled = True,
        rho = 1, ksApproach = ''continuous'', divideByChord = True,
        KSMaxThicknessToChordConstraint.ToC0 = [Some (1 / 2)], max0 = Some (1 / 2)\<rparr>
   \<and> snd (snd (KSMaxThicknessToChordConstraint_evalFunctions (\<lambda>xs r a. hd xs)
          \<lparr>name = ''k'', nCon = 1, lower = 0::real, upper = 0, scale = 1, addToPyOpt = True,
        nPoint = 1, KSMaxThicknessToChordConstraint.coords = [(0, 0, 0), (0, 0, 1)],
        leTePts = [(0, 0, 0), (2, 0, 0)], KSMaxThicknessToChordConstraint.scaled = True,
        rho = 1, ksApproach = ''continuous'', divideByChord = True,
        KSMaxThicknessToChordConstraint.ToC0 = [Some (1 / 2)], max0 = Some (1 / 2)\<rparr>
          (\<lparr>calls = [],
        update = (\<lambda>n c. if n = ''k_coords'' then [(0, 0, 0), (0, 0, 2)] else [(0, 0, 0), (2, 0, 0)]),
        getNDV = 1, totalSensitivity = (\<lambda>s n c. [])\<rparr> :: (nat, real) DVGeo) Map.empty None))
     = Inr [''k'' \<mapsto> FScalar (Some 2)]"
proof -
  let ?g = "(\<lparr>calls = [],
        update = (\<lambda>n c. if n = ''k_coords'' then [(0, 0, 0), (0, 0, 2)] else [(0, 0, 0), (2, 0, 0)]),
        getNDV = 1, totalSensitivity = (\<lambda>s n c. [])\<rparr> :: (nat, real) DVGeo)"
  let ?K = "\<lparr>name = ''k'', nCon = 1, lower = 0::real, upper = 0, scale = 1, addToPyOpt = True,
        nPoint = 1, KSMaxThicknessToChordConstraint.coords = [(0, 0, 0), (0, 0, 1)],
        leTePts = [(0, 0, 0), (2, 0, 0)], KSMaxThicknessToChordConstraint.scaled = True,
        rho = 1, ksApproach = ''continuous'', divideByChord = True,
        KSMaxThicknessToChordConstraint.ToC0 = [Some (1 / 2)], max0 = Some (1 / 2)\<rparr>"
  let ?cs = "[(0, 0, 0), (0, 0, 1)] :: point list"
  have init: "KSMaxThicknessToChordConstraint_init (\<lambda>xs r a. hd xs) ''k'' ?cs
          (0, 0, 0) (2, 0, 0) 1 ''continuous'' True 0 0 True 1 ?g True None
        = (DVGeo_addPointSet (DVGeo_addPointSet ?g ?cs ''k_coords'' None [])
             [(0, 0, 0), (2, 0, 0)] ''k_lete'' None [], Inr ?K)"
    by (simp add: KSMax_init_eq eDist_def euclideanNorm_def vsub_def vzip_def np_div_def)
  show ?thesis
    using KSMax_evalFunctions_aggregate[of "\<lambda>xs r a. hd xs" "''k''" ?cs "(0, 0, 0)" "(2, 0, 0)" 1
        "''continuous''" True 0 0 True 1 ?g True None
        "DVGeo_addPointSet (DVGeo_addPointSet ?g ?cs ''k_coords'' None [])
             [(0, 0, 0), (2, 0, 0)] ''k_lete'' None []" ?K ?g None
        "[(0, 0, 0), (2, 0, 0)]" "[(0, 0, 0), (0, 0, 1)]" Map.empty] init
    by (simp add: eDist_def euclideanNorm_def vsub_def vzip_def np_div_def)
qed

subsection \<open>Loops that fill the rows of an array\<close>

lemma foldM_err_snoc:
  "foldM_err f (xs @ [x]) s = (case foldM_err f xs s of Inl e \<Rightarrow> Inl e | Inr s' \<Rightarrow> f x s')"
  by (induction xs arbitrary: s) (auto split: sum.splits)

lemma fill_row_step:
  assumes "k < n"
  shows "(map row [0..<k] @ replicate (n - k) z)[k := row k]
           = map row [0..<Suc k] @ replicate (n - Suc k) z"
proof -
  from assms obtain m where m: "n - k = Suc m" by (cases "n - k") auto
  then have "n - Suc k = m" by simp
  with m show ?thesis by (simp add: list_update_append)
qed

lemma foldM_err_rows_upto:
  assumes step: "\<And>i a. i < n \<Longrightarrow> length a = n \<Longrightarrow> a ! i = z \<Longrightarrow> f i a = Inr (a[i := row i])"
      and "k \<le> n"
  shows "foldM_err f [0..<k] (replicate n z) = Inr (map row [0..<k] @ replicate (n - k) z)"
  using \<open>k \<le> n\<close>
proof (induction k)
  case 0
  then show ?case by simp
next
  case (Suc k)
  then have k: "k < n" by simp
  let ?a = "map row [0..<k] @ replicate (n - k) z"
  have "length ?a = n" using k by simp
  moreover have "?a ! k = z" using k by (simp add: nth_append)
  ultimately have "f k ?a = Inr (?a[k := row k])" using step k by blast
  with Suc k show ?case
    by (simp add: foldM_err_snoc fill_row_step)
qed

lemma foldM_err_rows:
  assumes "\<And>i a. i < n \<Longrightarrow> length a = n \<Longrightarrow> a ! i = z \<Longrightarrow> f i a = Inr (a[i := row i])"
  shows "foldM_err f [0..<n] (replicate n z) = Inr (map row [0..<n])"
  using foldM_err_rows_upto[where k = n and n = n and z = z and f = f and row = row] assms by simp

lemma setitem3_row:
  "i < length a \<Longrightarrow> j < length (a ! i) \<Longrightarrow> setitem3 a i j v = Inr (a[i := (a ! i)[j := v]])"
  by (simp add: setitem3_def)


subsection \<open>The Jacobians of the thickness constraints\<close>

lemma ThicknessConstraint_sens_step_eq:
  assumes "i < n" and "2 * n \<le> length (ThicknessConstraint.coords self)"
      and "ThicknessConstraint.scaled self \<longrightarrow> n \<le> length (ThicknessConstraint.D0 self)"
      and "length a = n" and "a ! i = replicate (length (ThicknessConstraint.coords self)) fzero"
  shows "ThicknessConstraint_sens_step eDist_b self i a =
           Inr (a[i := (let cs = ThicknessConstraint.coords self;
                            pb = eDist_b (cs ! (2 * i)) (cs ! (2 * i + 1));
                            q1 = (if ThicknessConstraint.scaled self
                                  then vdivs (fst pb) (Some (ThicknessConstraint.D0 self ! i)) else fst pb);
                            q2 = (if ThicknessConstraint.scaled self
                                  then vdivs (snd pb) (Some (ThicknessConstraint.D0 self ! i)) else snd pb)
                        in (replicate (length cs) fzero)[2 * i := q1, 2 * i + 1 := q2])])"
  using assms
  by (auto simp: ThicknessConstraint_sens_step_def getitem_def setitem3_def Let_def
      split: prod.splits)

lemma ThicknessConstraint_evalFunctionsSens_eq:
  assumes "0 < getNDV g" and "0 \<le> nCon self"
      and "2 * nat (nCon self) \<le> length (ThicknessConstraint.coords self)"
      and "ThicknessConstraint.scaled self \<longrightarrow> nat (nCon self) \<le> length (ThicknessConstraint.D0 self)"
  shows "ThicknessConstraint_evalFunctionsSens eDist_b self g funcsSens cfg =
     (let cs = ThicknessConstraint.coords self;
          dTdPt = map (\<lambda>i.
                    let pb = eDist_b (cs ! (2 * i)) (cs ! (2 * i + 1));
                        q1 = (if ThicknessConstraint.scaled self
                              then vdivs (fst pb) (Some (ThicknessConstraint.D0 self ! i)) else fst pb);
                        q2 = (if ThicknessConstraint.scaled self
                              then vdivs (snd pb) (Some (ThicknessConstraint.D0 self ! i)) else snd pb)
                    in (replicate (length cs) fzero)[2 * i := q1, 2 * i + 1 := q2])
                  [0..<nat (nCon self)]
      in (self,
          g\<lparr>calls := calls g @ [GetNDV, TotalSensitivity (Array3 dTdPt) (name self) cfg]\<rparr>,
          Inr (funcsSens(name self \<mapsto> totalSensitivity g (Array3 dTdPt) (name self) cfg))))"
proof -
  let ?n = "nat (nCon self)"
  let ?cs = "ThicknessConstraint.coords self"
  let ?row = "\<lambda>i. let cs = ThicknessConstraint.coords self;
                        pb = eDist_b (cs ! (2 * i)) (cs ! (2 * i + 1));
                        q1 = (if ThicknessConstraint.scaled self
                              then vdivs (fst pb) (Some (ThicknessConstraint.D0 self ! i)) else fst pb);
                        q2 = (if ThicknessConstraint.scaled self
                              then vdivs (snd pb) (Some (ThicknessConstraint.D0 self ! i)) else snd pb)
                    in (replicate (length cs) fzero)[2 * i := q1, 2 * i + 1 := q2]"
  have "foldM_err (ThicknessConstraint_sens_step eDist_b self) [0..<?n]
          (replicate ?n (replicate (length ?cs) fzero)) = Inr (map ?row [0..<?n])"
    by (rule foldM_err_rows) (rule ThicknessConstraint_sens_step_eq[OF _ assms(3,4)])
  then show ?thesis
    using assms(1,2)
    by (simp add: ThicknessConstraint_evalFunctionsSens_def DVGeo_getNDV_def np_zeros3_def
        py_range_def DVGeo_totalSensitivity_def Let_def)
qed

lemma ProjectedThicknessConstraint_sens_step_eq:
  assumes "i < n" and "2 * n \<le> length (ProjectedThicknessConstraint.coords self)"
      and "n \<le> length (dir_vec self)"
      and "ProjectedThicknessConstraint.scaled self \<longrightarrow> n \<le> length (ProjectedThicknessConstraint.D0 self)"
      and "length a = n" and "a ! i = replicate (length (ProjectedThicknessConstraint.coords self)) fzero"
  shows "ProjectedThicknessConstraint_sens_step self i a =
           Inr (a[i := (let D_b = (if ProjectedThicknessConstraint.scaled self
                                   then np_div (Some 1) (Some (ProjectedThicknessConstraint.D0 self ! i))
                                   else Some 1);
                            vec_b = vmuls (dir_vec self ! i) D_b
                        in (replicate (length (ProjectedThicknessConstraint.coords self)) fzero)
                             [2 * i := vec_b, 2 * i + 1 := vneg vec_b])])"
  using assms
  by (auto simp: ProjectedThicknessConstraint_sens_step_def getitem_def setitem3_def Let_def)

lemma ProjectedThicknessConstraint_evalFunctionsSens_eq:
  assumes "0 < getNDV g" and "0 \<le> nCon self"
      and "2 * nat (nCon self) \<le> length (ProjectedThicknessConstraint.coords self)"
      and "nat (nCon self) \<le> length (dir_vec self)"
      and "ProjectedThicknessConstraint.scaled self
             \<longrightarrow> nat (nCon self) \<le> length (ProjectedThicknessConstraint.D0 self)"
  shows "ProjectedThicknessConstraint_evalFunctionsSens self g funcsSens cfg =
     (let dTdPt = map (\<lambda>i.
                    let D_b = (if ProjectedThicknessConstraint.scaled self
                               then np_div (Some 1) (Some (ProjectedThicknessConstraint.D0 self ! i))
                               else Some 1);
                        vec_b = vmuls (dir_vec self ! i) D_b
                    in (replicate (length (ProjectedThicknessConstraint.coords self)) fzero)
                         [2 * i := vec_b, 2 * i + 1 := vneg vec_b])
                  [0..<nat (nCon self)]
      in (self,
          g\<lparr>calls := calls g @ [GetNDV, TotalSensitivity (Array3 dTdPt) (name self) cfg]\<rparr>,
          Inr (funcsSens(name self \<mapsto> totalSensitivity g (Array3 dTdPt) (name self) cfg))))"
proof -
  let ?n = "nat (nCon self)"
  let ?cs = "ProjectedThicknessConstraint.coords self"
  let ?row = "\<lambda>i. let D_b = (if ProjectedThicknessConstraint.scaled self
                               then np_div (Some 1) (Some (ProjectedThicknessConstraint.D0 self ! i))
                               else Some 1);
                        vec_b = vmuls (dir_vec self ! i) D_b
                    in (replicate (length (ProjectedThicknessConstraint.coords self)) fzero)
                         [2 * i := vec_b, 2 * i + 1 := vneg vec_b]"
  have "foldM_err (ProjectedThicknessConstraint_sens_step self) [0..<?n]
          (replicate ?n (replicate (length ?cs) fzero)) = Inr (map ?row [0..<?n])"
    by (rule foldM_err_rows) (rule ProjectedThicknessConstraint_sens_step_eq[OF _ assms(3,4,5)])
  then show ?thesis
    using assms(1,2)
    by (simp add: ProjectedThicknessConstraint_evalFunctionsSens_def DVGeo_getNDV_def np_zeros3_def
        py_range_def DVGeo_totalSensitivity_def Let_def)
qed

lemma ThicknessToChordConstraint_sens_step_eq:
  assumes "i < n" and "4 * n \<le> length (ThicknessToChordConstraint.coords self)"
      and "n \<le> length (ThicknessToChordConstraint.ToC0 self)"
      and "length a = n" and "a ! i = replicate (length (ThicknessToChordConstraint.coords self)) fzero"
  shows "ThicknessToChordConstraint_sens_step eDist_b self i a =
           Inr (a[i := (let cs = ThicknessToChordConstraint.coords self;
                            t = eDist (cs ! (4 * i)) (cs ! (4 * i + 1));
                            c = eDist (cs ! (4 * i + 2)) (cs ! (4 * i + 3));
                            tb = eDist_b (cs ! (4 * i)) (cs ! (4 * i + 1));
                            cb = eDist_b (cs ! (4 * i + 2)) (cs ! (4 * i + 3));
                            toc0 = ThicknessToChordConstraint.ToC0 self ! i
                        in (replicate (length cs) fzero)
                             [4 * i := vdivs (vdivs (fst tb) (Some c)) toc0,
                              4 * i + 1 := vdivs (vdivs (snd tb) (Some c)) toc0,
                              4 * i + 2 := vdivs (chord_seed (fst cb) t c) toc0,
                              4 * i + 3 := vdivs (chord_seed (snd cb) t c) toc0])])"
  using assms
  by (auto simp: ThicknessToChordConstraint_sens_step_def get4_Inr getitem_def setitem3_def Let_def
      split: prod.splits)

lemma ThicknessToChordConstraint_evalFunctionsSens_eq:
  assumes "0 < getNDV g" and "0 \<le> nCon self"
      and "4 * nat (nCon self) \<le> length (ThicknessToChordConstraint.coords self)"
      and "nat (nCon self) \<le> length (ThicknessToChordConstraint.ToC0 self)"
  shows "ThicknessToChordConstraint_evalFunctionsSens eDist_b self g funcsSens cfg =
     (let cs = ThicknessToChordConstraint.coords self;
          dToCdPt = map (\<lambda>i.
                    let t = eDist (cs ! (4 * i)) (cs ! (4 * i + 1));
                        c = eDist (cs ! (4 * i + 2)) (cs ! (4 * i + 3));
                        tb = eDist_b (cs ! (4 * i)) (cs ! (4 * i + 1));
                        cb = eDist_b (cs ! (4 * i + 2)) (cs ! (4 * i + 3));
                        toc0 = ThicknessToChordConstraint.ToC0 self ! i
                    in (replicate (length cs) fzero)
                         [4 * i := vdivs (vdivs (fst tb) (Some c)) toc0,
                          4 * i + 1 := vdivs (vdivs (snd tb) (Some c)) toc0,
                          4 * i + 2 := vdivs (chord_seed (fst cb) t c) toc0,
                          4 * i + 3 := vdivs (chord_seed (snd cb) t c) toc0])
                  [0..<nat (nCon self)]
      in (self,
          g\<lparr>calls := calls g @ [GetNDV, TotalSensitivity (Array3 dToCdPt) (name self) cfg]\<rparr>,
          Inr (funcsSens(name self \<mapsto> totalSensitivity g (Array3 dToCdPt) (name self) cfg))))"
proof -
  let ?n = "nat (nCon self)"
  let ?cs = "ThicknessToChordConstraint.coords self"
  let ?row = "\<lambda>i. let cs = ThicknessToChordConstraint.coords self;
                        t = eDist (cs ! (4 * i)) (cs ! (4 * i + 1));
                        c = eDist (cs ! (4 * i + 2)) (cs ! (4 * i + 3));
                        tb = eDist_b (cs ! (4 * i)) (cs ! (4 * i + 1));
                        cb = eDist_b (cs ! (4 * i + 2)) (cs ! (4 * i + 3));
                        toc0 = ThicknessToChordConstraint.ToC0 self ! i
                    in (replicate (length cs) fzero)
                         [4 * i := vdivs (vdivs (fst tb) (Some c)) toc0,
                          4 * i + 1 := vdivs (vdivs (snd tb) (Some c)) toc0,
                          4 * i + 2 := vdivs (chord_seed (fst cb) t c) toc0,
                          4 * i + 3 := vdivs (chord_seed (snd cb) t c) toc0]"
  have "foldM_err (ThicknessToChordConstraint_sens_step eDist_b self) [0..<?n]
          (replicate ?n (replicate (length ?cs) fzero)) = Inr (map ?row [0..<?n])"
    by (rule foldM_err_rows) (rule ThicknessToChordConstraint_sens_step_eq[OF _ assms(3,4)])
  then show ?thesis
    using assms(1,2)
    by (simp add: ThicknessToChordConstraint_evalFunctionsSens_def DVGeo_getNDV_def np_zeros3_def
        py_range_def DVGeo_totalSensitivity_def Let_def)
qed


text \<open>
  C6. With design variables (\<open>getNDV() > 0\<close>), \<open>evalFunctionsSens\<close> of a
  \<open>ThicknessConstraint\<close> builds the array \<open>dTdPt\<close> whose row \<open>i\<close> is zero except at the
  points \<open>2 i\<close> and \<open>2 i + 1\<close>, where it holds the two seeds of \<open>eDist_b\<close>, divided by
  \<open>D0[i]\<close> when \<open>scaled\<close>; it passes the array to \<open>DVGeo.totalSensitivity\<close> under the
  constraint's name and stores the dictionary that comes back under \<open>funcsSens[name]\<close>.
  \<open>ProjectedThicknessConstraint\<close> does the same with the reference direction and its
  negative, and \<open>ThicknessToChordConstraint\<close> with the four points \<open>4 i\<close> to \<open>4 i + 3\<close>.
  The object holds the points and reference values of its \<open>nCon\<close> constraints.
\<close>

theorem evalFunctionsSens_jacobian:
  "(0 < getNDV g \<longrightarrow> 0 \<le> nCon selfT \<longrightarrow>
    2 * nat (nCon selfT) \<le> length (ThicknessConstraint.coords selfT) \<longrightarrow>
    (ThicknessConstraint.scaled selfT \<longrightarrow> nat (nCon selfT) \<le> length (ThicknessConstraint.D0 selfT)) \<longrightarrow>
    ThicknessConstraint_evalFunctionsSens eDist_b selfT g funcsSens cfg =
      (let cs = ThicknessConstraint.coords selfT;
           dTdPt = map (\<lambda>i.
                     let pb = eDist_b (cs ! (2 * i)) (cs ! (2 * i + 1));
                         q1 = (if ThicknessConstraint.scaled selfT
                               then vdivs (fst pb) (Some (ThicknessConstraint.D0 selfT ! i)) else fst pb);
                         q2 = (if ThicknessConstraint.scaled selfT
                               then vdivs (snd pb) (Some (ThicknessConstraint.D0 selfT ! i)) else snd pb)
                     in (replicate (length cs) fzero)[2 * i := q1, 2 * i + 1 := q2])
                   [0..<nat (nCon selfT)]
       in (selfT,
           g\<lparr>calls := calls g @ [GetNDV, TotalSensitivity (Array3 dTdPt) (name selfT) cfg]\<rparr>,
           Inr (funcsSens(name selfT \<mapsto> totalSensitivity g (Array3 dTdPt) (name selfT) cfg)))))
   \<and>
   (0 < getNDV g \<longrightarrow> 0 \<le> nCon selfP \<longrightarrow>
    2 * nat (nCon selfP) \<le> length (ProjectedThicknessConstraint.coords selfP) \<longrightarrow>
    nat (nCon selfP) \<le> length (dir_vec selfP) \<longrightarrow>
    (ProjectedThicknessConstraint.scaled selfP
       \<longrightarrow> nat (nCon selfP) \<le> length (ProjectedThicknessConstraint.D0 selfP)) \<longrightarrow>
    ProjectedThicknessConstraint_evalFunctionsSens selfP g funcsSens cfg =
      (let dTdPt = map (\<lambda>i.
                     let D_b = (if ProjectedThicknessConstraint.scaled selfP
                                then np_div (Some 1) (Some (ProjectedThicknessConstraint.D0 selfP ! i))
                                else Some 1);
                         vec_b = vmuls (dir_vec selfP ! i) D_b
                     in (replicate (length (ProjectedThicknessConstraint.coords selfP)) fzero)
                          [2 * i := vec_b, 2 * i + 1 := vneg vec_b])
                   [0..<nat (nCon selfP)]
       in (selfP,
           g\<lparr>calls := calls g @ [GetNDV, TotalSensitivity (Array3 dTdPt) (name selfP) cfg]\<rparr>,
           Inr (funcsSens(name selfP \<mapsto> totalSensitivity g (Array3 dTdPt) (name selfP) cfg)))))
   \<and>
   (0 < getNDV g \<longrightarrow> 0 \<le> nCon selfR \<longrightarrow>
    4 * nat (nCon selfR) \<le> length (ThicknessToChordConstraint.coords selfR) \<longrightarrow>
    nat (nCon selfR) \<le> length (ThicknessToChordConstraint.ToC0 selfR) \<longrightarrow>
    ThicknessToChordConstraint_evalFunctionsSens eDist_b selfR g funcsSens cfg =
      (let cs = ThicknessToChordConstraint.coords selfR;
           dToCdPt = map (\<lambda>i.
                     let t = eDist (cs ! (4 * i)) (cs ! (4 * i + 1));
                         c = eDist (cs ! (4 * i + 2)) (cs ! (4 * i + 3));
                         tb = eDist_b (cs ! (4 * i)) (cs ! (4 * i + 1));
                         cb = eDist_b (cs ! (4 * i + 2)) (cs ! (4 * i + 3));
                         toc0 = ThicknessToChordConstraint.ToC0 selfR ! i
                     in (replicate (length cs) fzero)
                          [4 * i := vdivs (vdivs (fst tb) (Some c)) toc0,
                           4 * i + 1 := vdivs (vdivs (snd tb) (Some c)) toc0,
                           4 * i + 2 := vdivs (chord_seed (fst cb) t c) toc0,
                           4 * i + 3 := vdivs (chord_seed (snd cb) t c) toc0])
                   [0..<nat (nCon selfR)]
       in (selfR,
           g\<lparr>calls := calls g @ [GetNDV, TotalSensitivity (Array3 dToCdPt) (name selfR) cfg]\<rparr>,
           Inr (funcsSens(name selfR \<mapsto> totalSensitivity g (Array3 dToCdPt) (name selfR) cfg)))))"
proof (intro conjI impI)
  assume "0 < getNDV g" "0 \<le> nCon selfT"
    "2 * nat (nCon selfT) \<le> length (ThicknessConstraint.coords selfT)"
    "ThicknessConstraint.scaled selfT \<longrightarrow> nat (nCon selfT) \<le> length (ThicknessConstraint.D0 selfT)"
  then show "ThicknessConstraint_evalFunctionsSens eDist_b selfT g funcsSens cfg =
      (let cs = ThicknessConstraint.coords selfT;
           dTdPt = map (\<lambda>i.
                     let pb = eDist_b (cs ! (2 * i)) (cs ! (2 * i + 1));
                         q1 = (if ThicknessConstraint.scaled selfT
                               then vdivs (fst pb) (Some (ThicknessConstraint.D0 selfT ! i)) else fst pb);
                         q2 = (if ThicknessConstraint.scaled selfT
                               then vdivs (snd pb) (Some (ThicknessConstraint.D0 selfT ! i)) else snd pb)
                     in (replicate (length cs) fzero)[2 * i := q1, 2 * i + 1 := q2])
                   [0..<nat (nCon selfT)]
       in (selfT,
           g\<lparr>calls := calls g @ [GetNDV, TotalSensitivity (Array3 dTdPt) (name selfT) cfg]\<rparr>,
           Inr (funcsSens(name selfT \<mapsto> totalSensitivity g (Array3 dTdPt) (name selfT) cfg))))"
    by (rule ThicknessConstraint_evalFunctionsSens_eq)
next
  assume "0 < getNDV g" "0 \<le> nCon selfP"
    "2 * nat (nCon selfP) \<le> length (ProjectedThicknessConstraint.coords selfP)"
    "nat (nCon selfP) \<le> length (dir_vec selfP)"
    "ProjectedThicknessConstraint.scaled selfP
       \<longrightarrow> nat (nCon selfP) \<le> length (ProjectedThicknessConstraint.D0 selfP)"
  then show "ProjectedThicknessConstraint_evalFunctionsSens selfP g funcsSens cfg =
      (let dTdPt = map (\<lambda>i.
                     let D_b = (if ProjectedThicknessConstraint.scaled selfP
                                then np_div (Some 1) (Some (ProjectedThicknessConstraint.D0 selfP ! i))
                                else Some 1);
                         vec_b = vmuls (dir_vec selfP ! i) D_b
                     in (replicate (length (ProjectedThicknessConstraint.coords selfP)) fzero)
                          [2 * i := vec_b, 2 * i + 1 := vneg vec_b])
                   [0..<nat (nCon selfP)]
       in (selfP,
           g\<lparr>calls := calls g @ [GetNDV, TotalSensitivity (Array3 dTdPt) (name selfP) cfg]\<rparr>,
           Inr (funcsSens(name selfP \<mapsto> totalSensitivity g (Array3 dTdPt) (name selfP) cfg))))"
    by (rule ProjectedThicknessConstraint_evalFunctionsSens_eq)
next
  assume "0 < getNDV g" "0 \<le> nCon selfR"
    "4 * nat (nCon selfR) \<le> length (ThicknessToChordConstraint.coords selfR)"
    "nat (nCon selfR) \<le> length (ThicknessToChordConstraint.ToC0 selfR)"
  then show "ThicknessToChordConstraint_evalFunctionsSens eDist_b selfR g funcsSens cfg =
      (let cs = ThicknessToChordConstraint.coords selfR;
           dToCdPt = map (\<lambda>i.
                     let t = eDist (cs ! (4 * i)) (cs ! (4 * i + 1));
                         c = eDist (cs ! (4 * i + 2)) (cs ! (4 * i + 3));
                         tb = eDist_b (cs ! (4 * i)) (cs ! (4 * i + 1));
                         cb = eDist_b (cs ! (4 * i + 2)) (cs ! (4 * i + 3));
                         toc0 = ThicknessToChordConstraint.ToC0 selfR ! i
                     in (replicate (length cs) fzero)
                          [4 * i := vdivs (vdivs (fst tb) (Some c)) toc0,
                           4 * i + 1 := vdivs (vdivs (snd tb) (Some c)) toc0,
                           4 * i + 2 := vdivs (chord_seed (fst cb) t c) toc0,
                           4 * i + 3 := vdivs (chord_seed (snd cb) t c) toc0])
                   [0..<nat (nCon selfR)]
       in (selfR,
           g\<lparr>calls := calls g @ [GetNDV, TotalSensitivity (Array3 dToCdPt) (name selfR) cfg]\<rparr>,
           Inr (funcsSens(name selfR \<mapsto> totalSensitivity g (Array3 dToCdPt) (name selfR) cfg))))"
    by (rule ThicknessToChordConstraint_evalFunctionsSens_eq)
qed


theorem evalFunctionsSens_jacobian_witness:
  "0 < getNDV (\<lparr>calls = [], update = (\<lambda>n c. []), getNDV = 1,
        totalSensitivity = (\<lambda>s n c. [(''x'', s)])\<rparr> :: (nat, ndarray) DVGeo)
   \<and> snd (snd (ThicknessConstraint_evalFunctionsSens (\<lambda>a b. ((Some 0, Some 0, Some (- 1)), (Some 0, Some 0, Some 1)))
        \<lparr>name = ''t'', nCon = 1, lower = 0::real, upper = 0, scale = 1, addToPyOpt = True,
        ThicknessConstraint.coords = [(0, 0, 0), (0, 0, 1)], ThicknessConstraint.scaled = True,
        ThicknessConstraint.D0 = [2]\<rparr>
        (\<lparr>calls = [], update = (\<lambda>n c. []), getNDV = 1,
        totalSensitivity = (\<lambda>s n c. [(''x'', s)])\<rparr> :: (nat, ndarray) DVGeo) Map.empty None))
     = Inr [''t'' \<mapsto> [(''x'', Array3 [[(Some 0, Some 0, Some (- 1 / 2)), (Some 0, Some 0, Some (1 / 2))]])]]
   \<and> snd (snd (ProjectedThicknessConstraint_evalFunctionsSens
        \<lparr>name = ''p'', nCon = 1, lower = 0::real, upper = 0, scale = 1, addToPyOpt = True,
        ProjectedThicknessConstraint.coords = [(0, 0, 0), (0, 0, 1)],
        ProjectedThicknessConstraint.scaled = True, ProjectedThicknessConstraint.D0 = [2],
        dir_vec = [(Some 0, Some 0, Some (- 1))]\<rparr>
        (\<lparr>calls = [], update = (\<lambda>n c. []), getNDV = 1,
        totalSensitivity = (\<lambda>s n c. [(''x'', s)])\<rparr> :: (nat, ndarray) DVGeo) Map.empty None))
     = Inr [''p'' \<mapsto> [(''x'', Array3 [[(Some 0, Some 0, Some (- 1 / 2)), (Some 0, Some 0, Some (1 / 2))]])]]
   \<and> snd (snd (ThicknessToChordConstraint_evalFunctionsSens (\<lambda>a b. ((Some 0, Some 0, Some (- 1)), (Some 0, Some 0, Some 1)))
        \<lparr>name = ''r'', nCon = 1, lower = 0::real, upper = 0, scale = 1, addToPyOpt = True,
        ThicknessToChordConstraint.coords = [(0, 0, 0), (0, 0, 1), (0, 0, 0), (2, 0, 0)],
        ThicknessToChordConstraint.ToC0 = [Some (1 / 2)]\<rparr>
        (\<lparr>calls = [], update = (\<lambda>n c. []), getNDV = 1,
        totalSensitivity = (\<lambda>s n c. [(''x'', s)])\<rparr> :: (nat, ndarray) DVGeo) Map.empty None))
     = Inr [''r'' \<mapsto> [(''x'', Array3 [[(Some 0, Some 0, Some (- 1)), (Some 0, Some 0, Some 1),
                                         (Some 0, Some 0, Some (1 / 2)), (Some 0, Some 0, Some (- 1 / 2))]])]]"
proof -
  let ?g = "(\<lparr>calls = [], update = (\<lambda>n c. []), getNDV = 1,
        totalSensitivity = (\<lambda>s n c. [(''x'', s)])\<rparr> :: (nat, ndarray) DVGeo)"
  let ?T = "\<lparr>name = ''t'', nCon = 1, lower = 0::real, upper = 0, scale = 1, addToPyOpt = True,
        ThicknessConstraint.coords = [(0, 0, 0), (0, 0, 1)], ThicknessConstraint.scaled = True,
        ThicknessConstraint.D0 = [2]\<rparr>"
  let ?P = "\<lparr>name = ''p'', nCon = 1, lower = 0::real, upper = 0, scale = 1, addToPyOpt = True,
        ProjectedThicknessConstraint.coords = [(0, 0, 0), (0, 0, 1)],
        ProjectedThicknessConstraint.scaled = True, ProjectedThicknessConstraint.D0 = [2],
        dir_vec = [(Some 0, Some 0, Some (- 1))]\<rparr>"
  let ?R = "\<lparr>name = ''r'', nCon = 1, lower = 0::real, upper = 0, scale = 1, addToPyOpt = True,
        ThicknessToChordConstraint.coords = [(0, 0, 0), (0, 0, 1), (0, 0, 0), (2, 0, 0)],
        ThicknessToChordConstraint.ToC0 = [Some (1 / 2)]\<rparr>"
  have sq: "eDist (0, 0, 0) (0, 0, 1) = 1" "eDist (0, 0, 0) (2, 0, 0) = 2"
    by (simp_all add: eDist_def euclideanNorm_def vsub_def vzip_def)
  note J = evalFunctionsSens_jacobian[of ?g ?T "(\<lambda>a b. ((Some 0, Some 0, Some (- 1)), (Some 0, Some 0, Some 1)))" Map.empty None ?P ?R]
  have g: "0 < getNDV ?g" by simp
  have T: "snd (snd (ThicknessConstraint_evalFunctionsSens (\<lambda>a b. ((Some 0, Some 0, Some (- 1)), (Some 0, Some 0, Some 1))) ?T ?g Map.empty None))
     = Inr [''t'' \<mapsto> [(''x'', Array3 [[(Some 0, Some 0, Some (- 1 / 2)), (Some 0, Some 0, Some (1 / 2))]])]]"
    using J[THEN conjunct1]
    by (simp add: Let_def vdivs_def vmap_def np_div_def fzero_def)
  have P: "snd (snd (ProjectedThicknessConstraint_evalFunctionsSens ?P ?g Map.empty None))
     = Inr [''p'' \<mapsto> [(''x'', Array3 [[(Some 0, Some 0, Some (- 1 / 2)), (Some 0, Some 0, Some (1 / 2))]])]]"
    using J[THEN conjunct2, THEN conjunct1]
    by (simp add: Let_def vmuls_def vneg_def vmap_def np_div_def np_mul_def np_neg_def lift2_def fzero_def)
  have R: "snd (snd (ThicknessToChordConstraint_evalFunctionsSens (\<lambda>a b. ((Some 0, Some 0, Some (- 1)), (Some 0, Some 0, Some 1))) ?R ?g Map.empty None))
     = Inr [''r'' \<mapsto> [(''x'', Array3 [[(Some 0, Some 0, Some (- 1)), (Some 0, Some 0, Some 1),
                                         (Some 0, Some 0, Some (1 / 2)), (Some 0, Some 0, Some (- 1 / 2))]])]]"
    using J[THEN conjunct2, THEN conjunct2]
    by (simp add: Let_def sq chord_seed_def vdivs_def vmuls_def vneg_def vmap_def np_div_def np_mul_def
        np_neg_def lift2_def fzero_def)
  show ?thesis
    by (intro conjI) (rule g, rule T, rule P, rule R)
qed

subsection \<open>KSMaxThicknessToChordConstraint: the chain rule\<close>

lemma fill_three_upto:
  assumes step: "\<And>i a b c. i < n \<Longrightarrow> length a = n \<Longrightarrow> length b = n \<Longrightarrow> length c = n
                   \<Longrightarrow> b ! i = zb \<Longrightarrow> c ! i = zc
                   \<Longrightarrow> f i (a, b, c) = Inr (a[i := ra i], b[i := rb i], c[i := rc i])"
      and "k \<le> n"
  shows "foldM_err f [0..<k] (replicate n za, replicate n zb, replicate n zc)
           = Inr (map ra [0..<k] @ replicate (n - k) za,
                  map rb [0..<k] @ replicate (n - k) zb,
                  map rc [0..<k] @ replicate (n - k) zc)"
  using \<open>k \<le> n\<close>
proof (induction k)
  case 0
  then show ?case by simp
next
  case (Suc k)
  then have k: "k < n" by simp
  let ?a = "map ra [0..<k] @ replicate (n - k) za"
  let ?b = "map rb [0..<k] @ replicate (n - k) zb"
  let ?c = "map rc [0..<k] @ replicate (n - k) zc"
  have "length ?a = n" "length ?b = n" "length ?c = n" using k by simp_all
  moreover have "?b ! k = zb" "?c ! k = zc" using k by (simp_all add: nth_append)
  ultimately have "f k (?a, ?b, ?c) = Inr (?a[k := ra k], ?b[k := rb k], ?c[k := rc k])"
    using step k by blast
  with Suc k show ?case
    by (simp add: foldM_err_snoc fill_row_step)
qed

lemma fill_three:
  assumes "\<And>i a b c. i < n \<Longrightarrow> length a = n \<Longrightarrow> length b = n \<Longrightarrow> length c = n
                   \<Longrightarrow> b ! i = zb \<Longrightarrow> c ! i = zc
                   \<Longrightarrow> f i (a, b, c) = Inr (a[i := ra i], b[i := rb i], c[i := rc i])"
  shows "foldM_err f [0..<n] (replicate n za, replicate n zb, replicate n zc)
           = Inr (map ra [0..<n], map rb [0..<n], map rc [0..<n])"
  using fill_three_upto[where k = n and n = n and f = f and ra = ra and rb = rb and rc = rc
                          and za = za and zb = zb and zc = zc] assms
  by simp

lemma zip_map_upt:
  "length xs = n \<Longrightarrow> zip xs (map f [0..<n]) = map (\<lambda>i. (xs ! i, f i)) [0..<n]"
  by (rule nth_equalityI) simp_all

lemma length_concat_pairs: "length (concat (map (\<lambda>i. [f i, h i]) xs)) = 2 * length xs"
  by (induction xs) simp_all

lemma KSMax_sens_step_eq:
  assumes "i < n" and "2 * n \<le> length (KSMaxThicknessToChordConstraint.coords self)"
      and "2 \<le> length (leTePts self)"
      and "length a = n" and "length b = n" and "length c = n"
      and "b ! i = replicate 2 fzero" and "c ! i = replicate 2 fzero"
  shows "KSMax_sens_step eDist_b self i (a, b, c) =
           Inr (a[i := (if divideByChord self
                        then np_div (Some (eDist (KSMaxThicknessToChordConstraint.coords self ! (2 * i))
                                                 (KSMaxThicknessToChordConstraint.coords self ! (2 * i + 1))))
                                    (Some (eDist (leTePts self ! 0) (leTePts self ! 1)))
                        else Some (eDist (KSMaxThicknessToChordConstraint.coords self ! (2 * i))
                                         (KSMaxThicknessToChordConstraint.coords self ! (2 * i + 1))))],
                b[i := [if divideByChord self
                        then vdivs (fst (eDist_b (KSMaxThicknessToChordConstraint.coords self ! (2 * i))
                                                 (KSMaxThicknessToChordConstraint.coords self ! (2 * i + 1))))
                                   (Some (eDist (leTePts self ! 0) (leTePts self ! 1)))
                        else fst (eDist_b (KSMaxThicknessToChordConstraint.coords self ! (2 * i))
                                          (KSMaxThicknessToChordConstraint.coords self ! (2 * i + 1))),
                        if divideByChord self
                        then vdivs (snd (eDist_b (KSMaxThicknessToChordConstraint.coords self ! (2 * i))
                                                 (KSMaxThicknessToChordConstraint.coords self ! (2 * i + 1))))
                                   (Some (eDist (leTePts self ! 0) (leTePts self ! 1)))
                        else snd (eDist_b (KSMaxThicknessToChordConstraint.coords self ! (2 * i))
                                          (KSMaxThicknessToChordConstraint.coords self ! (2 * i + 1)))]],
                c[i := [if divideByChord self
                        then chord_seed (fst (eDist_b (leTePts self ! 0) (leTePts self ! 1)))
                               (eDist (KSMaxThicknessToChordConstraint.coords self ! (2 * i))
                                      (KSMaxThicknessToChordConstraint.coords self ! (2 * i + 1)))
                               (eDist (leTePts self ! 0) (leTePts self ! 1))
                        else fzero,
                        if divideByChord self
                        then chord_seed (snd (eDist_b (leTePts self ! 0) (leTePts self ! 1)))
                               (eDist (KSMaxThicknessToChordConstraint.coords self ! (2 * i))
                                      (KSMaxThicknessToChordConstraint.coords self ! (2 * i + 1)))
                               (eDist (leTePts self ! 0) (leTePts self ! 1))
                        else fzero]])"
proof -
  have z: "replicate 2 fzero = [fzero, fzero]" by (simp add: numeral_2_eq_2)
  have c: "c[i := [fzero, fzero]] = c" using assms by (simp add: z list_update_same_conv)
  show ?thesis
    using assms c
    by (auto simp: KSMax_sens_step_def getitem_def setitem1_def setitem3_def Let_def z
        split: prod.splits)
qed

lemma KSMax_evalFunctionsSens_eq:
  assumes ndv: "0 < getNDV g"
      and len: "2 * nPoint self \<le> length (KSMaxThicknessToChordConstraint.coords self)"
               "2 \<le> length (leTePts self)"
      and der: "\<forall>xs. length (fst (KS_derivatives xs (rho self) (ksApproach self))) = length xs"
  shows "KSMaxThicknessToChordConstraint_evalFunctionsSens eDist_b KS_derivatives self g funcsSens cfg =
     (let cs = KSMaxThicknessToChordConstraint.coords self;
          c = eDist (leTePts self ! 0) (leTePts self ! 1);
          cb = eDist_b (leTePts self ! 0) (leTePts self ! 1);
          t = (\<lambda>i. eDist (cs ! (2 * i)) (cs ! (2 * i + 1)));
          tb = (\<lambda>i. eDist_b (cs ! (2 * i)) (cs ! (2 * i + 1)));
          ToC = map (\<lambda>i. if divideByChord self then np_div (Some (t i)) (Some c) else Some (t i))
                    [0..<nPoint self];
          d = fst (KS_derivatives ToC (rho self) (ksApproach self));
          dKSdToC = (if KSMaxThicknessToChordConstraint.scaled self
                     then map (\<lambda>x. np_div x (max0 self)) d else d);
          dKSdCoords = concat (map
             (\<lambda>i. [vmuls (if divideByChord self then vdivs (fst (tb i)) (Some c) else fst (tb i))
                          (dKSdToC ! i),
                   vmuls (if divideByChord self then vdivs (snd (tb i)) (Some c) else snd (tb i))
                          (dKSdToC ! i)])
             [0..<nPoint self]);
          dKSdLeTePts = map
             (\<lambda>pb. foldl fvec_add fzero (map
                (\<lambda>i. vmuls (if divideByChord self then chord_seed pb (t i) c else fzero) (dKSdToC ! i))
                [0..<nPoint self]))
             [fst cb, snd cb];
          tmp0 = totalSensitivity g (Array2 dKSdCoords) (name self @ ''_coords'') cfg;
          tmp1 = totalSensitivity g (Array2 dKSdLeTePts) (name self @ ''_lete'') cfg
      in (self,
          g\<lparr>calls := calls g @ [GetNDV,
                                  TotalSensitivity (Array2 dKSdCoords) (name self @ ''_coords'') cfg,
                                  TotalSensitivity (Array2 dKSdLeTePts) (name self @ ''_lete'') cfg]\<rparr>,
          case KSMax_tmpTotal tmp0 tmp1 of
            Inl e \<Rightarrow> Inl e
          | Inr tmpTotal \<Rightarrow> Inr (funcsSens(name self \<mapsto> tmpTotal))))"
proof -
  let ?n = "nPoint self"
  let ?cs = "KSMaxThicknessToChordConstraint.coords self"
  let ?c = "eDist (leTePts self ! 0) (leTePts self ! 1)"
  let ?cb = "eDist_b (leTePts self ! 0) (leTePts self ! 1)"
  let ?t = "\<lambda>i. eDist (?cs ! (2 * i)) (?cs ! (2 * i + 1))"
  let ?tb = "\<lambda>i. eDist_b (?cs ! (2 * i)) (?cs ! (2 * i + 1))"
  let ?toc = "\<lambda>i. if divideByChord self then np_div (Some (?t i)) (Some ?c) else Some (?t i)"
  let ?ra = "\<lambda>i. [if divideByChord self then vdivs (fst (?tb i)) (Some ?c) else fst (?tb i),
                  if divideByChord self then vdivs (snd (?tb i)) (Some ?c) else snd (?tb i)]"
  let ?rb = "\<lambda>i. [if divideByChord self then chord_seed (fst ?cb) (?t i) ?c else fzero,
                  if divideByChord self then chord_seed (snd ?cb) (?t i) ?c else fzero]"
  define ToC where "ToC = map ?toc [0..<?n]"
  define d where "d = fst (KS_derivatives ToC (rho self) (ksApproach self))"
  define dKS where "dKS = (if KSMaxThicknessToChordConstraint.scaled self
                           then map (\<lambda>x. np_div x (max0 self)) d else d)"
  have loop: "foldM_err (KSMax_sens_step eDist_b self) [0..<?n]
          (replicate ?n (Some 0), replicate ?n (replicate 2 fzero), replicate ?n (replicate 2 fzero))
        = Inr (ToC, map ?ra [0..<?n], map ?rb [0..<?n])"
    unfolding ToC_def
    by (rule fill_three) (rule KSMax_sens_step_eq[OF _ len])
  have lend: "length dKS = ?n"
    using der by (simp add: dKS_def d_def ToC_def)
  have e1: "einsum_i_ijk_ijk dKS (map ?ra [0..<?n])
              = Inr (map (\<lambda>i. [vmuls (?ra i ! 0) (dKS ! i), vmuls (?ra i ! 1) (dKS ! i)]) [0..<?n])"
    using lend by (simp add: einsum_i_ijk_ijk_def broadcast_i_def zip_map_upt)
  have r: "reshape_n_3 (map (\<lambda>i. [vmuls (?ra i ! 0) (dKS ! i), vmuls (?ra i ! 1) (dKS ! i)]) [0..<?n]) (?n * 2)
             = Inr (concat (map (\<lambda>i. [vmuls (?ra i ! 0) (dKS ! i), vmuls (?ra i ! 1) (dKS ! i)]) [0..<?n]))"
    by (simp add: reshape_n_3_def length_concat_pairs)
  have e2: "einsum_i_ijk_jk dKS (map ?rb [0..<?n])
              = Inr (map (\<lambda>pb. foldl fvec_add fzero (map
                      (\<lambda>i. vmuls (if divideByChord self then chord_seed pb (?t i) ?c else fzero) (dKS ! i))
                      [0..<?n])) [fst ?cb, snd ?cb])"
    using lend by (simp add: einsum_i_ijk_jk_def broadcast_i_def zip_map_upt comp_def cong: if_cong)
  show ?thesis
    using ndv
    apply (simp only: KSMaxThicknessToChordConstraint_evalFunctionsSens_def DVGeo_getNDV_def
        py_range_def nat_int Let_def prod.case if_True loop sum.case
        ToC_def[symmetric] d_def[symmetric] dKS_def[symmetric])
    apply (simp only: e1 r e2 sum.case DVGeo_totalSensitivity_def prod.case)
    apply (simp add: Let_def split: sum.splits)
    done
qed


text \<open>
  C3 (as amended). With design variables, \<open>evalFunctionsSens\<close> of a
  \<open>KSMaxThicknessToChordConstraint\<close> applies the chain rule to the derivative \<open>dKSdToC\<close>
  of the KS aggregate, which it first divides by \<open>max0\<close> when \<open>scaled\<close>. The seed of
  the end \<open>k\<close> of toothpick \<open>i\<close> is \<open>dKSdToC[i]\<close> times the seed of \<open>eDist_b\<close>, divided
  by the chord \<open>c\<close> when \<open>divideByChord\<close>. The seed of the leading-edge (trailing-edge)
  point is the sum over \<open>i\<close> of \<open>dKSdToC[i]\<close> times \<open>-seed * t / c**2\<close> when
  \<open>divideByChord\<close>, and of \<open>dKSdToC[i]\<close> times zero otherwise. The two arrays go to
  \<open>DVGeo.totalSensitivity\<close> for the point sets \<open>name_coords\<close> and \<open>name_lete\<close>.
  \<open>KSfunction.derivatives\<close> returns one derivative per entry.
\<close>

theorem KSMax_evalFunctionsSens_chain_rule:
  "0 < getNDV g \<longrightarrow>
   2 * nPoint self \<le> length (KSMaxThicknessToChordConstraint.coords self) \<longrightarrow>
   2 \<le> length (leTePts self) \<longrightarrow>
   (\<forall>xs. length (fst (KS_derivatives xs (rho self) (ksApproach self))) = length xs) \<longrightarrow>
   KSMaxThicknessToChordConstraint_evalFunctionsSens eDist_b KS_derivatives self g funcsSens cfg =
     (let cs = KSMaxThicknessToChordConstraint.coords self;
          c = eDist (leTePts self ! 0) (leTePts self ! 1);
          cb = eDist_b (leTePts self ! 0) (leTePts self ! 1);
          t = (\<lambda>i. eDist (cs ! (2 * i)) (cs ! (2 * i + 1)));
          tb = (\<lambda>i. eDist_b (cs ! (2 * i)) (cs ! (2 * i + 1)));
          ToC = map (\<lambda>i. if divideByChord self then np_div (Some (t i)) (Some c) else Some (t i))
                    [0..<nPoint self];
          d = fst (KS_derivatives ToC (rho self) (ksApproach self));
          dKSdToC = (if KSMaxThicknessToChordConstraint.scaled self
                     then map (\<lambda>x. np_div x (max0 self)) d else d);
          dKSdCoords = concat (map
             (\<lambda>i. [vmuls (if divideByChord self then vdivs (fst (tb i)) (Some c) else fst (tb i))
                          (dKSdToC ! i),
                   vmuls (if divideByChord self then vdivs (snd (tb i)) (Some c) else snd (tb i))
                          (dKSdToC ! i)])
             [0..<nPoint self]);
          dKSdLeTePts = map
             (\<lambda>pb. foldl fvec_add fzero (map
                (\<lambda>i. vmuls (if divideByChord self then chord_seed pb (t i) c else fzero) (dKSdToC ! i))
                [0..<nPoint self]))
             [fst cb, snd cb];
          tmp0 = totalSensitivity g (Array2 dKSdCoords) (name self @ ''_coords'') cfg;
          tmp1 = totalSensitivity g (Array2 dKSdLeTePts) (name self @ ''_lete'') cfg
      in (self,
          g\<lparr>calls := calls g @ [GetNDV,
                                  TotalSensitivity (Array2 dKSdCoords) (name self @ ''_coords'') cfg,
                                  TotalSensitivity (Array2 dKSdLeTePts) (name self @ ''_lete'') cfg]\<rparr>,
          case KSMax_tmpTotal tmp0 tmp1 of
            Inl e \<Rightarrow> Inl e
          | Inr tmpTotal \<Rightarrow> Inr (funcsSens(name self \<mapsto> tmpTotal))))"
  using KSMax_evalFunctionsSens_eq[of g self KS_derivatives eDist_b funcsSens cfg] by blast

theorem KSMax_evalFunctionsSens_chain_rule_witness:
  "0 < getNDV (\<lparr>calls = [], update = (\<lambda>n c. []), getNDV = 1,
        totalSensitivity = (\<lambda>s n c. [(''x'', 1)])\<rparr> :: (nat, int) DVGeo)
   \<and> (\<forall>xs. length (fst ((\<lambda>xs r a. (map (\<lambda>x. Some 1) xs, ())) xs 1 ''continuous'')) = length xs)
   \<and> KSMaxThicknessToChordConstraint_evalFunctionsSens (\<lambda>a b. ((Some 0, Some 0, Some (- 1)), (Some 0, Some 0, Some 1))) (\<lambda>xs r a. (map (\<lambda>x. Some 1) xs, ()))
        \<lparr>name = ''k'', nCon = 1, lower = 0::real, upper = 0, scale = 1, addToPyOpt = True,
        nPoint = 1, KSMaxThicknessToChordConstraint.coords = [(0, 0, 0), (0, 0, 1)],
        leTePts = [(0, 0, 0), (2, 0, 0)], KSMaxThicknessToChordConstraint.scaled = True,
        rho = 1, ksApproach = ''continuous'', divideByChord = True,
        KSMaxThicknessToChordConstraint.ToC0 = [Some (1 / 2)], max0 = Some (1 / 2)\<rparr>
        (\<lparr>calls = [], update = (\<lambda>n c. []), getNDV = 1,
        totalSensitivity = (\<lambda>s n c. [(''x'', 1)])\<rparr> :: (nat, int) DVGeo) Map.empty None
     = (\<lparr>name = ''k'', nCon = 1, lower = 0::real, upper = 0, scale = 1, addToPyOpt = True,
        nPoint = 1, KSMaxThicknessToChordConstraint.coords = [(0, 0, 0), (0, 0, 1)],
        leTePts = [(0, 0, 0), (2, 0, 0)], KSMaxThicknessToChordConstraint.scaled = True,
        rho = 1, ksApproach = ''continuous'', divideByChord = True,
        KSMaxThicknessToChordConstraint.ToC0 = [Some (1 / 2)], max0 = Some (1 / 2)\<rparr>,
        (\<lparr>calls = [], update = (\<lambda>n c. []), getNDV = 1,
        totalSensitivity = (\<lambda>s n c. [(''x'', 1)])\<rparr> :: (nat, int) DVGeo)\<lparr>calls := [GetNDV,
           TotalSensitivity (Array2 [(Some 0, Some 0, Some (- 1)), (Some 0, Some 0, Some 1)]) ''k_coords'' None,
           TotalSensitivity (Array2 [(Some 0, Some 0, Some (1 / 2)), (Some 0, Some 0, Some (- 1 / 2))]) ''k_lete'' None]\<rparr>,
        Inr [''k'' \<mapsto> [(''x'', 2)]])"
proof -
  have sq: "eDist (0, 0, 0) (0, 0, 1) = 1" "eDist (0, 0, 0) (2, 0, 0) = 2"
    by (simp_all add: eDist_def euclideanNorm_def vsub_def vzip_def)
  have g: "0 < getNDV (\<lparr>calls = [], update = (\<lambda>n c. []), getNDV = 1,
        totalSensitivity = (\<lambda>s n c. [(''x'', 1)])\<rparr> :: (nat, int) DVGeo)" by simp
  have d: "\<forall>xs. length (fst ((\<lambda>xs r a. (map (\<lambda>x. Some 1) xs, ())) xs 1 ''continuous'')) = length xs"
    by simp
  have e: "KSMaxThicknessToChordConstraint_evalFunctionsSens (\<lambda>a b. ((Some 0, Some 0, Some (- 1)), (Some 0, Some 0, Some 1))) (\<lambda>xs r a. (map (\<lambda>x. Some 1) xs, ()))
        \<lparr>name = ''k'', nCon = 1, lower = 0::real, upper = 0, scale = 1, addToPyOpt = True,
        nPoint = 1, KSMaxThicknessToChordConstraint.coords = [(0, 0, 0), (0, 0, 1)],
        leTePts = [(0, 0, 0), (2, 0, 0)], KSMaxThicknessToChordConstraint.scaled = True,
        rho = 1, ksApproach = ''continuous'', divideByChord = True,
        KSMaxThicknessToChordConstraint.ToC0 = [Some (1 / 2)], max0 = Some (1 / 2)\<rparr>
        (\<lparr>calls = [], update = (\<lambda>n c. []), getNDV = 1,
        totalSensitivity = (\<lambda>s n c. [(''x'', 1)])\<rparr> :: (nat, int) DVGeo) Map.empty None
     = (\<lparr>name = ''k'', nCon = 1, lower = 0::real, upper = 0, scale = 1, addToPyOpt = True,
        nPoint = 1, KSMaxThicknessToChordConstraint.coords = [(0, 0, 0), (0, 0, 1)],
        leTePts = [(0, 0, 0), (2, 0, 0)], KSMaxThicknessToChordConstraint.scaled = True,
        rho = 1, ksApproach = ''continuous'', divideByChord = True,
        KSMaxThicknessToChordConstraint.ToC0 = [Some (1 / 2)], max0 = Some (1 / 2)\<rparr>,
        (\<lparr>calls = [], update = (\<lambda>n c. []), getNDV = 1,
        totalSensitivity = (\<lambda>s n c. [(''x'', 1)])\<rparr> :: (nat, int) DVGeo)\<lparr>calls := [GetNDV,
           TotalSensitivity (Array2 [(Some 0, Some 0, Some (- 1)), (Some 0, Some 0, Some 1)]) ''k_coords'' None,
           TotalSensitivity (Array2 [(Some 0, Some 0, Some (1 / 2)), (Some 0, Some 0, Some (- 1 / 2))]) ''k_lete'' None]\<rparr>,
        Inr [''k'' \<mapsto> [(''x'', 2)]])"
    using KSMax_evalFunctionsSens_chain_rule[of "(\<lparr>calls = [], update = (\<lambda>n c. []), getNDV = 1,
        totalSensitivity = (\<lambda>s n c. [(''x'', 1)])\<rparr> :: (nat, int) DVGeo)" "\<lparr>name = ''k'', nCon = 1, lower = 0::real, upper = 0, scale = 1, addToPyOpt = True,
        nPoint = 1, KSMaxThicknessToChordConstraint.coords = [(0, 0, 0), (0, 0, 1)],
        leTePts = [(0, 0, 0), (2, 0, 0)], KSMaxThicknessToChordConstraint.scaled = True,
        rho = 1, ksApproach = ''continuous'', divideByChord = True,
        KSMaxThicknessToChordConstraint.ToC0 = [Some (1 / 2)], max0 = Some (1 / 2)\<rparr>" "(\<lambda>xs r a. (map (\<lambda>x. Some 1) xs, ()))" "(\<lambda>a b. ((Some 0, Some 0, Some (- 1)), (Some 0, Some 0, Some 1)))" Map.empty None]
    by (simp add: Let_def sq chord_seed_def vdivs_def vmuls_def vneg_def vmap_def vzip_def
        fvec_add_def np_div_def np_mul_def np_neg_def np_add_def lift2_def fzero_def KSMax_tmpTotal_def)
  show ?thesis
    by (intro conjI) (rule g, rule d, rule e)
qed

text \<open>
  C3 as stated fails when \<open>divideByChord\<close> is false: the seeds of the leading-edge and
  trailing-edge points are zero, while \<open>-seed * t / c**2\<close> times \<open>dKSdToC[i]\<close> is not.
\<close>

theorem KSMax_evalFunctionsSens_chain_rule_counterexample:
  "calls (fst (snd (KSMaxThicknessToChordConstraint_evalFunctionsSens (\<lambda>a b. ((Some 0, Some 0, Some (- 1)), (Some 0, Some 0, Some 1))) (\<lambda>xs r a. (map (\<lambda>x. Some 1) xs, ()))
        \<lparr>name = ''k'', nCon = 1, lower = 0::real, upper = 0, scale = 1, addToPyOpt = True,
        nPoint = 1, KSMaxThicknessToChordConstraint.coords = [(0, 0, 0), (0, 0, 1)],
        leTePts = [(0, 0, 0), (2, 0, 0)], KSMaxThicknessToChordConstraint.scaled = False,
        rho = 1, ksApproach = ''continuous'', divideByChord = False,
        KSMaxThicknessToChordConstraint.ToC0 = [Some (1 / 2)], max0 = Some (1 / 2)\<rparr>
        (\<lparr>calls = [], update = (\<lambda>n c. []), getNDV = 1,
        totalSensitivity = (\<lambda>s n c. [(''x'', 1)])\<rparr> :: (nat, int) DVGeo) Map.empty None)))
     = [GetNDV,
        TotalSensitivity (Array2 [(Some 0, Some 0, Some (- 1)), (Some 0, Some 0, Some 1)]) ''k_coords'' None,
        TotalSensitivity (Array2 [(Some 0, Some 0, Some 0), (Some 0, Some 0, Some 0)]) ''k_lete'' None]
   \<and> map (\<lambda>pb. foldl fvec_add fzero (map
            (\<lambda>i. vmuls (chord_seed pb (eDist ([(0, 0, 0), (0, 0, 1)] ! (2 * i)) ([(0, 0, 0), (0, 0, 1)] ! (2 * i + 1)))
                                      (eDist (0, 0, 0) (2, 0, 0)))
                        (fst ((\<lambda>xs r a. (map (\<lambda>x. Some 1) xs, ())) [Some 1] 1 ''continuous'') ! i))
            [0..<1]))
         [fst ((\<lambda>a b. ((Some 0, Some 0, Some (- 1)), (Some 0, Some 0, Some 1))) (0, 0, 0) (2, 0, 0)), snd ((\<lambda>a b. ((Some 0, Some 0, Some (- 1)), (Some 0, Some 0, Some 1))) (0, 0, 0) (2, 0, 0))]
     = [(Some 0, Some 0, Some (1 / 4)), (Some 0, Some 0, Some (- 1 / 4))]"
proof -
  have sq: "eDist (0, 0, 0) (0, 0, 1) = 1" "eDist (0, 0, 0) (2, 0, 0) = 2"
    by (simp_all add: eDist_def euclideanNorm_def vsub_def vzip_def)
  have a: "calls (fst (snd (KSMaxThicknessToChordConstraint_evalFunctionsSens (\<lambda>a b. ((Some 0, Some 0, Some (- 1)), (Some 0, Some 0, Some 1))) (\<lambda>xs r a. (map (\<lambda>x. Some 1) xs, ()))
        \<lparr>name = ''k'', nCon = 1, lower = 0::real, upper = 0, scale = 1, addToPyOpt = True,
        nPoint = 1, KSMaxThicknessToChordConstraint.coords = [(0, 0, 0), (0, 0, 1)],
        leTePts = [(0, 0, 0), (2, 0, 0)], KSMaxThicknessToChordConstraint.scaled = False,
        rho = 1, ksApproach = ''continuous'', divideByChord = False,
        KSMaxThicknessToChordConstraint.ToC0 = [Some (1 / 2)], max0 = Some (1 / 2)\<rparr>
        (\<lparr>calls = [], update = (\<lambda>n c. []), getNDV = 1,
        totalSensitivity = (\<lambda>s n c. [(''x'', 1)])\<rparr> :: (nat, int) DVGeo) Map.empty None)))
     = [GetNDV,
        TotalSensitivity (Array2 [(Some 0, Some 0, Some (- 1)), (Some 0, Some 0, Some 1)]) ''k_coords'' None,
        TotalSensitivity (Array2 [(Some 0, Some 0, Some 0), (Some 0, Some 0, Some 0)]) ''k_lete'' None]"
    using KSMax_evalFunctionsSens_eq[of "(\<lparr>calls = [], update = (\<lambda>n c. []), getNDV = 1,
        totalSensitivity = (\<lambda>s n c. [(''x'', 1)])\<rparr> :: (nat, int) DVGeo)" "\<lparr>name = ''k'', nCon = 1, lower = 0::real, upper = 0, scale = 1, addToPyOpt = True,
        nPoint = 1, KSMaxThicknessToChordConstraint.coords = [(0, 0, 0), (0, 0, 1)],
        leTePts = [(0, 0, 0), (2, 0, 0)], KSMaxThicknessToChordConstraint.scaled = False,
        rho = 1, ksApproach = ''continuous'', divideByChord = False,
        KSMaxThicknessToChordConstraint.ToC0 = [Some (1 / 2)], max0 = Some (1 / 2)\<rparr>" "(\<lambda>xs r a. (map (\<lambda>x. Some 1) xs, ()))" "(\<lambda>a b. ((Some 0, Some 0, Some (- 1)), (Some 0, Some 0, Some 1)))" Map.empty None]
    by (simp add: Let_def sq chord_seed_def vdivs_def vmuls_def vneg_def vmap_def vzip_def
        fvec_add_def np_div_def np_mul_def np_neg_def np_add_def lift2_def fzero_def)
  have b: "map (\<lambda>pb. foldl fvec_add fzero (map
            (\<lambda>i. vmuls (chord_seed pb (eDist ([(0, 0, 0), (0, 0, 1)] ! (2 * i)) ([(0, 0, 0), (0, 0, 1)] ! (2 * i + 1)))
                                      (eDist (0, 0, 0) (2, 0, 0)))
                        (fst ((\<lambda>xs r a. (map (\<lambda>x. Some 1) xs, ())) [Some 1] 1 ''continuous'') ! i))
            [0..<1]))
         [fst ((\<lambda>a b. ((Some 0, Some 0, Some (- 1)), (Some 0, Some 0, Some 1))) (0, 0, 0) (2, 0, 0)), snd ((\<lambda>a b. ((Some 0, Some 0, Some (- 1)), (Some 0, Some 0, Some 1))) (0, 0, 0) (2, 0, 0))]
     = [(Some 0, Some 0, Some (1 / 4)), (Some 0, Some 0, Some (- 1 / 4))]"
    by (simp add: sq chord_seed_def vdivs_def vmuls_def vneg_def vmap_def vzip_def
        fvec_add_def np_div_def np_mul_def np_neg_def np_add_def lift2_def fzero_def)
  show ?thesis
    by (intro conjI) (rule a, rule b)
qed

subsection \<open>TESlopeConstraint: the complex step\<close>

lemma vget_vset_same: "vget (vset v j a) j = a"
  by (cases v) (simp add: vget_def vset_def)

lemma vget_vset_other: "j < 3 \<Longrightarrow> j' < 3 \<Longrightarrow> j \<noteq> j' \<Longrightarrow> vget (vset v j a) j' = vget v j'"
  by (cases v) (auto simp: vget_def vset_def)

lemma vset_vset: "vset (vset v j a) j b = vset v j b"
  by (cases v) (simp add: vset_def)

lemma vset_vget_id: "vset v j (vget v j) = v"
  by (cases v) (simp add: vget_def vset_def)

lemma perturbation_removed:
  fixes c :: "'a::group_add vec3 list"
  assumes "iadd2 c i j s = Inr c1"
  shows "isub2 c1 i j s = Inr c"
proof -
  from assms have i: "i < length c" and c1: "c1 = c[i := vset (c ! i) j (vget (c ! i) j + s)]"
    by (auto simp: iadd2_def split: if_splits)
  then show ?thesis
    by (simp add: isub2_def vget_vset_same vset_vset vset_vget_id)
qed

lemma length_evens: "length (evens xs) = (length xs + 1) div 2"
  by (induction xs rule: evens.induct) simp_all

lemma length_odds: "length (odds xs) = length xs div 2"
  by (induction xs rule: odds.induct) simp_all

lemma length_cumsum_from: "length (cumsum_from a xs) = length xs"
  by (induction xs arbitrary: a) simp_all

lemma broadcast_i_same: "length xs = length ys \<Longrightarrow> broadcast_i xs ys = Inr (zip xs ys)"
  by (simp add: broadcast_i_def)

lemma TESlopeConstraint_compute_ok:
  assumes "0 \<le> n" and "length cs = 2 * nat n + 1" and "scd \<longrightarrow> length tes0 = nat n"
  shows "\<exists>v. TESlopeConstraint_compute sq re of_r n tes0 cs scd = Inr v \<and> length v = nat n"
proof -
  have cs: "cs \<noteq> []" using assms(2) by auto
  have lt: "length (evens (butlast cs)) = nat n" "length (odds (butlast cs)) = nat n"
    using assms(2) by (simp_all add: length_evens length_odds)
  have one: "nat (n + 1) - nat n = 1" using assms(1) by simp
  show ?thesis
    using assms(1,3) cs
    by (simp add: TESlopeConstraint_compute_def Let_def broadcast_i_same lt assign_rows_def one
        cumsum_def length_cumsum_from)
qed


lemma foldM_err_invariant:
  assumes step: "\<And>x s D. x \<in> set xs \<Longrightarrow> I D s \<Longrightarrow> \<exists>s'. f x s = Inr s' \<and> I (insert x D) s'"
      and init: "I Dd s0"
  shows "\<exists>s'. foldM_err f xs s0 = Inr s' \<and> I (Dd \<union> set xs) s'"
  using assms
proof (induction xs arbitrary: s0 Dd)
  case Nil
  then show ?case by simp
next
  case (Cons x xs)
  from Cons.prems(1)[of x Dd s0] Cons.prems(2)
  obtain s1 where s1: "f x s0 = Inr s1" "I (insert x Dd) s1" by auto
  have "\<exists>s'. foldM_err f xs s1 = Inr s' \<and> I (insert x Dd \<union> set xs) s'"
    by (rule Cons.IH) (use Cons.prems(1) s1 in auto)
  with s1 show ?case by simp
qed

lemma set_column_eq:
  assumes "\<forall>k<length a. i < length (a ! k)" and "length col = length a"
  shows "set_column a i j col = Inr (map (\<lambda>(row, x). row[i := vset (row ! i) j x]) (zip a col))"
proof -
  have "\<not> (\<exists>row \<in> set a. length row \<le> i)"
    using assms(1) by (fastforce simp: in_set_conv_nth)
  then show ?thesis
    using assms(2) by (simp add: set_column_def assign_rows_def)
qed

lemma TESlopeConstraint_sens_step_eq:
  assumes add: "iadd2 cc i j step_imag = Inr c1"
      and cmp: "TESlopeConstraint_compute csqrt Re complex_of_real (nCon self) (teSlope0 self) c1
                  (TESlopeConstraint.scaled self) = Inr conVal"
      and len: "length conVal = length J"
      and rows: "\<forall>k<length J. i < length (J ! k)"
  shows "TESlopeConstraint_sens_step self i j (cc, J) =
           Inr (cc, map (\<lambda>(row, x). row[i := vset (row ! i) j x])
                      (zip J (map (\<lambda>z. np_div (map_option Im z) (Some step_real)) conVal)))"
  using add cmp perturbation_removed[OF add] set_column_eq[OF rows, of "map (\<lambda>z. np_div (map_option Im z) (Some step_real)) conVal" j] len
  by (simp add: TESlopeConstraint_sens_step_def)


lemma TESlopeConstraint_evalFunctionsSens_eq:
  assumes ndv: "0 < getNDV g" and n: "0 \<le> nCon self"
      and len: "length (TESlopeConstraint.coords self) = 2 * nat (nCon self) + 1"
      and sc: "TESlopeConstraint.scaled self \<longrightarrow> length (teSlope0 self) = nat (nCon self)"
  shows "\<exists>J. TESlopeConstraint_evalFunctionsSens self g funcsSens cfg =
               (self,
                g\<lparr>calls := calls g @ [GetNDV, TotalSensitivity (Array3 J) (name self) cfg]\<rparr>,
                Inr (funcsSens(name self \<mapsto> totalSensitivity g (Array3 J) (name self) cfg)))
           \<and> length J = nat (nCon self)
           \<and> (\<forall>k<nat (nCon self). length (J ! k) = length (TESlopeConstraint.coords self))
           \<and> (\<forall>i j. i < length (TESlopeConstraint.coords self) \<and> j < 3 \<longrightarrow>
                (\<exists>conVal.
                   TESlopeConstraint_compute csqrt Re complex_of_real (nCon self) (teSlope0 self)
                     ((map (vmap complex_of_real) (TESlopeConstraint.coords self))
                        [i := vset (map (vmap complex_of_real) (TESlopeConstraint.coords self) ! i) j
                                (vget (map (vmap complex_of_real) (TESlopeConstraint.coords self) ! i) j
                                 + step_imag)])
                     (TESlopeConstraint.scaled self) = Inr conVal
                 \<and> length conVal = nat (nCon self)
                 \<and> (\<forall>k<nat (nCon self).
                       vget (J ! k ! i) j = np_div (map_option Im (conVal ! k)) (Some step_real))))"
proof -
  let ?n = "nat (nCon self)"
  let ?cs = "TESlopeConstraint.coords self"
  let ?N = "length ?cs"
  let ?cc = "map (vmap complex_of_real) ?cs"
  let ?pert = "\<lambda>i j. ?cc[i := vset (?cc ! i) j (vget (?cc ! i) j + step_imag)]"
  let ?S = "{j::nat. j < 3}"
  have ok: "\<exists>v. TESlopeConstraint_compute csqrt Re complex_of_real (nCon self) (teSlope0 self) (?pert i j) (TESlopeConstraint.scaled self) = Inr v \<and> length v = ?n" for i j
    by (rule TESlopeConstraint_compute_ok) (use n len sc in simp_all)
  define conVal where
    "conVal = (\<lambda>i j. projr (TESlopeConstraint_compute csqrt Re complex_of_real (nCon self) (teSlope0 self) (?pert i j) (TESlopeConstraint.scaled self)))"
  have cv: "TESlopeConstraint_compute csqrt Re complex_of_real (nCon self) (teSlope0 self) (?pert i j) (TESlopeConstraint.scaled self) = Inr (conVal i j)"
           "length (conVal i j) = ?n" for i j
    using ok[of i j] by (auto simp: conVal_def)
  define entry where
    "entry = (\<lambda>i j k. np_div (map_option Im (conVal i j ! k)) (Some step_real))"
  define Inv where
    "Inv = (\<lambda>D (s :: complex vec3 list \<times> fvec list list).
              fst s = ?cc \<and> length (snd s) = ?n \<and> (\<forall>k<?n. length (snd s ! k) = ?N)
              \<and> (\<forall>i j. (i, j) \<in> D \<longrightarrow> j < 3 \<and> (\<forall>k<?n. vget (snd s ! k ! i) j = entry i j k)))"
  have step: "\<exists>s'. TESlopeConstraint_sens_step self i j s = Inr s' \<and> Inv (insert (i, j) D) s'"
    if inv: "Inv D s" and i: "i < ?N" and j: "j < 3" for i j D s
  proof -
    obtain J where s: "s = (?cc, J)" by (cases s) (use inv in \<open>auto simp: Inv_def\<close>)
    from inv have J: "length J = ?n" "\<forall>k<?n. length (J ! k) = ?N"
      and D: "\<forall>i' j'. (i', j') \<in> D \<longrightarrow> j' < 3 \<and> (\<forall>k<?n. vget (J ! k ! i') j' = entry i' j' k)"
      by (simp_all add: Inv_def s)
    have add: "iadd2 ?cc i j step_imag = Inr (?pert i j)"
      using i by (simp add: iadd2_def)
    let ?J' = "map (\<lambda>(row, x). row[i := vset (row ! i) j x])
                 (zip J (map (\<lambda>z. np_div (map_option Im z) (Some step_real)) (conVal i j)))"
    have eq: "TESlopeConstraint_sens_step self i j (?cc, J) = Inr (?cc, ?J')"
      by (rule TESlopeConstraint_sens_step_eq[OF add cv(1)]) (use J i cv(2) in simp_all)
    have nth: "?J' ! k = (J ! k)[i := vset (J ! k ! i) j (entry i j k)]" if "k < ?n" for k
      using that J cv(2)[of i j] by (simp add: entry_def)
    have l: "length ?J' = ?n" using J cv(2)[of i j] by simp
    have rows: "\<forall>k<?n. length (?J' ! k) = ?N" using J by (simp add: nth del: nth_map nth_zip)
    have ent: "vget (?J' ! k ! i') j' = entry i' j' k"
      if m: "(i', j') \<in> insert (i, j) D" and k: "k < ?n" for i' j' k
    proof (cases "i' = i")
      case False
      with m have "(i', j') \<in> D" by simp
      with D k have "vget (J ! k ! i') j' = entry i' j' k" by blast
      with False k show ?thesis by (simp add: nth del: nth_map nth_zip)
    next
      case True
      have ik: "i < length (J ! k)" using J k i by simp
      show ?thesis
      proof (cases "j' = j")
        case True
        with \<open>i' = i\<close> k ik show ?thesis
          by (simp add: nth vget_vset_same del: nth_map nth_zip)
      next
        case False
        with m \<open>i' = i\<close> have d: "(i', j') \<in> D" by simp
        with D k have e: "j' < 3" "vget (J ! k ! i') j' = entry i' j' k" by blast+
        with False \<open>i' = i\<close> k ik j show ?thesis
          by (simp add: nth vget_vset_other del: nth_map nth_zip)
      qed
    qed
    have j3: "j' < 3" if "(i', j') \<in> insert (i, j) D" for i' j'
      using that D j by auto
    have "Inv (insert (i, j) D) (?cc, ?J')"
      unfolding Inv_def using l rows ent j3 by (simp del: nth_map nth_zip)
    with eq s show ?thesis by blast
  qed
  have inner: "\<exists>s'. foldM_err (TESlopeConstraint_sens_step self i) (py_range 3) s = Inr s'
                    \<and> Inv (insert i Di \<times> ?S) s'"
    if inv: "Inv (Di \<times> ?S) s" and i: "i < ?N" for i Di s
  proof -
    have "\<exists>s'. foldM_err (TESlopeConstraint_sens_step self i) [0..<3] s = Inr s'
             \<and> Inv (Di \<times> ?S \<union> Pair i ` ({} \<union> set [0..<3])) s'"
    proof (rule foldM_err_invariant[where I = "\<lambda>Dj. Inv (Di \<times> ?S \<union> Pair i ` Dj)"])
      fix x s Dj
      assume x: "x \<in> set [0..<3]" and "Inv (Di \<times> ?S \<union> Pair i ` Dj) s"
      then have "\<exists>s'. TESlopeConstraint_sens_step self i x s = Inr s'
                     \<and> Inv (insert (i, x) (Di \<times> ?S \<union> Pair i ` Dj)) s'"
        using step i by simp
      then show "\<exists>s'. TESlopeConstraint_sens_step self i x s = Inr s'
                     \<and> Inv (Di \<times> ?S \<union> Pair i ` insert x Dj) s'"
        by simp
    next
      show "Inv (Di \<times> ?S \<union> Pair i ` {}) s" using inv by simp
    qed
    moreover have "Di \<times> ?S \<union> Pair i ` ({} \<union> set [0..<3]) = insert i Di \<times> ?S"
      by auto
    ultimately show ?thesis by (simp add: py_range_def)
  qed
  have init: "Inv ({} \<times> ?S) (?cc, replicate ?n (replicate ?N fzero))"
    by (simp add: Inv_def)
  have "\<exists>s'. foldM_err (\<lambda>i. foldM_err (TESlopeConstraint_sens_step self i) (py_range 3)) [0..<?N]
                 (?cc, replicate ?n (replicate ?N fzero)) = Inr s'
            \<and> Inv (({} \<union> set [0..<?N]) \<times> ?S) s'"
    by (rule foldM_err_invariant[where I = "\<lambda>Di. Inv (Di \<times> ?S)"]) (use inner init in auto)
  then obtain c' J where
    run: "foldM_err (\<lambda>i. foldM_err (TESlopeConstraint_sens_step self i) (py_range 3)) [0..<?N]
            (?cc, replicate ?n (replicate ?N fzero)) = Inr (c', J)"
    and fin: "Inv (({} \<union> set [0..<?N]) \<times> ?S) (c', J)"
    by auto
  have res: "TESlopeConstraint_evalFunctionsSens self g funcsSens cfg =
               (self,
                g\<lparr>calls := calls g @ [GetNDV, TotalSensitivity (Array3 J) (name self) cfg]\<rparr>,
                Inr (funcsSens(name self \<mapsto> totalSensitivity g (Array3 J) (name self) cfg)))"
    using ndv n run
    by (simp add: TESlopeConstraint_evalFunctionsSens_def DVGeo_getNDV_def np_zeros3_def
        py_range_def DVGeo_totalSensitivity_def Let_def)
  from fin have J: "length J = ?n" "\<forall>k<?n. length (J ! k) = ?N"
    and E: "\<forall>i j. i < ?N \<and> j < 3 \<longrightarrow> (\<forall>k<?n. vget (J ! k ! i) j = entry i j k)"
    by (auto simp: Inv_def)
  have "\<exists>cv. TESlopeConstraint_compute csqrt Re complex_of_real (nCon self) (teSlope0 self) (?pert i j) (TESlopeConstraint.scaled self) = Inr cv \<and> length cv = ?n
           \<and> (\<forall>k<?n. vget (J ! k ! i) j = np_div (map_option Im (cv ! k)) (Some step_real))"
    if "i < ?N \<and> j < 3" for i j
    using cv[of i j] E that by (auto simp: entry_def)
  with res J show ?thesis by blast
qed


lemma csqrt_4: "csqrt 4 = 2"
proof -
  have "csqrt ((2::complex)\<^sup>2) = 2" by (rule csqrt_square) simp
  then show ?thesis by simp
qed

lemma TESlope_value_at_TE:
  "TESlopeConstraint_compute sqrt (\<lambda>x. x) (\<lambda>x. x) 1 [] [(0, 0, 1), (0, 0, - 1), (x, 0, 0)] False
     = Inr [np_div (Some 2) (Some \<bar>x\<bar>)]"
  by (simp add: TESlopeConstraint_compute_def Let_def broadcast_i_def assign_rows_def vsub_def
      vadd_def vzip_def vmap_def sumsq_def cumsum_def)

lemma TESlope_step_at_TE:
  "TESlopeConstraint_compute csqrt Re complex_of_real 1 tes0
       [(0, 0, 1), (0, 0, - 1), (2 + step_imag, 0, 0)] False
     = Inr [Some 1]"
  by (simp add: TESlopeConstraint_compute_def Let_def broadcast_i_def assign_rows_def vsub_def
      vadd_def vzip_def vmap_def sumsq_def cumsum_def csqrt_4 step_imag_def np_div_def)

lemma TE_derivative: "((\<lambda>x. 2 / \<bar>x\<bar>) has_real_derivative - 1 / 2) (at 2)"
proof -
  have "((\<lambda>x::real. 2 / x) has_real_derivative - 1 / 2) (at 2)"
    by (auto intro!: derivative_eq_intros)
  then show ?thesis
    by (rule has_field_derivative_transform_within_open[where S = "{0<..}"]) simp_all
qed


text \<open>
  C4. \<open>evalFunctionsSens\<close> of a \<open>TESlopeConstraint\<close> perturbs one coordinate at a time by
  \<open>1e-40j\<close>, takes the imaginary part of \<open>_compute\<close> over \<open>1e-40\<close> as the column, and
  removes the perturbation, as the two lemmas above say. The array is not the Jacobian
  all the same. \<open>_compute\<close> calls its norms complex safe, but it stores the midpoints and
  the trailing-edge point into \<open>xMid\<close>, a \<open>float64\<close> array, which keeps their real parts
  only: the chords carry no step. For one toothpick from \<open>(0, 0, 1)\<close> to \<open>(0, 0, -1)\<close>
  and the trailing-edge point \<open>(x, 0, 0)\<close> the constraint is \<open>2 / |x|\<close>, whose derivative
  at \<open>x = 2\<close> is \<open>-1/2\<close>; the entry of the array for that coordinate is 0.
\<close>

theorem TESlope_complex_step_misses_chord:
  "TESlopeConstraint_compute sqrt (\<lambda>x. x) (\<lambda>x. x) 1 [] [(0, 0, 1), (0, 0, - 1), (x, 0, 0)] False
     = Inr [np_div (Some 2) (Some \<bar>x\<bar>)]
   \<and> ((\<lambda>x. 2 / \<bar>x\<bar>) has_real_derivative - 1 / 2) (at 2)
   \<and> snd (TESlopeConstraint_init ''s'' [(0, 0, 1), (0, 0, - 1), (2, 0, 0)] (0::real) 0 False 1
        (\<lparr>calls = [], update = (\<lambda>n c. []), getNDV = 1,
          totalSensitivity = (\<lambda>s n c. [(''x'', 1)])\<rparr> :: (nat, int) DVGeo) True None)
     = Inr \<lparr>name = ''s'', nCon = 1, lower = 0::real, upper = 0, scale = 1, addToPyOpt = True,
          TESlopeConstraint.coords = [(0, 0, 1), (0, 0, - 1), (2, 0, 0)],
          TESlopeConstraint.scaled = False, teSlope0 = [Some 1]\<rparr>
   \<and> TESlopeConstraint_compute csqrt Re complex_of_real 1 [Some 1]
        [(0, 0, 1), (0, 0, - 1), (2 + step_imag, 0, 0)] False
     = Inr [Some 1]
   \<and> (\<exists>J. TESlopeConstraint_evalFunctionsSens
          \<lparr>name = ''s'', nCon = 1, lower = 0::real, upper = 0, scale = 1, addToPyOpt = True,
          TESlopeConstraint.coords = [(0, 0, 1), (0, 0, - 1), (2, 0, 0)],
          TESlopeConstraint.scaled = False, teSlope0 = [Some 1]\<rparr>
          (\<lparr>calls = [], update = (\<lambda>n c. []), getNDV = 1,
          totalSensitivity = (\<lambda>s n c. [(''x'', 1)])\<rparr> :: (nat, int) DVGeo) Map.empty None
        = (\<lparr>name = ''s'', nCon = 1, lower = 0::real, upper = 0, scale = 1, addToPyOpt = True,
          TESlopeConstraint.coords = [(0, 0, 1), (0, 0, - 1), (2, 0, 0)],
          TESlopeConstraint.scaled = False, teSlope0 = [Some 1]\<rparr>,
           (\<lparr>calls = [], update = (\<lambda>n c. []), getNDV = 1,
          totalSensitivity = (\<lambda>s n c. [(''x'', 1)])\<rparr> :: (nat, int) DVGeo)\<lparr>calls := [GetNDV, TotalSensitivity (Array3 J) ''s'' None]\<rparr>,
           Inr [''s'' \<mapsto> [(''x'', 1)]])
        \<and> vget (J ! 0 ! 2) 0 = Some 0)"
proof -
  let ?g = "(\<lparr>calls = [], update = (\<lambda>n c. []), getNDV = 1,
          totalSensitivity = (\<lambda>s n c. [(''x'', 1)])\<rparr> :: (nat, int) DVGeo)"
  let ?K = "\<lparr>name = ''s'', nCon = 1, lower = 0::real, upper = 0, scale = 1, addToPyOpt = True,
          TESlopeConstraint.coords = [(0, 0, 1), (0, 0, - 1), (2, 0, 0)],
          TESlopeConstraint.scaled = False, teSlope0 = [Some 1]\<rparr>"
  have init: "snd (TESlopeConstraint_init ''s'' [(0, 0, 1), (0, 0, - 1), (2, 0, 0)] (0::real) 0 False 1
        ?g True None) = Inr ?K"
    by (simp add: TESlopeConstraint_init_def GeometricConstraint_init_def
        GeometricConstraint.extend_def TESlope_value_at_TE np_div_def Let_def)
  have "\<exists>J. TESlopeConstraint_evalFunctionsSens ?K ?g Map.empty None =
               (?K,
                ?g\<lparr>calls := calls ?g @ [GetNDV, TotalSensitivity (Array3 J) (name ?K) None]\<rparr>,
                Inr (Map.empty(name ?K \<mapsto> totalSensitivity ?g (Array3 J) (name ?K) None)))
           \<and> length J = nat (nCon ?K)
           \<and> (\<forall>k<nat (nCon ?K). length (J ! k) = length (TESlopeConstraint.coords ?K))
           \<and> (\<forall>i j. i < length (TESlopeConstraint.coords ?K) \<and> j < 3 \<longrightarrow>
                (\<exists>conVal.
                   TESlopeConstraint_compute csqrt Re complex_of_real (nCon ?K) (teSlope0 ?K)
                     ((map (vmap complex_of_real) (TESlopeConstraint.coords ?K))
                        [i := vset (map (vmap complex_of_real) (TESlopeConstraint.coords ?K) ! i) j
                                (vget (map (vmap complex_of_real) (TESlopeConstraint.coords ?K) ! i) j
                                 + step_imag)])
                     (TESlopeConstraint.scaled ?K) = Inr conVal
                 \<and> length conVal = nat (nCon ?K)
                 \<and> (\<forall>k<nat (nCon ?K).
                       vget (J ! k ! i) j = np_div (map_option Im (conVal ! k)) (Some step_real))))"
    by (rule TESlopeConstraint_evalFunctionsSens_eq) simp_all
  then obtain J where e: "TESlopeConstraint_evalFunctionsSens ?K ?g Map.empty None =
               (?K,
                ?g\<lparr>calls := calls ?g @ [GetNDV, TotalSensitivity (Array3 J) (name ?K) None]\<rparr>,
                Inr (Map.empty(name ?K \<mapsto> totalSensitivity ?g (Array3 J) (name ?K) None)))"
    and col: "\<forall>i j. i < length (TESlopeConstraint.coords ?K) \<and> j < 3 \<longrightarrow>
                (\<exists>conVal.
                   TESlopeConstraint_compute csqrt Re complex_of_real (nCon ?K) (teSlope0 ?K)
                     ((map (vmap complex_of_real) (TESlopeConstraint.coords ?K))
                        [i := vset (map (vmap complex_of_real) (TESlopeConstraint.coords ?K) ! i) j
                                (vget (map (vmap complex_of_real) (TESlopeConstraint.coords ?K) ! i) j
                                 + step_imag)])
                     (TESlopeConstraint.scaled ?K) = Inr conVal
                 \<and> length conVal = nat (nCon ?K)
                 \<and> (\<forall>k<nat (nCon ?K).
                       vget (J ! k ! i) j = np_div (map_option Im (conVal ! k)) (Some step_real)))"
    by (elim exE conjE) (rule that)
  have "2 < length (TESlopeConstraint.coords ?K) \<and> (0::nat) < 3" by simp
  with col obtain conVal where
    cv: "TESlopeConstraint_compute csqrt Re complex_of_real (nCon ?K) (teSlope0 ?K)
           ((map (vmap complex_of_real) (TESlopeConstraint.coords ?K))
              [2 := vset (map (vmap complex_of_real) (TESlopeConstraint.coords ?K) ! 2) 0
                      (vget (map (vmap complex_of_real) (TESlopeConstraint.coords ?K) ! 2) 0
                       + step_imag)])
           (TESlopeConstraint.scaled ?K) = Inr conVal"
    and en: "\<forall>k<nat (nCon ?K).
               vget (J ! k ! 2) 0 = np_div (map_option Im (conVal ! k)) (Some step_real)"
    by blast
  from cv have "conVal = [Some 1]"
    by (simp add: vmap_def vset_def vget_def TESlope_step_at_TE)
  with en have z: "vget (J ! 0 ! 2) 0 = Some 0"
    by (simp add: np_div_def step_real_def)
  have c: "\<exists>J. TESlopeConstraint_evalFunctionsSens ?K ?g Map.empty None
        = (?K, ?g\<lparr>calls := [GetNDV, TotalSensitivity (Array3 J) ''s'' None]\<rparr>,
           Inr [''s'' \<mapsto> [(''x'', 1)]])
        \<and> vget (J ! 0 ! 2) 0 = Some 0"
    by (rule exI[of _ J]) (use e z in simp)
  show ?thesis
    by (intro conjI) (rule TESlope_value_at_TE, rule TE_derivative, rule init,
        rule TESlope_step_at_TE, rule c)
qed

end
